theory Spec2Isabelle
  imports Complex_Main
begin

section \<open>Python values\<close>

text \<open>
  The plugins exchange JSON documents with their host and keep what they receive in
  dynamically typed fields. A Python \<open>float\<close> is a finite rational, an infinity or
  NaN (\<open>json.loads\<close> accepts the tokens \<open>NaN\<close> and \<open>Infinity\<close>); only comparisons
  of floats occur in the modelled code, and these agree with the comparisons below.
\<close>

datatype pyfloat = Fin rat | PosInf | NegInf | NaN

datatype json =
    JNull
  | JBool bool
  | JInt int
  | JFloat pyfloat
  | JStr string
  | JArr "json list"
  | JObj "(string \<times> json) list"

text \<open>Exceptions carry the text that \<open>str(e)\<close> shows (for a KeyError, the key).\<close>

datatype exn =
    KeyError string
  | ValueError string
  | TypeError string
  | AttributeError string
  | OverflowError string
  | RecursionError string

text \<open>
  What \<open>json.loads\<close> does with a line: it returns the document, raises
  \<open>json.JSONDecodeError\<close>, or raises another exception (a \<open>RecursionError\<close> on a document
  nested too deeply, a plain \<open>ValueError\<close> on an integer literal with too many digits).
\<close>

datatype loads_result =
    Loaded json
  | JSONDecodeError
  | LoadsRaised exn

type_synonym datetime = rat

text \<open>
  Library functions of the Python runtime that the plugins call and whose definitions are
  not part of the repository: every result below holds for each choice of them.
\<close>

record runtime =
  json_loads :: "string \<Rightarrow> loads_result"
  py_str :: "json \<Rightarrow> string"
  shlex_split :: "string \<Rightarrow> string + string list"
  float_of_string :: "string \<Rightarrow> string + pyfloat"
  int_of_string :: "string \<Rightarrow> string + int"
  float_of_bigint :: "int \<Rightarrow> pyfloat option"
  type_error_text :: "string \<Rightarrow> json \<Rightarrow> string"

fun fle :: "pyfloat \<Rightarrow> pyfloat \<Rightarrow> bool" where
  "fle NaN b = False"
| "fle a NaN = False"
| "fle (Fin a) (Fin b) = (a \<le> b)"
| "fle NegInf b = True"
| "fle a PosInf = True"
| "fle PosInf b = False"
| "fle a NegInf = False"

fun flt :: "pyfloat \<Rightarrow> pyfloat \<Rightarrow> bool" where
  "flt NaN b = False"
| "flt a NaN = False"
| "flt (Fin a) (Fin b) = (a < b)"
| "flt PosInf b = False"
| "flt a NegInf = False"
| "flt NegInf b = True"
| "flt a PosInf = True"

definition fge :: "pyfloat \<Rightarrow> pyfloat \<Rightarrow> bool" where
  "fge a b = fle b a"

definition fgt :: "pyfloat \<Rightarrow> pyfloat \<Rightarrow> bool" where
  "fgt a b = flt b a"

fun type_name :: "json \<Rightarrow> string" where
  "type_name JNull = ''NoneType''"
| "type_name (JBool b) = ''bool''"
| "type_name (JInt i) = ''int''"
| "type_name (JFloat f) = ''float''"
| "type_name (JStr s) = ''str''"
| "type_name (JArr xs) = ''list''"
| "type_name (JObj kvs) = ''dict''"

fun truthy :: "json \<Rightarrow> bool" where
  "truthy JNull = False"
| "truthy (JBool b) = b"
| "truthy (JInt i) = (i \<noteq> 0)"
| "truthy (JFloat (Fin r)) = (r \<noteq> 0)"
| "truthy (JFloat f) = True"
| "truthy (JStr s) = (s \<noteq> [])"
| "truthy (JArr xs) = (xs \<noteq> [])"
| "truthy (JObj kvs) = (kvs \<noteq> [])"

definition str_exn :: "exn \<Rightarrow> string" where
  "str_exn e =
     (case e of
        KeyError k \<Rightarrow> [CHR 0x27] @ k @ [CHR 0x27]
      | ValueError m \<Rightarrow> m
      | TypeError m \<Rightarrow> m
      | AttributeError m \<Rightarrow> m
      | OverflowError m \<Rightarrow> m
      | RecursionError m \<Rightarrow> m)"

definition no_attribute :: "json \<Rightarrow> string \<Rightarrow> exn" where
  "no_attribute v a =
     AttributeError ([CHR 0x27] @ type_name v @ [CHR 0x27] @ '' object has no attribute ''
        @ [CHR 0x27] @ a @ [CHR 0x27])"

text \<open>\<open>d.get(key, default)\<close>: only a dict has the method.\<close>

fun dict_get :: "json \<Rightarrow> string \<Rightarrow> json \<Rightarrow> exn + json" where
  "dict_get (JObj kvs) k dflt = Inr (case map_of kvs k of Some v \<Rightarrow> v | None \<Rightarrow> dflt)"
| "dict_get v k dflt = Inl (no_attribute v ''get'')"

text \<open>\<open>d[key]\<close> with a string key.\<close>

fun subscript :: "runtime \<Rightarrow> json \<Rightarrow> string \<Rightarrow> exn + json" where
  "subscript rt (JObj kvs) k = (case map_of kvs k of Some v \<Rightarrow> Inr v | None \<Rightarrow> Inl (KeyError k))"
| "subscript rt v k = Inl (TypeError (type_error_text rt ''subscript'' v))"

text \<open>The builtin \<open>float(v)\<close>; integers up to \<open>2^53\<close> in magnitude convert exactly.\<close>

fun py_float :: "runtime \<Rightarrow> json \<Rightarrow> exn + pyfloat" where
  "py_float rt (JBool b) = Inr (Fin (if b then 1 else 0))"
| "py_float rt (JInt i) =
     (if \<bar>i\<bar> \<le> 2 ^ 53 then Inr (Fin (of_int i))
      else (case float_of_bigint rt i of
              Some f \<Rightarrow> Inr f
            | None \<Rightarrow> Inl (OverflowError ''int too large to convert to float'')))"
| "py_float rt (JFloat f) = Inr f"
| "py_float rt (JStr s) =
     (case float_of_string rt s of Inl m \<Rightarrow> Inl (ValueError m) | Inr f \<Rightarrow> Inr f)"
| "py_float rt v = Inl (TypeError (type_error_text rt ''float'' v))"

text \<open>The builtin \<open>int(v)\<close>; a float is truncated towards zero.\<close>

fun py_int :: "runtime \<Rightarrow> json \<Rightarrow> exn + int" where
  "py_int rt (JBool b) = Inr (if b then 1 else 0)"
| "py_int rt (JInt i) = Inr i"
| "py_int rt (JFloat (Fin r)) = Inr (if 0 \<le> r then \<lfloor>r\<rfloor> else \<lceil>r\<rceil>)"
| "py_int rt (JFloat NaN) = Inl (ValueError ''cannot convert float NaN to integer'')"
| "py_int rt (JFloat f) = Inl (OverflowError ''cannot convert float infinity to integer'')"
| "py_int rt (JStr s) =
     (case int_of_string rt s of Inl m \<Rightarrow> Inl (ValueError m) | Inr i \<Rightarrow> Inr i)"
| "py_int rt v = Inl (TypeError (type_error_text rt ''int'' v))"

text \<open>\<open>key in config\<close> for a config that is a dict.\<close>

fun has_key :: "json \<Rightarrow> string \<Rightarrow> bool" where
  "has_key (JObj kvs) k = (map_of kvs k \<noteq> None)"
| "has_key v k = False"

text \<open>\<open>float(config.get(key, default))\<close> and \<open>int(config.get(key, default))\<close>.\<close>

definition get_float :: "runtime \<Rightarrow> json \<Rightarrow> string \<Rightarrow> json \<Rightarrow> exn + pyfloat" where
  "get_float rt config k dflt =
     (case dict_get config k dflt of Inl e \<Rightarrow> Inl e | Inr v \<Rightarrow> py_float rt v)"

definition get_int :: "runtime \<Rightarrow> json \<Rightarrow> string \<Rightarrow> json \<Rightarrow> exn + int" where
  "get_int rt config k dflt =
     (case dict_get config k dflt of Inl e \<Rightarrow> Inl e | Inr v \<Rightarrow> py_int rt v)"

section \<open>Disk space monitor\<close>

record disk_plugin =
  d_config :: json
  d_threshold :: pyfloat
  d_critical_threshold :: pyfloat
  d_interval :: int
  d_monitored_paths :: json
  d_exclude_types :: json
  d_running :: bool
  d_status :: string
  d_start_time :: "datetime option"
  d_last_alert_time :: "string \<rightharpoonup> datetime"
  d_alert_cooldown :: int

definition disk_new :: disk_plugin where
  "disk_new =
     \<lparr> d_config = JObj [],
       d_threshold = Fin 85,
       d_critical_threshold = Fin 95,
       d_interval = 300,
       d_monitored_paths = JArr [JStr ''/'', JStr ''/var'', JStr ''/tmp'', JStr ''/home''],
       d_exclude_types = JArr [JStr ''tmpfs'', JStr ''devtmpfs'', JStr ''proc'', JStr ''sysfs''],
       d_running = False,
       d_status = ''stopped'',
       d_start_time = None,
       d_last_alert_time = Map.empty,
       d_alert_cooldown = 600 \<rparr>"

text \<open>
  \<open>DiskSpaceMonitorPlugin.initialize\<close>. Every assignment made before an exception
  stays; the handler sets the status to \<open>error\<close> and returns \<open>False\<close>.
\<close>

definition disk_failed :: "disk_plugin \<Rightarrow> bool \<times> disk_plugin" where
  "disk_failed p = (False, p\<lparr>d_status := ''error''\<rparr>)"

definition disk_validate :: "disk_plugin \<Rightarrow> bool \<times> disk_plugin" where
  "disk_validate p =
     (if \<not> (fle (Fin 0) (d_threshold p) \<and> fle (d_threshold p) (Fin 100)) then disk_failed p
      else if \<not> (fle (Fin 0) (d_critical_threshold p) \<and> fle (d_critical_threshold p) (Fin 100))
        then disk_failed p
      else if fge (d_threshold p) (d_critical_threshold p) then disk_failed p
      else if d_interval p < 1 then disk_failed p
      else (True, p\<lparr>d_status := ''initialized''\<rparr>))"

definition disk_set_paths :: "json \<Rightarrow> disk_plugin \<Rightarrow> disk_plugin" where
  "disk_set_paths config p =
     (let p1 = (if has_key config ''monitored_paths''
                then p\<lparr>d_monitored_paths := (case dict_get config ''monitored_paths'' JNull of
                                                Inr v \<Rightarrow> v | Inl e \<Rightarrow> JNull)\<rparr>
                else p)
      in if has_key config ''exclude_types''
         then p1\<lparr>d_exclude_types := (case dict_get config ''exclude_types'' JNull of
                                        Inr v \<Rightarrow> v | Inl e \<Rightarrow> JNull)\<rparr>
         else p1)"

definition disk_initialize :: "runtime \<Rightarrow> disk_plugin \<Rightarrow> json \<Rightarrow> bool \<times> disk_plugin" where
  "disk_initialize rt p config =
     (let p0 = p\<lparr>d_config := config\<rparr> in
      case get_float rt config ''threshold'' (JFloat (Fin 85)) of
        Inl e \<Rightarrow> disk_failed p0
      | Inr t \<Rightarrow>
     (let p1 = p0\<lparr>d_threshold := t\<rparr> in
      case get_float rt config ''critical_threshold'' (JFloat (Fin 95)) of
        Inl e \<Rightarrow> disk_failed p1
      | Inr c \<Rightarrow>
     (let p2 = p1\<lparr>d_critical_threshold := c\<rparr> in
      case get_int rt config ''interval'' (JInt 300) of
        Inl e \<Rightarrow> disk_failed p2
      | Inr i \<Rightarrow>
     (let p3 = p2\<lparr>d_interval := i\<rparr> in
      case get_int rt config ''alert_cooldown'' (JInt 600) of
        Inl e \<Rightarrow> disk_failed p3
      | Inr cd \<Rightarrow> disk_validate (disk_set_paths config (p3\<lparr>d_alert_cooldown := cd\<rparr>))))))"

text \<open>
  \<open>start\<close>, \<open>stop\<close> and \<open>get_status\<close>. The handlers of \<open>start\<close> and \<open>stop\<close> guard
  assignments and log calls only, so they are never entered; \<open>start\<close> reads the clock once.
\<close>

definition disk_start :: "disk_plugin \<Rightarrow> datetime \<Rightarrow> bool \<times> disk_plugin" where
  "disk_start p now =
     (if d_running p then (True, p)
      else (True, p\<lparr>d_running := True, d_status := ''running'', d_start_time := Some now\<rparr>))"

definition disk_stop :: "disk_plugin \<Rightarrow> bool \<times> disk_plugin" where
  "disk_stop p = (True, p\<lparr>d_running := False, d_status := ''stopped''\<rparr>)"

definition disk_get_status :: "disk_plugin \<Rightarrow> string" where
  "disk_get_status p = d_status p"

text \<open>
  One entry of the list that \<open>_get_disk_info\<close> returns. The list itself is the reading of
  the metrics source (psutil) and is an input of the operations below.
\<close>

record filesystem =
  fs_device :: string
  fs_mountpoint :: string
  fs_fstype :: string
  fs_total :: int
  fs_used :: int
  fs_free :: int
  fs_percent :: pyfloat
  fs_total_gb :: pyfloat
  fs_used_gb :: pyfloat
  fs_free_gb :: pyfloat

text \<open>The builtin \<open>max\<close> on a non-empty list: a later item replaces the maximum when it is greater.\<close>

definition py_max :: "pyfloat \<Rightarrow> pyfloat list \<Rightarrow> pyfloat" where
  "py_max x xs = foldl (\<lambda>m y. if fgt y m then y else m) x xs"

record disk_health =
  dh_status :: string
  dh_message :: string
  dh_last_check :: datetime
  dh_uptime :: rat
  dh_error_count :: int
  dh_monitored_filesystems :: nat
  dh_threshold :: pyfloat
  dh_critical_threshold :: pyfloat
  dh_highest_usage :: pyfloat
  dh_filesystems :: "filesystem list"

text \<open>
  \<open>get_health\<close> reads the metrics source, then the clock twice (\<open>last_check\<close>, and the
  uptime when a start time is recorded). It assigns no field of the plugin.
\<close>

definition disk_get_health ::
  "disk_plugin \<Rightarrow> filesystem list \<Rightarrow> datetime \<Rightarrow> datetime \<Rightarrow> disk_health" where
  "disk_get_health p disk_info t_check t_up =
     \<lparr> dh_status = (if d_running p then ''healthy'' else ''unhealthy''),
       dh_message = (if d_running p then ''Plugin is running normally'' else ''Plugin is not running''),
       dh_last_check = t_check,
       dh_uptime = (case d_start_time p of None \<Rightarrow> 0 | Some t0 \<Rightarrow> t_up - t0),
       dh_error_count = 0,
       dh_monitored_filesystems = length disk_info,
       dh_threshold = d_threshold p,
       dh_critical_threshold = d_critical_threshold p,
       dh_highest_usage =
         (case map fs_percent disk_info @ [Fin 0] of x # xs \<Rightarrow> py_max x xs | [] \<Rightarrow> Fin 0),
       dh_filesystems = disk_info \<rparr>"

text \<open>
  \<open>_should_alert\<close>, the same method in both monitors: the cooldown table, the cooldown
  in seconds, the alert key and the current time.
\<close>

definition should_alert :: "(string \<rightharpoonup> datetime) \<Rightarrow> int \<Rightarrow> string \<Rightarrow> datetime \<Rightarrow> bool" where
  "should_alert last_alert_time alert_cooldown alert_key current_time =
     (case last_alert_time alert_key of
        None \<Rightarrow> True
      | Some t \<Rightarrow> of_int alert_cooldown \<le> current_time - t)"

text \<open>
  What one \<open>detect_triggers\<close> call reads from its surroundings: \<open>now\<close>, and for the
  event \<open>int(time.time())\<close>, a second \<open>datetime.now()\<close> and \<open>os.uname()\<close>.
\<close>

record detect_env =
  de_now :: datetime
  de_epoch :: int
  de_stamp :: datetime
  de_hostname :: string
  de_sysname :: string
  de_machine :: string

record disk_event =
  ev_id :: string
  ev_type :: string
  ev_source :: string
  ev_timestamp :: datetime
  ev_alert_level :: string
  ev_filesystem :: filesystem
  ev_threshold :: pyfloat
  ev_usage_percent :: pyfloat
  ev_free_space_gb :: pyfloat
  ev_hostname :: string
  ev_platform :: string
  ev_plugin_id :: string
  ev_plugin_version :: string
  ev_tags :: "string list"
  ev_severity :: string

definition replace_slash :: "string \<Rightarrow> string" where
  "replace_slash s = map (\<lambda>c. if c = CHR ''/'' then CHR ''_'' else c) s"

definition create_disk_event ::
  "runtime \<Rightarrow> detect_env \<Rightarrow> filesystem \<Rightarrow> string \<Rightarrow> pyfloat \<Rightarrow> disk_event" where
  "create_disk_event rt env fs alert_level threshold =
     \<lparr> ev_id = ''disk-'' @ alert_level @ ''-'' @ replace_slash (fs_mountpoint fs) @ ''-''
                @ py_str rt (JInt (de_epoch env)),
       ev_type = ''disk.space.'' @ alert_level,
       ev_source = ''disk-space-monitor'',
       ev_timestamp = de_stamp env,
       ev_alert_level = alert_level,
       ev_filesystem = fs,
       ev_threshold = threshold,
       ev_usage_percent = fs_percent fs,
       ev_free_space_gb = fs_free_gb fs,
       ev_hostname = de_hostname env,
       ev_platform = de_sysname env,
       ev_plugin_id = ''disk-space-monitor'',
       ev_plugin_version = ''1.0.0'',
       ev_tags = [''system'', ''disk'', ''storage'', ''filesystem'', alert_level],
       ev_severity = (if alert_level = ''critical'' then ''critical'' else ''high'') \<rparr>"

text \<open>The alert level of one filesystem and the threshold it crossed, \<open>None\<close> below both.\<close>

definition disk_alert_level :: "disk_plugin \<Rightarrow> filesystem \<Rightarrow> (string \<times> pyfloat) option" where
  "disk_alert_level p fs =
     (if fge (fs_percent fs) (d_critical_threshold p) then Some (''critical'', d_critical_threshold p)
      else if fge (fs_percent fs) (d_threshold p) then Some (''warning'', d_threshold p)
      else None)"

definition disk_alert_key :: "string \<Rightarrow> string \<Rightarrow> string" where
  "disk_alert_key mountpoint alert_level = mountpoint @ ''_'' @ alert_level"

text \<open>The loop of \<open>detect_triggers\<close> over the filesystems: it returns at the first alert that is due.\<close>

fun disk_scan ::
  "runtime \<Rightarrow> disk_plugin \<Rightarrow> detect_env \<Rightarrow> filesystem list \<Rightarrow> disk_event option \<times> disk_plugin" where
  "disk_scan rt p env [] = (None, p)"
| "disk_scan rt p env (fs # rest) =
     (case disk_alert_level p fs of
        None \<Rightarrow> disk_scan rt p env rest
      | Some (alert_level, threshold) \<Rightarrow>
          (let alert_key = disk_alert_key (fs_mountpoint fs) alert_level in
           if should_alert (d_last_alert_time p) (d_alert_cooldown p) alert_key (de_now env)
           then (Some (create_disk_event rt env fs alert_level threshold),
                 p\<lparr>d_last_alert_time := (d_last_alert_time p)(alert_key \<mapsto> de_now env)\<rparr>)
           else disk_scan rt p env rest))"

definition disk_detect_triggers ::
  "runtime \<Rightarrow> disk_plugin \<Rightarrow> detect_env \<Rightarrow> filesystem list \<Rightarrow> disk_event option \<times> disk_plugin" where
  "disk_detect_triggers rt p env disk_info =
     (if \<not> d_running p then (None, p) else disk_scan rt p env disk_info)"

text \<open>The alert key under which an emitted event was recorded.\<close>

definition disk_event_key :: "disk_event \<Rightarrow> string" where
  "disk_event_key ev = disk_alert_key (fs_mountpoint (ev_filesystem ev)) (ev_alert_level ev)"

text \<open>The operations that change the state of a disk monitor, and a run of them in order.\<close>

datatype disk_op =
    DiskInitialize json
  | DiskStart datetime
  | DiskStop
  | DiskDetect detect_env "filesystem list"

fun disk_apply :: "runtime \<Rightarrow> disk_plugin \<Rightarrow> disk_op \<Rightarrow> disk_plugin" where
  "disk_apply rt p (DiskInitialize config) = snd (disk_initialize rt p config)"
| "disk_apply rt p (DiskStart now) = snd (disk_start p now)"
| "disk_apply rt p DiskStop = snd (disk_stop p)"
| "disk_apply rt p (DiskDetect env disk_info) = snd (disk_detect_triggers rt p env disk_info)"

definition disk_run :: "runtime \<Rightarrow> disk_plugin \<Rightarrow> disk_op list \<Rightarrow> disk_plugin" where
  "disk_run rt p ops = foldl (disk_apply rt) p ops"

text \<open>The times at which the detections of a run read the clock.\<close>

fun disk_detect_times :: "disk_op list \<Rightarrow> datetime list" where
  "disk_detect_times [] = []"
| "disk_detect_times (DiskDetect env disk_info # ops) = de_now env # disk_detect_times ops"
| "disk_detect_times (x # ops) = disk_detect_times ops"

section \<open>Memory monitor\<close>

record memory_plugin =
  m_config :: json
  m_memory_threshold :: pyfloat
  m_swap_threshold :: pyfloat
  m_interval :: int
  m_running :: bool
  m_status :: string
  m_start_time :: "datetime option"
  m_last_alert_time :: "string \<rightharpoonup> datetime"
  m_alert_cooldown :: int

definition memory_new :: memory_plugin where
  "memory_new =
     \<lparr> m_config = JObj [],
       m_memory_threshold = Fin 85,
       m_swap_threshold = Fin 90,
       m_interval = 60,
       m_running = False,
       m_status = ''stopped'',
       m_start_time = None,
       m_last_alert_time = Map.empty,
       m_alert_cooldown = 300 \<rparr>"

definition memory_failed :: "memory_plugin \<Rightarrow> bool \<times> memory_plugin" where
  "memory_failed p = (False, p\<lparr>m_status := ''error''\<rparr>)"

definition memory_validate :: "memory_plugin \<Rightarrow> bool \<times> memory_plugin" where
  "memory_validate p =
     (if \<not> (fle (Fin 0) (m_memory_threshold p) \<and> fle (m_memory_threshold p) (Fin 100))
        then memory_failed p
      else if \<not> (fle (Fin 0) (m_swap_threshold p) \<and> fle (m_swap_threshold p) (Fin 100))
        then memory_failed p
      else if m_interval p < 1 then memory_failed p
      else (True, p\<lparr>m_status := ''initialized''\<rparr>))"

definition memory_initialize ::
  "runtime \<Rightarrow> memory_plugin \<Rightarrow> json \<Rightarrow> bool \<times> memory_plugin" where
  "memory_initialize rt p config =
     (let p0 = p\<lparr>m_config := config\<rparr> in
      case get_float rt config ''memory_threshold'' (JFloat (Fin 85)) of
        Inl e \<Rightarrow> memory_failed p0
      | Inr t \<Rightarrow>
     (let p1 = p0\<lparr>m_memory_threshold := t\<rparr> in
      case get_float rt config ''swap_threshold'' (JFloat (Fin 90)) of
        Inl e \<Rightarrow> memory_failed p1
      | Inr c \<Rightarrow>
     (let p2 = p1\<lparr>m_swap_threshold := c\<rparr> in
      case get_int rt config ''interval'' (JInt 60) of
        Inl e \<Rightarrow> memory_failed p2
      | Inr i \<Rightarrow>
     (let p3 = p2\<lparr>m_interval := i\<rparr> in
      case get_int rt config ''alert_cooldown'' (JInt 300) of
        Inl e \<Rightarrow> memory_failed p3
      | Inr cd \<Rightarrow> memory_validate (p3\<lparr>m_alert_cooldown := cd\<rparr>)))))"

definition memory_start :: "memory_plugin \<Rightarrow> datetime \<Rightarrow> bool \<times> memory_plugin" where
  "memory_start p now =
     (if m_running p then (True, p)
      else (True, p\<lparr>m_running := True, m_status := ''running'', m_start_time := Some now\<rparr>))"

definition memory_stop :: "memory_plugin \<Rightarrow> bool \<times> memory_plugin" where
  "memory_stop p = (True, p\<lparr>m_running := False, m_status := ''stopped''\<rparr>)"

text \<open>What \<open>_get_memory_info\<close> returns; psutil may raise instead.\<close>

record memory_info =
  mi_memory_percent :: pyfloat
  mi_total_memory :: int
  mi_available_memory :: int
  mi_used_memory :: int
  mi_swap_percent :: pyfloat
  mi_total_swap :: int
  mi_used_swap :: int
  mi_free_swap :: int

record memory_event =
  me_id :: string
  me_type :: string
  me_source :: string
  me_timestamp :: datetime
  me_alert_type :: string
  me_usage_percent :: pyfloat
  me_threshold :: pyfloat
  me_memory_info :: memory_info
  me_hostname :: string
  me_platform :: string
  me_architecture :: string
  me_plugin_id :: string
  me_plugin_version :: string
  me_tags :: "string list"
  me_severity :: string

definition create_memory_event ::
  "runtime \<Rightarrow> memory_plugin \<Rightarrow> detect_env \<Rightarrow> memory_info \<Rightarrow> string \<Rightarrow> memory_event" where
  "create_memory_event rt p env info alert_type =
     (let usage = (if alert_type = ''memory'' then mi_memory_percent info else mi_swap_percent info)
      in
      \<lparr> me_id = ''memory-'' @ alert_type @ ''-'' @ py_str rt (JInt (de_epoch env)),
        me_type = (if alert_type = ''memory'' then ''memory.high'' else ''swap.high''),
        me_source = ''memory-monitor'',
        me_timestamp = de_stamp env,
        me_alert_type = alert_type,
        me_usage_percent = usage,
        me_threshold =
          (if alert_type = ''memory'' then m_memory_threshold p else m_swap_threshold p),
        me_memory_info = info,
        me_hostname = de_hostname env,
        me_platform = de_sysname env,
        me_architecture = de_machine env,
        me_plugin_id = ''memory-monitor'',
        me_plugin_version = ''1.0.0'',
        me_tags = [''system'', ''memory'', alert_type, ''alert''],
        me_severity =
          (if alert_type = ''memory''
           then (if fgt usage (Fin 95) then ''critical''
                 else if fgt usage (Fin 90) then ''high'' else ''medium'')
           else (if fgt usage (Fin 95) then ''critical'' else ''high'')) \<rparr>)"

text \<open>
  \<open>MemoryMonitorPlugin.detect_triggers\<close>: memory first, then swap; an exception of the
  metrics source is caught and gives no event.
\<close>

definition memory_detect_triggers ::
  "runtime \<Rightarrow> memory_plugin \<Rightarrow> detect_env \<Rightarrow> exn + memory_info
     \<Rightarrow> memory_event option \<times> memory_plugin" where
  "memory_detect_triggers rt p env source =
     (if \<not> m_running p then (None, p)
      else case source of
        Inl e \<Rightarrow> (None, p)
      | Inr info \<Rightarrow>
          if fgt (mi_memory_percent info) (m_memory_threshold p)
             \<and> should_alert (m_last_alert_time p) (m_alert_cooldown p) ''memory'' (de_now env)
          then (Some (create_memory_event rt p env info ''memory''),
                p\<lparr>m_last_alert_time := (m_last_alert_time p)(''memory'' \<mapsto> de_now env)\<rparr>)
          else if fgt (mi_swap_percent info) (m_swap_threshold p)
             \<and> should_alert (m_last_alert_time p) (m_alert_cooldown p) ''swap'' (de_now env)
          then (Some (create_memory_event rt p env info ''swap''),
                p\<lparr>m_last_alert_time := (m_last_alert_time p)(''swap'' \<mapsto> de_now env)\<rparr>)
          else (None, p))"

text \<open>The alert key of a memory event is its alert type.\<close>

definition memory_event_key :: "memory_event \<Rightarrow> string" where
  "memory_event_key ev = me_alert_type ev"

datatype memory_op =
    MemoryInitialize json
  | MemoryStart datetime
  | MemoryStop
  | MemoryDetect detect_env "exn + memory_info"

fun memory_apply :: "runtime \<Rightarrow> memory_plugin \<Rightarrow> memory_op \<Rightarrow> memory_plugin" where
  "memory_apply rt p (MemoryInitialize config) = snd (memory_initialize rt p config)"
| "memory_apply rt p (MemoryStart now) = snd (memory_start p now)"
| "memory_apply rt p MemoryStop = snd (memory_stop p)"
| "memory_apply rt p (MemoryDetect env source) = snd (memory_detect_triggers rt p env source)"

definition memory_run :: "runtime \<Rightarrow> memory_plugin \<Rightarrow> memory_op list \<Rightarrow> memory_plugin" where
  "memory_run rt p ops = foldl (memory_apply rt) p ops"

fun memory_detect_times :: "memory_op list \<Rightarrow> datetime list" where
  "memory_detect_times [] = []"
| "memory_detect_times (MemoryDetect env source # ops) = de_now env # memory_detect_times ops"
| "memory_detect_times (x # ops) = memory_detect_times ops"

section \<open>Strings\<close>

text \<open>
  A \<open>char\<close> stands for one code point below 256; the texts the plugins compare against
  are ASCII. \<open>startswith s prefix\<close> is \<open>s.startswith(prefix)\<close>, \<open>py_substring needle s\<close> is
  \<open>needle in s\<close>, \<open>lower\<close> is \<open>str.lower()\<close> and \<open>strip\<close> is \<open>str.strip()\<close>, both on
  these code points.
\<close>

fun startswith :: "string \<Rightarrow> string \<Rightarrow> bool" where
  "startswith s [] = True"
| "startswith [] (c # cs) = False"
| "startswith (x # xs) (c # cs) = (x = c \<and> startswith xs cs)"

fun py_substring :: "string \<Rightarrow> string \<Rightarrow> bool" where
  "py_substring needle [] = (needle = [])"
| "py_substring needle (c # cs) = (startswith (c # cs) needle \<or> py_substring needle cs)"

definition lower_char :: "char \<Rightarrow> char" where
  "lower_char c =
     (let n = (of_char c :: nat)
      in if (65 \<le> n \<and> n \<le> 90) \<or> (192 \<le> n \<and> n \<le> 222 \<and> n \<noteq> 215)
         then char_of (n + 32) else c)"

definition lower :: "string \<Rightarrow> string" where
  "lower s = map lower_char s"

definition is_space :: "char \<Rightarrow> bool" where
  "is_space c =
     (let n = (of_char c :: nat)
      in (9 \<le> n \<and> n \<le> 13) \<or> (28 \<le> n \<and> n \<le> 32) \<or> n = 133 \<or> n = 160)"

definition strip :: "string \<Rightarrow> string" where
  "strip s = rev (dropWhile is_space (rev (dropWhile is_space s)))"

text \<open>\<open>s.split("/")[-1]\<close>: what follows the last slash.\<close>

definition basename :: "string \<Rightarrow> string" where
  "basename s = rev (takeWhile (\<lambda>c. c \<noteq> CHR ''/'') (rev s))"

text \<open>A value inside an f-string: a string is shown as it is, another value by \<open>str\<close>.\<close>

definition fmt :: "runtime \<Rightarrow> json \<Rightarrow> string" where
  "fmt rt v = (case v of JStr s \<Rightarrow> s | _ \<Rightarrow> py_str rt v)"

definition quoted :: "string \<Rightarrow> string" where
  "quoted s = [CHR 0x27] @ s @ [CHR 0x27]"

text \<open>\<open>x in container\<close> for a string \<open>x\<close>, iteration over a value, and \<open>len\<close>.\<close>

fun py_contains :: "runtime \<Rightarrow> string \<Rightarrow> json \<Rightarrow> exn + bool" where
  "py_contains rt x (JObj kvs) = Inr (map_of kvs x \<noteq> None)"
| "py_contains rt x (JArr xs) = Inr (JStr x \<in> set xs)"
| "py_contains rt x (JStr s) = Inr (py_substring x s)"
| "py_contains rt x v = Inl (TypeError (type_error_text rt ''in'' v))"

fun py_iter :: "runtime \<Rightarrow> json \<Rightarrow> exn + json list" where
  "py_iter rt (JArr xs) = Inr xs"
| "py_iter rt (JStr s) = Inr (map (\<lambda>c. JStr [c]) s)"
| "py_iter rt (JObj kvs) = Inr (map (\<lambda>kv. JStr (fst kv)) kvs)"
| "py_iter rt v = Inl (TypeError (type_error_text rt ''iter'' v))"

fun py_len :: "runtime \<Rightarrow> json \<Rightarrow> exn + nat" where
  "py_len rt (JArr xs) = Inr (length xs)"
| "py_len rt (JStr s) = Inr (length s)"
| "py_len rt (JObj kvs) = Inr (length kvs)"
| "py_len rt v = Inl (TypeError (type_error_text rt ''len'' v))"

section \<open>Action results\<close>

text \<open>
  The dict an action plugin returns from \<open>execute_action\<close>; \<open>data\<close> and \<open>error\<close> are
  \<open>None\<close> when the key is absent, and so is the execution host, which the error results
  leave out. During one call the clock is read three times: \<open>clock 0\<close> is the start time,
  \<open>clock 1\<close> the completion time, \<open>clock 2\<close> the reading for the duration.
\<close>

record 'd action_result =
  ar_id :: json
  ar_status :: string
  ar_started_at :: datetime
  ar_completed_at :: datetime
  ar_duration :: rat
  ar_data :: "'d option"
  ar_error :: "string option"
  ar_plugin_id :: string
  ar_plugin_version :: string
  ar_execution_host :: "string option"

record action_env =
  ae_clock :: "nat \<Rightarrow> datetime"
  ae_hostname :: string

text \<open>\<open>_create_error_result\<close>, the same method in both action plugins but for the plugin id.\<close>

definition create_error_result ::
  "string \<Rightarrow> action_env \<Rightarrow> json \<Rightarrow> string \<Rightarrow> 'd action_result" where
  "create_error_result plugin_id env action_id err =
     \<lparr> ar_id = action_id,
       ar_status = ''failed'',
       ar_started_at = ae_clock env 0,
       ar_completed_at = ae_clock env 1,
       ar_duration = ae_clock env 2 - ae_clock env 0,
       ar_data = None,
       ar_error = Some err,
       ar_plugin_id = plugin_id,
       ar_plugin_version = ''1.0.0'',
       ar_execution_host = None \<rparr>"

text \<open>The result dict as \<open>execute_action\<close> first builds it, with the final update applied.\<close>

definition running_result :: "string \<Rightarrow> action_env \<Rightarrow> json \<Rightarrow> 'd action_result" where
  "running_result plugin_id env action_id =
     \<lparr> ar_id = action_id,
       ar_status = ''running'',
       ar_started_at = ae_clock env 0,
       ar_completed_at = ae_clock env 1,
       ar_duration = ae_clock env 2 - ae_clock env 0,
       ar_data = None,
       ar_error = None,
       ar_plugin_id = plugin_id,
       ar_plugin_version = ''1.0.0'',
       ar_execution_host = Some (ae_hostname env) \<rparr>"

text \<open>The shape of a returned result: completed with data and no error, or failed with an error.\<close>

definition terminal_shape :: "'d action_result \<Rightarrow> bool" where
  "terminal_shape r =
     (if ar_status r = ''completed'' then ar_data r \<noteq> None \<and> ar_error r = None
      else ar_status r = ''failed'' \<and> ar_error r \<noteq> None)"

section \<open>Shell command plugin\<close>

record shell_plugin =
  s_config :: json
  s_allowed_commands :: json
  s_blocked_commands :: json
  s_allowed_paths :: json
  s_timeout :: int
  s_max_output_size :: int
  s_running :: bool
  s_status :: string
  s_start_time :: "datetime option"
  s_demo_mode :: bool

text \<open>The constructor; \<open>demo_mode\<close> comes from the environment variable.\<close>

definition shell_new :: "bool \<Rightarrow> shell_plugin" where
  "shell_new demo_mode =
     \<lparr> s_config = JObj [],
       s_allowed_commands = JArr [],
       s_blocked_commands =
         JArr [JStr ''rm'', JStr ''rmdir'', JStr ''dd'', JStr ''mkfs'', JStr ''fdisk'', JStr ''format''],
       s_allowed_paths = JArr [JStr ''/tmp'', JStr ''/var/tmp''],
       s_timeout = 300,
       s_max_output_size = 1024 * 1024,
       s_running = False,
       s_status = ''stopped'',
       s_start_time = None,
       s_demo_mode = demo_mode \<rparr>"

definition shell_failed :: "shell_plugin \<Rightarrow> bool \<times> shell_plugin" where
  "shell_failed p = (False, p\<lparr>s_status := ''error''\<rparr>)"

text \<open>\<open>if key in config: field = config[key]\<close>: the new value, if any.\<close>

definition config_entry :: "runtime \<Rightarrow> json \<Rightarrow> string \<Rightarrow> exn + json option" where
  "config_entry rt config k =
     (case py_contains rt k config of
        Inl e \<Rightarrow> Inl e
      | Inr False \<Rightarrow> Inr None
      | Inr True \<Rightarrow> (case subscript rt config k of Inl e \<Rightarrow> Inl e | Inr v \<Rightarrow> Inr (Some v)))"

definition shell_validate :: "shell_plugin \<Rightarrow> bool \<times> shell_plugin" where
  "shell_validate p =
     (if s_timeout p \<le> 0 then shell_failed p
      else if s_max_output_size p \<le> 0 then shell_failed p
      else (True, p\<lparr>s_status := ''initialized''\<rparr>))"

definition shell_initialize :: "runtime \<Rightarrow> shell_plugin \<Rightarrow> json \<Rightarrow> bool \<times> shell_plugin" where
  "shell_initialize rt p config =
     (let p0 = p\<lparr>s_config := config\<rparr> in
      case config_entry rt config ''allowed_commands'' of
        Inl e \<Rightarrow> shell_failed p0
      | Inr a \<Rightarrow>
     (let p1 = (case a of None \<Rightarrow> p0 | Some v \<Rightarrow> p0\<lparr>s_allowed_commands := v\<rparr>) in
      case config_entry rt config ''blocked_commands'' of
        Inl e \<Rightarrow> shell_failed p1
      | Inr b \<Rightarrow>
     (let p2 = (case b of None \<Rightarrow> p1 | Some v \<Rightarrow> p1\<lparr>s_blocked_commands := v\<rparr>) in
      case config_entry rt config ''allowed_paths'' of
        Inl e \<Rightarrow> shell_failed p2
      | Inr c \<Rightarrow>
     (let p3 = (case c of None \<Rightarrow> p2 | Some v \<Rightarrow> p2\<lparr>s_allowed_paths := v\<rparr>) in
      case get_int rt config ''timeout'' (JInt 300) of
        Inl e \<Rightarrow> shell_failed p3
      | Inr t \<Rightarrow>
     (let p4 = p3\<lparr>s_timeout := t\<rparr> in
      case get_int rt config ''max_output_size'' (JInt (1024 * 1024)) of
        Inl e \<Rightarrow> shell_failed p4
      | Inr m \<Rightarrow> shell_validate (p4\<lparr>s_max_output_size := m\<rparr>))))))"

definition shell_start :: "shell_plugin \<Rightarrow> datetime \<Rightarrow> bool \<times> shell_plugin" where
  "shell_start p now =
     (if s_running p then (True, p)
      else (True, p\<lparr>s_running := True, s_status := ''running'', s_start_time := Some now\<rparr>))"

definition shell_stop :: "shell_plugin \<Rightarrow> bool \<times> shell_plugin" where
  "shell_stop p = (True, p\<lparr>s_running := False, s_status := ''stopped''\<rparr>)"

definition shell_get_status :: "shell_plugin \<Rightarrow> string" where
  "shell_get_status p = s_status p"

record shell_health =
  sh_status :: string
  sh_message :: string
  sh_last_check :: datetime
  sh_uptime :: rat
  sh_error_count :: int
  sh_demo_mode :: bool
  sh_timeout :: int
  sh_max_output_size :: int
  sh_allowed_commands_count :: nat
  sh_blocked_commands_count :: nat

text \<open>
  \<open>get_health\<close> takes the length of the two command lists, which raises when
  a configuration stored a value without a length there.
\<close>

definition shell_get_health :: "runtime \<Rightarrow> shell_plugin \<Rightarrow> action_env \<Rightarrow> exn + shell_health" where
  "shell_get_health rt p env =
     (case py_len rt (s_allowed_commands p) of
        Inl e \<Rightarrow> Inl e
      | Inr na \<Rightarrow>
     (case py_len rt (s_blocked_commands p) of
        Inl e \<Rightarrow> Inl e
      | Inr nb \<Rightarrow>
          Inr \<lparr> sh_status = (if s_running p then ''healthy'' else ''unhealthy''),
                sh_message = (if s_running p then ''Plugin is running normally''
                              else ''Plugin is not running''),
                sh_last_check = ae_clock env 0,
                sh_uptime = (case s_start_time p of None \<Rightarrow> 0 | Some t0 \<Rightarrow> ae_clock env 1 - t0),
                sh_error_count = 0,
                sh_demo_mode = s_demo_mode p,
                sh_timeout = s_timeout p,
                sh_max_output_size = s_max_output_size p,
                sh_allowed_commands_count = na,
                sh_blocked_commands_count = nb \<rparr>))"

text \<open>
  \<open>_validate_command\<close>. The result is \<open>None\<close> for \<open>{"valid": True}\<close> and the error text
  otherwise. \<open>execute_action\<close> calls it with a truthy command only; a command that is not
  a string makes \<open>shlex.split\<close> raise an AttributeError, which the outer handler reports.
\<close>

fun any_startswith :: "runtime \<Rightarrow> json \<Rightarrow> json list \<Rightarrow> exn + bool" where
  "any_startswith rt working_dir [] = Inr False"
| "any_startswith rt working_dir (path # rest) =
     (case working_dir of
        JStr w \<Rightarrow>
          (case path of
             JStr pth \<Rightarrow> if startswith w pth then Inr True else any_startswith rt working_dir rest
           | _ \<Rightarrow> Inl (TypeError (type_error_text rt ''startswith'' path)))
      | _ \<Rightarrow> Inl (no_attribute working_dir ''startswith''))"

definition dangerous_patterns :: "string list" where
  "dangerous_patterns = [''rm -rf'', '':(){ :|:& };:'', ''chmod 777'', ''chown root'']"

definition find_dangerous :: "string \<Rightarrow> string option" where
  "find_dangerous command =
     List.find (\<lambda>pattern. py_substring pattern (lower command)) dangerous_patterns"

text \<open>The checks after the tokens are split, inside the outer \<open>try\<close>.\<close>

definition shell_checks ::
  "runtime \<Rightarrow> shell_plugin \<Rightarrow> string \<Rightarrow> string \<Rightarrow> json \<Rightarrow> exn + string option" where
  "shell_checks rt p command main_command working_dir =
     (case py_contains rt main_command (s_blocked_commands p) of
        Inl e \<Rightarrow> Inl e
      | Inr blocked \<Rightarrow>
     if blocked
     then Inr (Some (''Command '' @ quoted main_command @ '' is blocked for security''))
     else
     (case (if truthy (s_allowed_commands p)
            then py_contains rt main_command (s_allowed_commands p) else Inr True) of
        Inl e \<Rightarrow> Inl e
      | Inr listed \<Rightarrow>
     if \<not> listed
     then Inr (Some (''Command '' @ quoted main_command @ '' is not in allowed list''))
     else
     (case (if truthy (s_allowed_paths p)
            then (case py_iter rt (s_allowed_paths p) of
                    Inl e \<Rightarrow> Inl e
                  | Inr paths \<Rightarrow> any_startswith rt working_dir paths)
            else Inr True) of
        Inl e \<Rightarrow> Inl e
      | Inr allowed \<Rightarrow>
     if \<not> allowed
     then Inr (Some (''Working directory '' @ quoted (fmt rt working_dir) @ '' is not allowed''))
     else
     (case find_dangerous command of
        Some pattern \<Rightarrow> Inr (Some (''Command contains dangerous pattern: '' @ pattern))
      | None \<Rightarrow> Inr None))))"

definition shell_validate_command ::
  "runtime \<Rightarrow> shell_plugin \<Rightarrow> json \<Rightarrow> json \<Rightarrow> string option" where
  "shell_validate_command rt p command working_dir =
     (case command of
        JStr c \<Rightarrow>
          (case shlex_split rt c of
             Inl msg \<Rightarrow> Some (''Invalid command syntax: '' @ msg)
           | Inr [] \<Rightarrow> Some ''Empty command''
           | Inr (tok # toks) \<Rightarrow>
               (case shell_checks rt p c (basename tok) working_dir of
                  Inl e \<Rightarrow> Some (''Validation error: '' @ str_exn e)
                | Inr r \<Rightarrow> r))
      | _ \<Rightarrow> Some (''Validation error: '' @ str_exn (no_attribute command ''read'')))"

text \<open>
  The Action Source: \<open>_simulate_command_execution\<close> in demo mode, \<open>_execute_command\<close>
  otherwise. It is a parameter; what it receives is recorded, in order, in a list of calls.
  Its result is a dict in which every key but \<open>success\<close> may be absent.
\<close>

record shell_call =
  sc_demo_mode :: bool
  sc_command :: json
  sc_working_dir :: json
  sc_env_vars :: json
  sc_input :: json
  sc_timeout :: json

record exec_result =
  er_success :: bool
  er_return_code :: "int option"
  er_stdout :: "string option"
  er_stderr :: "string option"
  er_execution_time :: "rat option"
  er_error :: "string option"

record shell_data =
  sd_command :: json
  sd_working_dir :: "json option"
  sd_return_code :: "int option"
  sd_stdout :: string
  sd_stderr :: string
  sd_execution_time :: "rat option"
  sd_demo_mode :: "bool option"

text \<open>The handler of \<open>execute_action\<close>: the result so far, marked failed with \<open>str(e)\<close>.\<close>

definition failed_with :: "'d action_result \<Rightarrow> exn \<Rightarrow> 'd action_result" where
  "failed_with result e = result\<lparr>ar_status := ''failed'', ar_error := Some (str_exn e)\<rparr>"

text \<open>What \<open>execute_action\<close> makes of the outcome of the Action Source.\<close>

definition shell_finish ::
  "shell_plugin \<Rightarrow> action_env \<Rightarrow> json \<Rightarrow> json \<Rightarrow> json \<Rightarrow> exec_result \<Rightarrow> shell_data action_result" where
  "shell_finish p env action_id command working_dir er =
     (let result = running_result ''shell-command'' env action_id in
      if er_success er then
        (case er_return_code er of
           None \<Rightarrow> failed_with result (KeyError ''return_code'')
         | Some rc \<Rightarrow>
        (case er_stdout er of
           None \<Rightarrow> failed_with result (KeyError ''stdout'')
         | Some out \<Rightarrow>
        (case er_stderr er of
           None \<Rightarrow> failed_with result (KeyError ''stderr'')
         | Some err \<Rightarrow>
        (case er_execution_time er of
           None \<Rightarrow> failed_with result (KeyError ''execution_time'')
         | Some t \<Rightarrow>
             result\<lparr>ar_status := ''completed'',
                    ar_data := Some \<lparr> sd_command = command,
                                       sd_working_dir = Some working_dir,
                                       sd_return_code = Some rc,
                                       sd_stdout = out,
                                       sd_stderr = err,
                                       sd_execution_time = Some t,
                                       sd_demo_mode = Some (s_demo_mode p) \<rparr>\<rparr>))))
      else
        (case er_error er of
           None \<Rightarrow> failed_with result (KeyError ''error'')
         | Some e \<Rightarrow>
             result\<lparr>ar_status := ''failed'',
                    ar_error := Some e,
                    ar_data := Some \<lparr> sd_command = command,
                                       sd_working_dir = None,
                                       sd_return_code = er_return_code er,
                                       sd_stdout = (case er_stdout er of None \<Rightarrow> [] | Some s \<Rightarrow> s),
                                       sd_stderr = (case er_stderr er of None \<Rightarrow> [] | Some s \<Rightarrow> s),
                                       sd_execution_time = None,
                                       sd_demo_mode = None \<rparr>\<rparr>))"

text \<open>The \<open>try\<close> block of \<open>execute_action\<close>, entered with the id and the parameters.\<close>

definition shell_try ::
  "runtime \<Rightarrow> (shell_call \<Rightarrow> exec_result) \<Rightarrow> shell_plugin \<Rightarrow> action_env \<Rightarrow> json \<Rightarrow> json
     \<Rightarrow> shell_call list \<Rightarrow> shell_data action_result \<times> shell_call list" where
  "shell_try rt source p env action_id parameters calls =
     (case dict_get parameters ''command'' (JStr []) of
        Inl e \<Rightarrow> (failed_with (running_result ''shell-command'' env action_id) e, calls)
      | Inr command \<Rightarrow>
          (let working_dir = (case dict_get parameters ''working_dir'' (JStr ''/tmp'') of
                                Inr v \<Rightarrow> v | Inl e \<Rightarrow> JNull);
               env_vars = (case dict_get parameters ''env_vars'' (JObj []) of
                                Inr v \<Rightarrow> v | Inl e \<Rightarrow> JNull);
               input_data = (case dict_get parameters ''input'' (JStr []) of
                                Inr v \<Rightarrow> v | Inl e \<Rightarrow> JNull);
               timeout = (case dict_get parameters ''timeout'' (JInt (s_timeout p)) of
                                Inr v \<Rightarrow> v | Inl e \<Rightarrow> JNull)
           in
           if \<not> truthy command
           then (create_error_result ''shell-command'' env action_id ''Command parameter is required'',
                 calls)
           else
             (case shell_validate_command rt p command working_dir of
                Some err \<Rightarrow> (create_error_result ''shell-command'' env action_id err, calls)
              | None \<Rightarrow>
                  (let call = \<lparr> sc_demo_mode = s_demo_mode p, sc_command = command,
                                 sc_working_dir = working_dir, sc_env_vars = env_vars,
                                 sc_input = input_data, sc_timeout = timeout \<rparr>
                   in (shell_finish p env action_id command working_dir (source call),
                       calls @ [call])))))"

text \<open>
  \<open>ShellCommandPlugin.execute_action\<close>. Both paths evaluate \<open>action_request["id"]\<close>
  before anything else that can fail, outside the \<open>try\<close>.
\<close>

definition shell_execute_action ::
  "runtime \<Rightarrow> (shell_call \<Rightarrow> exec_result) \<Rightarrow> shell_plugin \<Rightarrow> action_env \<Rightarrow> json
     \<Rightarrow> shell_call list \<Rightarrow> (exn + shell_data action_result) \<times> shell_call list" where
  "shell_execute_action rt source p env action_request calls =
     (case subscript rt action_request ''id'' of
        Inl e \<Rightarrow> (Inl e, calls)
      | Inr action_id \<Rightarrow>
          if \<not> s_running p
          then (Inr (create_error_result ''shell-command'' env action_id ''Plugin is not running''),
                calls)
          else
            (case dict_get action_request ''parameters'' (JObj []) of
               Inl e \<Rightarrow> (Inl e, calls)
             | Inr parameters \<Rightarrow>
                 (case shell_try rt source p env action_id parameters calls of
                    (result, calls') \<Rightarrow> (Inr result, calls'))))"

section \<open>Email notification plugin\<close>

record email_plugin =
  e_config :: json
  e_smtp_server :: json
  e_smtp_port :: int
  e_username :: json
  e_password :: json
  e_from_email :: json
  e_use_tls :: json
  e_running :: bool
  e_status :: string
  e_start_time :: "datetime option"
  e_demo_mode :: bool

definition email_new :: "bool \<Rightarrow> email_plugin" where
  "email_new demo_mode =
     \<lparr> e_config = JObj [],
       e_smtp_server = JStr [],
       e_smtp_port = 587,
       e_username = JStr [],
       e_password = JStr [],
       e_from_email = JStr [],
       e_use_tls = JBool True,
       e_running = False,
       e_status = ''stopped'',
       e_start_time = None,
       e_demo_mode = demo_mode \<rparr>"

definition email_failed :: "email_plugin \<Rightarrow> bool \<times> email_plugin" where
  "email_failed p = (False, p\<lparr>e_status := ''error''\<rparr>)"

definition or_default :: "exn + json \<Rightarrow> json" where
  "or_default r = (case r of Inr v \<Rightarrow> v | Inl e \<Rightarrow> JNull)"

definition email_initialize :: "runtime \<Rightarrow> email_plugin \<Rightarrow> json \<Rightarrow> bool \<times> email_plugin" where
  "email_initialize rt p config =
     (let p0 = p\<lparr>e_config := config\<rparr> in
      case dict_get config ''smtp_server'' (JStr []) of
        Inl e \<Rightarrow> email_failed p0
      | Inr server \<Rightarrow>
     (let p1 = p0\<lparr>e_smtp_server := server\<rparr> in
      case get_int rt config ''smtp_port'' (JInt 587) of
        Inl e \<Rightarrow> email_failed p1
      | Inr port \<Rightarrow>
     (let username = or_default (dict_get config ''username'' (JStr []));
          p2 = p1\<lparr>e_smtp_port := port,
                  e_username := username,
                  e_password := or_default (dict_get config ''password'' (JStr [])),
                  e_from_email := or_default (dict_get config ''from_email'' username),
                  e_use_tls := or_default (dict_get config ''use_tls'' (JBool True))\<rparr>
      in if \<not> e_demo_mode p2
            \<and> \<not> (truthy (e_smtp_server p2) \<and> truthy (e_username p2)
                   \<and> truthy (e_password p2) \<and> truthy (e_from_email p2))
         then email_failed p2
         else (True, p2\<lparr>e_status := ''initialized''\<rparr>))))"

definition email_start :: "email_plugin \<Rightarrow> datetime \<Rightarrow> bool \<times> email_plugin" where
  "email_start p now =
     (if e_running p then (True, p)
      else (True, p\<lparr>e_running := True, e_status := ''running'', e_start_time := Some now\<rparr>))"

definition email_stop :: "email_plugin \<Rightarrow> bool \<times> email_plugin" where
  "email_stop p = (True, p\<lparr>e_running := False, e_status := ''stopped''\<rparr>)"

definition email_get_status :: "email_plugin \<Rightarrow> string" where
  "email_get_status p = e_status p"

record email_health =
  eh_status :: string
  eh_message :: string
  eh_last_check :: datetime
  eh_uptime :: rat
  eh_error_count :: int
  eh_demo_mode :: bool
  eh_smtp_server :: json
  eh_smtp_port :: int
  eh_from_email :: json

definition email_get_health :: "email_plugin \<Rightarrow> action_env \<Rightarrow> email_health" where
  "email_get_health p env =
     \<lparr> eh_status = (if e_running p then ''healthy'' else ''unhealthy''),
       eh_message = (if e_running p then ''Plugin is running normally''
                     else ''Plugin is not running''),
       eh_last_check = ae_clock env 0,
       eh_uptime = (case e_start_time p of None \<Rightarrow> 0 | Some t0 \<Rightarrow> ae_clock env 1 - t0),
       eh_error_count = 0,
       eh_demo_mode = e_demo_mode p,
       eh_smtp_server = (if \<not> e_demo_mode p then e_smtp_server p else JStr ''demo-smtp-server''),
       eh_smtp_port = e_smtp_port p,
       eh_from_email = (if \<not> e_demo_mode p then e_from_email p else JStr ''demo@example.com'') \<rparr>"

text \<open>
  The Action Source of the email plugin (\<open>_simulate_email_send\<close> or \<open>_send_email\<close>), a
  parameter as for the shell plugin; the simulated one raises on parameters of the wrong type.
\<close>

record email_call =
  ec_demo_mode :: bool
  ec_to :: json
  ec_cc :: json
  ec_bcc :: json
  ec_subject :: json
  ec_body :: json
  ec_html_body :: json
  ec_attachments :: json

record email_result =
  em_success :: bool
  em_message_id :: "json option"
  em_error :: "string option"

record email_data =
  ed_recipients :: json
  ed_cc :: "json option"
  ed_bcc :: "json option"
  ed_subject :: json
  ed_message_id :: "json option"
  ed_attachments_count :: "nat option"
  ed_demo_mode :: "bool option"

text \<open>\<open>if isinstance(x, str): x = [x]\<close>.\<close>

definition listify :: "json \<Rightarrow> json" where
  "listify v = (case v of JStr s \<Rightarrow> JArr [JStr s] | _ \<Rightarrow> v)"

text \<open>
  After a successful send the result is updated first and the log line, which takes
  \<open>len(to_emails)\<close>, runs second: when that raises, the handler marks the updated result
  failed and its data stay.
\<close>

definition email_finish ::
  "runtime \<Rightarrow> email_plugin \<Rightarrow> action_env \<Rightarrow> json \<Rightarrow> email_call \<Rightarrow> email_result
     \<Rightarrow> email_data action_result" where
  "email_finish rt p env action_id call er =
     (let result = running_result ''email-notification'' env action_id in
      if em_success er then
        (case py_len rt (ec_attachments call) of
           Inl e \<Rightarrow> failed_with result e
         | Inr n \<Rightarrow>
             (let completed =
                result\<lparr>ar_status := ''completed'',
                       ar_data := Some \<lparr> ed_recipients = ec_to call,
                                          ed_cc = Some (ec_cc call),
                                          ed_bcc = Some (ec_bcc call),
                                          ed_subject = ec_subject call,
                                          ed_message_id =
                                            Some (case em_message_id er of
                                                    None \<Rightarrow> JNull | Some v \<Rightarrow> v),
                                          ed_attachments_count = Some n,
                                          ed_demo_mode = Some (e_demo_mode p) \<rparr>\<rparr>
              in case py_len rt (ec_to call) of
                   Inl e \<Rightarrow> failed_with completed e
                 | Inr k \<Rightarrow> completed))
      else
        (case em_error er of
           None \<Rightarrow> failed_with result (KeyError ''error'')
         | Some e \<Rightarrow>
             result\<lparr>ar_status := ''failed'',
                    ar_error := Some e,
                    ar_data := Some \<lparr> ed_recipients = ec_to call,
                                       ed_cc = None,
                                       ed_bcc = None,
                                       ed_subject = ec_subject call,
                                       ed_message_id = None,
                                       ed_attachments_count = None,
                                       ed_demo_mode = None \<rparr>\<rparr>))"

definition email_try ::
  "runtime \<Rightarrow> (email_call \<Rightarrow> exn + email_result) \<Rightarrow> email_plugin \<Rightarrow> action_env \<Rightarrow> json \<Rightarrow> json
     \<Rightarrow> email_call list \<Rightarrow> email_data action_result \<times> email_call list" where
  "email_try rt source p env action_id parameters calls =
     (case dict_get parameters ''to'' (JArr []) of
        Inl e \<Rightarrow> (failed_with (running_result ''email-notification'' env action_id) e, calls)
      | Inr to_emails \<Rightarrow>
          if \<not> truthy to_emails
          then (create_error_result ''email-notification'' env action_id
                  ''At least one recipient email is required'', calls)
          else
            (let call =
               \<lparr> ec_demo_mode = e_demo_mode p,
                 ec_to = listify to_emails,
                 ec_cc = listify (or_default (dict_get parameters ''cc'' (JArr []))),
                 ec_bcc = listify (or_default (dict_get parameters ''bcc'' (JArr []))),
                 ec_subject = or_default (dict_get parameters ''subject'' (JStr ''Stavily Notification'')),
                 ec_body = or_default (dict_get parameters ''body'' (JStr [])),
                 ec_html_body = or_default (dict_get parameters ''html_body'' (JStr [])),
                 ec_attachments = or_default (dict_get parameters ''attachments'' (JArr [])) \<rparr>
             in case source call of
                  Inl e \<Rightarrow>
                    (failed_with (running_result ''email-notification'' env action_id) e,
                     calls @ [call])
                | Inr er \<Rightarrow> (email_finish rt p env action_id call er, calls @ [call])))"

definition email_execute_action ::
  "runtime \<Rightarrow> (email_call \<Rightarrow> exn + email_result) \<Rightarrow> email_plugin \<Rightarrow> action_env \<Rightarrow> json
     \<Rightarrow> email_call list \<Rightarrow> (exn + email_data action_result) \<times> email_call list" where
  "email_execute_action rt source p env action_request calls =
     (case subscript rt action_request ''id'' of
        Inl e \<Rightarrow> (Inl e, calls)
      | Inr action_id \<Rightarrow>
          if \<not> e_running p
          then (Inr (create_error_result ''email-notification'' env action_id
                       ''Plugin is not running''), calls)
          else
            (case dict_get action_request ''parameters'' (JObj []) of
               Inl e \<Rightarrow> (Inl e, calls)
             | Inr parameters \<Rightarrow>
                 (case email_try rt source p env action_id parameters calls of
                    (result, calls') \<Rightarrow> (Inr result, calls'))))"

section \<open>Command dispatch\<close>

text \<open>
  A response dict: a key that is absent is \<open>None\<close>. The responses to an unparseable
  line and to an exception carry the key \<open>error\<close> only.
\<close>

record 'd response =
  r_action :: "json option"
  r_success :: "bool option"
  r_data :: "'d option"
  r_error :: "string option"

definition error_response :: "string \<Rightarrow> 'd response" where
  "error_response msg = \<lparr> r_action = None, r_success = None, r_data = None, r_error = Some msg \<rparr>"

text \<open>\<open>response = {"action": action, "success": False}\<close>.\<close>

definition new_response :: "json \<Rightarrow> 'd response" where
  "new_response action =
     \<lparr> r_action = Some action, r_success = Some False, r_data = None, r_error = None \<rparr>"

definition with_data :: "'d response \<Rightarrow> 'd \<Rightarrow> 'd response" where
  "with_data response d = response\<lparr>r_data := Some d, r_success := Some True\<rparr>"

definition unknown_action :: "runtime \<Rightarrow> json \<Rightarrow> 'd response" where
  "unknown_action rt action =
     (new_response action)\<lparr>r_error := Some (''Unknown action: '' @ fmt rt action)\<rparr>"

record plugin_info =
  pi_id :: string
  pi_name :: string
  pi_description :: string
  pi_version :: string
  pi_author :: string
  pi_license :: string
  pi_type :: string
  pi_tags :: "string list"
  pi_categories :: "string list"
  pi_created_at :: datetime
  pi_updated_at :: datetime

definition disk_get_info :: "datetime \<Rightarrow> datetime \<Rightarrow> plugin_info" where
  "disk_get_info t1 t2 =
     \<lparr> pi_id = ''disk-space-monitor'',
       pi_name = ''Disk Space Monitor'',
       pi_description = ''Monitors disk usage across filesystems with configurable thresholds'',
       pi_version = ''1.0.0'',
       pi_author = ''Stavily Team'',
       pi_license = ''MIT'',
       pi_type = ''trigger'',
       pi_tags = [''system'', ''monitoring'', ''disk'', ''storage'', ''filesystem''],
       pi_categories = [''system-monitoring''],
       pi_created_at = t1,
       pi_updated_at = t2 \<rparr>"

definition shell_get_info :: "datetime \<Rightarrow> datetime \<Rightarrow> plugin_info" where
  "shell_get_info t1 t2 =
     \<lparr> pi_id = ''shell-command'',
       pi_name = ''Shell Command'',
       pi_description = ''Executes shell commands safely with configurable restrictions'',
       pi_version = ''1.0.0'',
       pi_author = ''Stavily Team'',
       pi_license = ''MIT'',
       pi_type = ''action'',
       pi_tags = [''system'', ''command'', ''shell'', ''automation'', ''execution''],
       pi_categories = [''system-management''],
       pi_created_at = t1,
       pi_updated_at = t2 \<rparr>"

definition email_get_info :: "datetime \<Rightarrow> datetime \<Rightarrow> plugin_info" where
  "email_get_info t1 t2 =
     \<lparr> pi_id = ''email-notification'',
       pi_name = ''Email Notification'',
       pi_description = ''Sends email notifications for alerts, reports, and automation updates'',
       pi_version = ''1.0.0'',
       pi_author = ''Stavily Team'',
       pi_license = ''MIT'',
       pi_type = ''action'',
       pi_tags = [''notification'', ''email'', ''alert'', ''communication''],
       pi_categories = [''communication''],
       pi_created_at = t1,
       pi_updated_at = t2 \<rparr>"

text \<open>
  What a response carries as \<open>data\<close>. The configuration schemas returned by
  \<open>get_trigger_config\<close> and \<open>get_action_config\<close> are literals of the source and stand
  here as one constructor each.
\<close>

datatype disk_payload =
    DiskInfo plugin_info
  | DiskStatus string
  | DiskHealth disk_health
  | DiskEvent "disk_event option"
  | DiskTriggerConfig

datatype shell_payload =
    ShellInfo plugin_info
  | ShellStatus string
  | ShellHealth shell_health
  | ShellResult "shell_data action_result"
  | ShellActionConfig

datatype email_payload =
    EmailInfo plugin_info
  | EmailStatus string
  | EmailHealth email_health
  | EmailResult "email_data action_result"
  | EmailActionConfig

text \<open>The action names that the chain of comparisons of each \<open>main\<close> recognises.\<close>

definition trigger_actions :: "string list" where
  "trigger_actions = [''get_info'', ''initialize'', ''start'', ''stop'', ''get_status'',
     ''get_health'', ''detect_triggers'', ''get_trigger_config'']"

definition action_actions :: "string list" where
  "action_actions = [''get_info'', ''initialize'', ''start'', ''stop'', ''get_status'',
     ''get_health'', ''execute_action'', ''get_action_config'']"

text \<open>
  The body of the loop of \<open>main\<close> in the disk monitor, after the line is parsed: the
  chain of comparisons on \<open>action\<close>. While one command is processed, \<open>de_now\<close> is the
  first reading of the clock and \<open>de_stamp\<close> the second. An exception leaves through \<open>Inl\<close>.
\<close>

definition disk_dispatch ::
  "runtime \<Rightarrow> disk_plugin \<Rightarrow> detect_env \<Rightarrow> filesystem list \<Rightarrow> json
     \<Rightarrow> (exn + disk_payload response) \<times> disk_plugin" where
  "disk_dispatch rt p env disk_info command =
     (case dict_get command ''action'' JNull of
        Inl e \<Rightarrow> (Inl e, p)
      | Inr action \<Rightarrow>
          (let response = new_response action in
           if action = JStr ''get_info''
             then (Inr (with_data response (DiskInfo (disk_get_info (de_now env) (de_stamp env)))), p)
           else if action = JStr ''initialize''
             then (case disk_initialize rt p (or_default (dict_get command ''config'' (JObj []))) of
                     (ok, p') \<Rightarrow> (Inr (response\<lparr>r_success := Some ok\<rparr>), p'))
           else if action = JStr ''start''
             then (case disk_start p (de_now env) of
                     (ok, p') \<Rightarrow> (Inr (response\<lparr>r_success := Some ok\<rparr>), p'))
           else if action = JStr ''stop''
             then (case disk_stop p of
                     (ok, p') \<Rightarrow> (Inr (response\<lparr>r_success := Some ok\<rparr>), p'))
           else if action = JStr ''get_status''
             then (Inr (with_data response (DiskStatus (disk_get_status p))), p)
           else if action = JStr ''get_health''
             then (Inr (with_data response
                          (DiskHealth (disk_get_health p disk_info (de_now env) (de_stamp env)))), p)
           else if action = JStr ''detect_triggers''
             then (case disk_detect_triggers rt p env disk_info of
                     (ev, p') \<Rightarrow> (Inr (with_data response (DiskEvent ev)), p'))
           else if action = JStr ''get_trigger_config''
             then (Inr (with_data response DiskTriggerConfig), p)
           else (Inr (unknown_action rt action), p)))"

text \<open>One stripped, non-empty line: exactly one response.\<close>

definition disk_handle_line ::
  "runtime \<Rightarrow> disk_plugin \<Rightarrow> detect_env \<Rightarrow> filesystem list \<Rightarrow> string
     \<Rightarrow> disk_payload response \<times> disk_plugin" where
  "disk_handle_line rt p env disk_info line =
     (case json_loads rt line of
        JSONDecodeError \<Rightarrow> (error_response ''Invalid JSON command'', p)
      | LoadsRaised e \<Rightarrow> (error_response (''Plugin error: '' @ str_exn e), p)
      | Loaded command \<Rightarrow>
          (case disk_dispatch rt p env disk_info command of
             (Inl e, p') \<Rightarrow> (error_response (''Plugin error: '' @ str_exn e), p')
           | (Inr response, p') \<Rightarrow> (response, p')))"

text \<open>
  The loop of \<open>main\<close>: the lines that \<open>readline\<close> returns, each with what the plugin reads
  from its surroundings while it processes the line. The end of the list is the end of the
  input, where \<open>readline\<close> returns the empty string. The result is the list of printed
  responses and the final state. A keyboard interrupt is not modelled.
\<close>

fun disk_main_loop ::
  "runtime \<Rightarrow> disk_plugin \<Rightarrow> (string \<times> detect_env \<times> filesystem list) list
     \<Rightarrow> disk_payload response list \<times> disk_plugin" where
  "disk_main_loop rt p [] = ([], p)"
| "disk_main_loop rt p ((raw, env, disk_info) # rest) =
     (if strip raw = [] then ([], p)
      else (case disk_handle_line rt p env disk_info (strip raw) of
              (response, p') \<Rightarrow>
                (case disk_main_loop rt p' rest of
                   (out, p'') \<Rightarrow> (response # out, p''))))"

definition disk_main ::
  "runtime \<Rightarrow> (string \<times> detect_env \<times> filesystem list) list
     \<Rightarrow> disk_payload response list \<times> disk_plugin" where
  "disk_main rt inputs = disk_main_loop rt disk_new inputs"

text \<open>The same for the shell plugin; the state is the plugin and the calls of the Action Source.\<close>

definition shell_dispatch ::
  "runtime \<Rightarrow> (shell_call \<Rightarrow> exec_result) \<Rightarrow> shell_plugin \<times> shell_call list \<Rightarrow> action_env \<Rightarrow> json
     \<Rightarrow> (exn + shell_payload response) \<times> shell_plugin \<times> shell_call list" where
  "shell_dispatch rt source st env command =
     (case st of (p, calls) \<Rightarrow>
      case dict_get command ''action'' JNull of
        Inl e \<Rightarrow> (Inl e, p, calls)
      | Inr action \<Rightarrow>
          (let response = new_response action in
           if action = JStr ''get_info''
             then (Inr (with_data response
                          (ShellInfo (shell_get_info (ae_clock env 0) (ae_clock env 1)))), p, calls)
           else if action = JStr ''initialize''
             then (case shell_initialize rt p (or_default (dict_get command ''config'' (JObj []))) of
                     (ok, p') \<Rightarrow> (Inr (response\<lparr>r_success := Some ok\<rparr>), p', calls))
           else if action = JStr ''start''
             then (case shell_start p (ae_clock env 0) of
                     (ok, p') \<Rightarrow> (Inr (response\<lparr>r_success := Some ok\<rparr>), p', calls))
           else if action = JStr ''stop''
             then (case shell_stop p of
                     (ok, p') \<Rightarrow> (Inr (response\<lparr>r_success := Some ok\<rparr>), p', calls))
           else if action = JStr ''get_status''
             then (Inr (with_data response (ShellStatus (shell_get_status p))), p, calls)
           else if action = JStr ''get_health''
             then (case shell_get_health rt p env of
                     Inl e \<Rightarrow> (Inl e, p, calls)
                   | Inr h \<Rightarrow> (Inr (with_data response (ShellHealth h)), p, calls))
           else if action = JStr ''execute_action''
             then (case shell_execute_action rt source p env
                          (or_default (dict_get command ''action_request'' (JObj []))) calls of
                     (Inl e, calls') \<Rightarrow> (Inl e, p, calls')
                   | (Inr result, calls') \<Rightarrow>
                       (Inr (with_data response (ShellResult result)), p, calls'))
           else if action = JStr ''get_action_config''
             then (Inr (with_data response ShellActionConfig), p, calls)
           else (Inr (unknown_action rt action), p, calls)))"

definition shell_handle_line ::
  "runtime \<Rightarrow> (shell_call \<Rightarrow> exec_result) \<Rightarrow> shell_plugin \<times> shell_call list \<Rightarrow> action_env \<Rightarrow> string
     \<Rightarrow> shell_payload response \<times> shell_plugin \<times> shell_call list" where
  "shell_handle_line rt source st env line =
     (case json_loads rt line of
        JSONDecodeError \<Rightarrow> (error_response ''Invalid JSON command'', st)
      | LoadsRaised e \<Rightarrow> (error_response (''Plugin error: '' @ str_exn e), st)
      | Loaded command \<Rightarrow>
          (case shell_dispatch rt source st env command of
             (Inl e, st') \<Rightarrow> (error_response (''Plugin error: '' @ str_exn e), st')
           | (Inr response, st') \<Rightarrow> (response, st')))"

fun shell_main_loop ::
  "runtime \<Rightarrow> (shell_call \<Rightarrow> exec_result) \<Rightarrow> shell_plugin \<times> shell_call list
     \<Rightarrow> (string \<times> action_env) list
     \<Rightarrow> shell_payload response list \<times> shell_plugin \<times> shell_call list" where
  "shell_main_loop rt source st [] = ([], st)"
| "shell_main_loop rt source st ((raw, env) # rest) =
     (if strip raw = [] then ([], st)
      else (case shell_handle_line rt source st env (strip raw) of
              (response, st') \<Rightarrow>
                (case shell_main_loop rt source st' rest of
                   (out, st'') \<Rightarrow> (response # out, st''))))"

definition shell_main ::
  "runtime \<Rightarrow> (shell_call \<Rightarrow> exec_result) \<Rightarrow> bool \<Rightarrow> (string \<times> action_env) list
     \<Rightarrow> shell_payload response list \<times> shell_plugin \<times> shell_call list" where
  "shell_main rt source demo_mode inputs = shell_main_loop rt source (shell_new demo_mode, []) inputs"

text \<open>The same for the email plugin.\<close>

definition email_dispatch ::
  "runtime \<Rightarrow> (email_call \<Rightarrow> exn + email_result) \<Rightarrow> email_plugin \<times> email_call list \<Rightarrow> action_env
     \<Rightarrow> json \<Rightarrow> (exn + email_payload response) \<times> email_plugin \<times> email_call list" where
  "email_dispatch rt source st env command =
     (case st of (p, calls) \<Rightarrow>
      case dict_get command ''action'' JNull of
        Inl e \<Rightarrow> (Inl e, p, calls)
      | Inr action \<Rightarrow>
          (let response = new_response action in
           if action = JStr ''get_info''
             then (Inr (with_data response
                          (EmailInfo (email_get_info (ae_clock env 0) (ae_clock env 1)))), p, calls)
           else if action = JStr ''initialize''
             then (case email_initialize rt p (or_default (dict_get command ''config'' (JObj []))) of
                     (ok, p') \<Rightarrow> (Inr (response\<lparr>r_success := Some ok\<rparr>), p', calls))
           else if action = JStr ''start''
             then (case email_start p (ae_clock env 0) of
                     (ok, p') \<Rightarrow> (Inr (response\<lparr>r_success := Some ok\<rparr>), p', calls))
           else if action = JStr ''stop''
             then (case email_stop p of
                     (ok, p') \<Rightarrow> (Inr (response\<lparr>r_success := Some ok\<rparr>), p', calls))
           else if action = JStr ''get_status''
             then (Inr (with_data response (EmailStatus (email_get_status p))), p, calls)
           else if action = JStr ''get_health''
             then (Inr (with_data response (EmailHealth (email_get_health p env))), p, calls)
           else if action = JStr ''execute_action''
             then (case email_execute_action rt source p env
                          (or_default (dict_get command ''action_request'' (JObj []))) calls of
                     (Inl e, calls') \<Rightarrow> (Inl e, p, calls')
                   | (Inr result, calls') \<Rightarrow>
                       (Inr (with_data response (EmailResult result)), p, calls'))
           else if action = JStr ''get_action_config''
             then (Inr (with_data response EmailActionConfig), p, calls)
           else (Inr (unknown_action rt action), p, calls)))"

definition email_handle_line ::
  "runtime \<Rightarrow> (email_call \<Rightarrow> exn + email_result) \<Rightarrow> email_plugin \<times> email_call list \<Rightarrow> action_env
     \<Rightarrow> string \<Rightarrow> email_payload response \<times> email_plugin \<times> email_call list" where
  "email_handle_line rt source st env line =
     (case json_loads rt line of
        JSONDecodeError \<Rightarrow> (error_response ''Invalid JSON command'', st)
      | LoadsRaised e \<Rightarrow> (error_response (''Plugin error: '' @ str_exn e), st)
      | Loaded command \<Rightarrow>
          (case email_dispatch rt source st env command of
             (Inl e, st') \<Rightarrow> (error_response (''Plugin error: '' @ str_exn e), st')
           | (Inr response, st') \<Rightarrow> (response, st')))"

text \<open>The operations that change the state of a shell plugin, and a run of them.\<close>

datatype shell_op =
    ShellInitialize json
  | ShellStart datetime
  | ShellStop

fun shell_apply :: "runtime \<Rightarrow> shell_plugin \<Rightarrow> shell_op \<Rightarrow> shell_plugin" where
  "shell_apply rt p (ShellInitialize config) = snd (shell_initialize rt p config)"
| "shell_apply rt p (ShellStart now) = snd (shell_start p now)"
| "shell_apply rt p ShellStop = snd (shell_stop p)"

definition shell_run :: "runtime \<Rightarrow> shell_plugin \<Rightarrow> shell_op list \<Rightarrow> shell_plugin" where
  "shell_run rt p ops = foldl (shell_apply rt) p ops"

section \<open>Sample inputs\<close>

text \<open>
  A runtime for the examples. It agrees with CPython on the values the examples pass to
  it (the documents they parse, the commands they split, the values they print) and
  answers every other value with a fixed dummy; the examples pass no other. The line
  \<open>sample_digits\<close> is an integer literal of 5000 digits, beyond the limit of 4300 digits
  that CPython sets on the conversion of a string to an integer; the line \<open>sample_nested\<close>
  is 100000 opening brackets, not a JSON document and nested beyond the recursion limit.
\<close>

definition sample_digits :: string where
  "sample_digits = replicate 5000 (CHR ''1'')"

definition sample_nested :: string where
  "sample_nested = replicate 100000 (CHR ''['')"

definition sample_loads :: "string \<Rightarrow> loads_result" where
  "sample_loads s =
     (if s = sample_digits
        then LoadsRaised (ValueError (''Exceeds the limit (4300 digits) for integer string ''
               @ ''conversion: value has 5000 digits; use sys.set_int_max_str_digits() ''
               @ ''to increase the limit''))
      else if s = sample_nested
        then LoadsRaised (RecursionError (''maximum recursion depth exceeded while decoding ''
               @ ''a JSON array from a unicode string''))
      else if s = ''{\"action\": \"start\"}'' then Loaded (JObj [(''action'', JStr ''start'')])
      else if s = ''{\"action\": \"reboot\"}'' then Loaded (JObj [(''action'', JStr ''reboot'')])
      else if s = ''{\"action\": \"get_health\"}'' then Loaded (JObj [(''action'', JStr ''get_health'')])
      else if s = ''{\"action\": \"execute_action\"}''
        then Loaded (JObj [(''action'', JStr ''execute_action'')])
      else if s = ''{\"action\": \"execute_action\", \"action_request\": {\"parameters\": {}}}''
        then Loaded (JObj [(''action'', JStr ''execute_action''),
                         (''action_request'', JObj [(''parameters'', JObj [])])])
      else if s = ''7'' then Loaded (JInt 7)
      else JSONDecodeError)"

definition sample_split :: "string \<Rightarrow> string + string list" where
  "sample_split s =
     (if s = ''rm -rf /'' then Inr [''rm'', ''-rf'', ''/'']
      else if s = ''ls -la'' then Inr [''ls'', ''-la'']
      else if s = ''/bin/dd if=/dev/zero'' then Inr [''/bin/dd'', ''if=/dev/zero'']
      else if s = ''echo chmod 777 x'' then Inr [''echo'', ''chmod'', ''777'', ''x'']
      else if s = ''echo \"'' then Inl ''No closing quotation''
      else Inr [s])"

definition sample_runtime :: runtime where
  "sample_runtime =
     \<lparr> json_loads = sample_loads,
       py_str = (\<lambda>v. case v of
                        JStr s \<Rightarrow> s
                      | JNull \<Rightarrow> ''None''
                      | JInt i \<Rightarrow> (if i = 1700000000 then ''1700000000'' else ''?'')
                      | _ \<Rightarrow> ''?''),
       shlex_split = sample_split,
       float_of_string = (\<lambda>s. if s = ''90.5'' then Inr (Fin (181 / 2))
                                else Inl (''could not convert string to float: '' @ s)),
       int_of_string = (\<lambda>s. if s = ''60'' then Inr 60
                              else Inl (''invalid literal for int() with base 10: '' @ s)),
       float_of_bigint = (\<lambda>i. None),
       type_error_text = (\<lambda>what v. what @ '': unsupported operand of type '' @ type_name v) \<rparr>"

text \<open>
  Two filesystems above the critical threshold, a memory reading above the swap threshold
  only and one above both thresholds.
\<close>

definition sample_root :: filesystem where
  "sample_root =
     \<lparr> fs_device = ''/dev/sda1'', fs_mountpoint = ''/'', fs_fstype = ''ext4'',
       fs_total = 1000, fs_used = 970, fs_free = 30, fs_percent = Fin 97,
       fs_total_gb = Fin 0, fs_used_gb = Fin 0, fs_free_gb = Fin 0 \<rparr>"

definition sample_var :: filesystem where
  "sample_var =
     \<lparr> fs_device = ''/dev/sda2'', fs_mountpoint = ''/var'', fs_fstype = ''ext4'',
       fs_total = 1000, fs_used = 960, fs_free = 40, fs_percent = Fin 96,
       fs_total_gb = Fin 0, fs_used_gb = Fin 0, fs_free_gb = Fin 0 \<rparr>"

definition sample_env :: "datetime \<Rightarrow> detect_env" where
  "sample_env t =
     \<lparr> de_now = t, de_epoch = 1700000000, de_stamp = t, de_hostname = ''host'',
       de_sysname = ''Linux'', de_machine = ''x86_64'' \<rparr>"

definition sample_swap_only :: memory_info where
  "sample_swap_only =
     \<lparr> mi_memory_percent = Fin 50, mi_total_memory = 1000, mi_available_memory = 500,
       mi_used_memory = 500, mi_swap_percent = Fin 93, mi_total_swap = 100,
       mi_used_swap = 93, mi_free_swap = 7 \<rparr>"

definition sample_memory :: memory_info where
  "sample_memory =
     \<lparr> mi_memory_percent = Fin 92, mi_total_memory = 1000, mi_available_memory = 80,
       mi_used_memory = 920, mi_swap_percent = Fin 93, mi_total_swap = 100,
       mi_used_swap = 93, mi_free_swap = 7 \<rparr>"

text \<open>Configurations: one the disk monitor accepts, two that are rejected.\<close>

definition sample_accepted :: json where
  "sample_accepted = JObj [(''threshold'', JInt 80), (''critical_threshold'', JInt 90)]"

definition sample_rejected :: json where
  "sample_rejected = JObj [(''threshold'', JInt 95), (''critical_threshold'', JInt 90)]"

definition sample_memory_rejected :: json where
  "sample_memory_rejected = JObj [(''memory_threshold'', JInt 150)]"

definition sample_shell_rejected :: json where
  "sample_shell_rejected = JObj [(''timeout'', JInt 0)]"

definition sample_initialized :: disk_plugin where
  "sample_initialized = snd (disk_initialize sample_runtime disk_new sample_accepted)"

text \<open>A started shell plugin in demo mode, and a request for a command.\<close>

definition sample_shell :: shell_plugin where
  "sample_shell = snd (shell_start (shell_new True) 0)"

definition sample_action_env :: action_env where
  "sample_action_env = \<lparr> ae_clock = (\<lambda>n. of_nat n), ae_hostname = ''host'' \<rparr>"

definition sample_request :: "string \<Rightarrow> json" where
  "sample_request command =
     JObj [(''id'', JStr ''a1''), (''parameters'', JObj [(''command'', JStr command)])]"

definition sample_request_in :: "string \<Rightarrow> string \<Rightarrow> json" where
  "sample_request_in command dir =
     JObj [(''id'', JStr ''a1''),
           (''parameters'', JObj [(''command'', JStr command), (''working_dir'', JStr dir)])]"

text \<open>A started shell plugin in demo mode whose configuration allows \<open>ls\<close> only.\<close>

definition sample_allow_shell :: shell_plugin where
  "sample_allow_shell =
     snd (shell_start
            (snd (shell_initialize sample_runtime (shell_new True)
                    (JObj [(''allowed_commands'', JArr [JStr ''ls''])]))) 0)"

text \<open>
  An Action Source that answers as \<open>_simulate_command_execution\<close> answers \<open>ls -la\<close>
  when its random draw falls below 0.1, after half a second of simulated time.
\<close>

definition sample_failure :: "shell_call \<Rightarrow> exec_result" where
  "sample_failure call =
     \<lparr> er_success = False,
       er_return_code = Some 1,
       er_stdout = Some (''file1.txt'' @ [CHR 0x0A] @ ''file2.log'' @ [CHR 0x0A]
                          @ ''directory1/'' @ [CHR 0x0A] @ ''total 4''),
       er_stderr = Some ''Simulated error for command: ls -la'',
       er_execution_time = Some (1 / 2),
       er_error = Some ''Simulated error for command: ls -la'' \<rparr>"

definition sample_call :: shell_call where
  "sample_call =
     \<lparr> sc_demo_mode = True, sc_command = JStr ''ls -la'', sc_working_dir = JStr ''/tmp'',
       sc_env_vars = JObj [], sc_input = JStr [], sc_timeout = JInt 300 \<rparr>"

definition sample_failed_result :: "shell_data action_result" where
  "sample_failed_result =
     shell_finish sample_shell sample_action_env (JStr ''a1'') (JStr ''ls -la'') (JStr ''/tmp'')
       (sample_failure sample_call)"

text \<open>
  A started email plugin in demo mode, and an Action Source that answers as
  \<open>_simulate_email_send\<close> does when it succeeds.
\<close>

definition sample_email :: email_plugin where
  "sample_email = snd (email_start (email_new True) 0)"

definition sample_email_request :: json where
  "sample_email_request =
     JObj [(''id'', JStr ''m1''), (''parameters'', JObj [(''to'', JStr ''ops@example.com'')])]"

definition sample_sent :: "email_call \<Rightarrow> exn + email_result" where
  "sample_sent call =
     Inr \<lparr> em_success = True, em_message_id = Some (JStr ''<demo-1700000000-1234@stavily-demo>''),
           em_error = None \<rparr>"

definition sample_email_result :: "email_data action_result" where
  "sample_email_result =
     fst (email_try sample_runtime sample_sent sample_email sample_action_env (JStr ''m1'')
            (JObj [(''to'', JStr ''ops@example.com'')]) [])"

text \<open>
  Plugins in the status \<open>error\<close>: each after a rejected configuration, the second disk
  monitor started before; the email plugin outside demo mode, where the empty
  configuration lacks the SMTP settings.
\<close>

definition sample_disk_error :: disk_plugin where
  "sample_disk_error = snd (disk_initialize sample_runtime disk_new sample_rejected)"

definition sample_running_error :: disk_plugin where
  "sample_running_error
     = snd (disk_initialize sample_runtime (snd (disk_start disk_new 0)) sample_rejected)"

definition sample_memory_error :: memory_plugin where
  "sample_memory_error = snd (memory_initialize sample_runtime memory_new sample_memory_rejected)"

definition sample_shell_error :: shell_plugin where
  "sample_shell_error = snd (shell_initialize sample_runtime (shell_new True) sample_shell_rejected)"

definition sample_email_error :: email_plugin where
  "sample_email_error = snd (email_initialize sample_runtime (email_new False) (JObj []))"

text \<open>Input lines, and a disk monitor that was started and then initialised.\<close>

definition sample_line :: string where
  "sample_line = ''{\"action\": \"execute_action\", \"action_request\": {\"parameters\": {}}}''"

definition sample_start_line :: string where
  "sample_start_line = ''{\"action\": \"start\"}''"

definition sample_unknown_line :: string where
  "sample_unknown_line = ''{\"action\": \"reboot\"}''"

definition sample_restarted :: disk_plugin where
  "sample_restarted = disk_run sample_runtime disk_new [DiskStart 0, DiskInitialize sample_accepted]"

section \<open>Initialisation of the disk monitor\<close>

lemma disk_failed_result: "disk_failed p = (ok, p') \<Longrightarrow> \<not> ok \<and> d_status p' = ''error''"
  by (auto simp: disk_failed_def)

text \<open>
  C6. For every configuration of the disk-space monitor whose converted \<open>threshold\<close> is
  greater than or equal to its converted \<open>critical_threshold\<close>, \<open>initialize\<close> returns
  \<open>False\<close> and the status becomes \<open>error\<close>, whatever the state before the call.
\<close>

theorem disk_initialize_threshold_order:
  assumes "get_float rt config ''threshold'' (JFloat (Fin 85)) = Inr t"
    and "get_float rt config ''critical_threshold'' (JFloat (Fin 95)) = Inr c"
    and "fge t c"
  shows "fst (disk_initialize rt p config) = False
       \<and> d_status (snd (disk_initialize rt p config)) = ''error''"
proof -
  have set_paths: "d_threshold (disk_set_paths config q) = d_threshold q
      \<and> d_critical_threshold (disk_set_paths config q) = d_critical_threshold q" for q
    by (simp add: disk_set_paths_def Let_def)
  have validate: "fge (d_threshold q) (d_critical_threshold q) \<Longrightarrow>
      disk_validate q = disk_failed q" for q
    by (simp add: disk_validate_def)
  show ?thesis
    using assms
    by (auto simp: disk_initialize_def Let_def disk_failed_def validate set_paths
        split: sum.splits)
qed

theorem disk_initialize_threshold_order_witness:
  "get_float sample_runtime (JObj [(''threshold'', JInt 95), (''critical_threshold'', JInt 90)])
       ''threshold'' (JFloat (Fin 85)) = Inr (Fin 95)
   \<and> get_float sample_runtime (JObj [(''threshold'', JInt 95), (''critical_threshold'', JInt 90)])
       ''critical_threshold'' (JFloat (Fin 95)) = Inr (Fin 90)
   \<and> fge (Fin 95) (Fin 90)
   \<and> fst (disk_initialize sample_runtime disk_new
        (JObj [(''threshold'', JInt 95), (''critical_threshold'', JInt 90)])) = False
   \<and> d_status (snd (disk_initialize sample_runtime disk_new
        (JObj [(''threshold'', JInt 95), (''critical_threshold'', JInt 90)]))) = ''error''"
proof -
  let ?cfg = "JObj [(''threshold'', JInt 95), (''critical_threshold'', JInt 90)]"
  have h1: "get_float sample_runtime ?cfg ''threshold'' (JFloat (Fin 85)) = Inr (Fin 95)"
    by (simp add: get_float_def)
  have h2: "get_float sample_runtime ?cfg ''critical_threshold'' (JFloat (Fin 95)) = Inr (Fin 90)"
    by (simp add: get_float_def)
  have h3: "fge (Fin 95) (Fin 90)"
    by (simp add: fge_def)
  show ?thesis
    using h1 h2 h3 disk_initialize_threshold_order [OF h1 h2 h3, of disk_new] by simp
qed

section \<open>Alert cooldown\<close>

lemma disk_event_key_create:
  "disk_event_key (create_disk_event rt env fs lvl thr) = disk_alert_key (fs_mountpoint fs) lvl"
  by (simp add: disk_event_key_def create_disk_event_def)

lemma disk_scan_result:
  "disk_scan rt p env info = (r, p') \<Longrightarrow>
     (case r of
        None \<Rightarrow> p' = p
      | Some ev \<Rightarrow>
          p' = p\<lparr>d_last_alert_time := (d_last_alert_time p)(disk_event_key ev \<mapsto> de_now env)\<rparr>
          \<and> should_alert (d_last_alert_time p) (d_alert_cooldown p) (disk_event_key ev) (de_now env))"
proof (induction info)
  case Nil
  then show ?case by auto
next
  case (Cons fs rest)
  show ?case
  proof (cases "disk_alert_level p fs")
    case None
    with Cons show ?thesis by simp
  next
    case (Some a)
    obtain lvl thr where a: "a = (lvl, thr)" by (cases a)
    show ?thesis
    proof (cases "should_alert (d_last_alert_time p) (d_alert_cooldown p)
          (disk_alert_key (fs_mountpoint fs) lvl) (de_now env)")
      case True
      with Cons.prems Some a show ?thesis
        by (auto simp: Let_def disk_event_key_create)
    next
      case False
      with Cons Some a show ?thesis by (simp add: Let_def)
    qed
  qed
qed

lemma disk_detect_result:
  assumes "disk_detect_triggers rt p env info = (r, p')"
  shows "(case r of
        None \<Rightarrow> p' = p
      | Some ev \<Rightarrow>
          p' = p\<lparr>d_last_alert_time := (d_last_alert_time p)(disk_event_key ev \<mapsto> de_now env)\<rparr>
          \<and> should_alert (d_last_alert_time p) (d_alert_cooldown p) (disk_event_key ev) (de_now env))"
proof (cases "d_running p")
  case True
  with assms have "disk_scan rt p env info = (r, p')"
    by (simp add: disk_detect_triggers_def)
  then show ?thesis by (rule disk_scan_result)
next
  case False
  with assms show ?thesis by (auto simp: disk_detect_triggers_def)
qed

lemma memory_event_key_create:
  "memory_event_key (create_memory_event rt p env info k) = k"
  by (simp add: memory_event_key_def create_memory_event_def Let_def)

lemma memory_detect_result:
  "(case r of
        None \<Rightarrow> p' = p
      | Some ev \<Rightarrow>
          p' = p\<lparr>m_last_alert_time := (m_last_alert_time p)(memory_event_key ev \<mapsto> de_now env)\<rparr>
          \<and> should_alert (m_last_alert_time p) (m_alert_cooldown p) (memory_event_key ev) (de_now env))"
  if "memory_detect_triggers rt p env source = (r, p')"
proof (cases "m_running p")
  case False
  then show ?thesis using that by (auto simp: memory_detect_triggers_def)
next
  case True
  show ?thesis
  proof (cases source)
    case (Inl e)
    with True that show ?thesis by (auto simp: memory_detect_triggers_def)
  next
    case (Inr info)
    consider (mem) "fgt (mi_memory_percent info) (m_memory_threshold p)
          \<and> should_alert (m_last_alert_time p) (m_alert_cooldown p) ''memory'' (de_now env)"
      | (swap) "\<not> (fgt (mi_memory_percent info) (m_memory_threshold p)
          \<and> should_alert (m_last_alert_time p) (m_alert_cooldown p) ''memory'' (de_now env))"
        "fgt (mi_swap_percent info) (m_swap_threshold p)
          \<and> should_alert (m_last_alert_time p) (m_alert_cooldown p) ''swap'' (de_now env)"
      | (none) "\<not> (fgt (mi_memory_percent info) (m_memory_threshold p)
          \<and> should_alert (m_last_alert_time p) (m_alert_cooldown p) ''memory'' (de_now env))"
        "\<not> (fgt (mi_swap_percent info) (m_swap_threshold p)
          \<and> should_alert (m_last_alert_time p) (m_alert_cooldown p) ''swap'' (de_now env))"
      by blast
    then show ?thesis
    proof cases
      case mem
      with True Inr that show ?thesis
        by (auto simp: memory_detect_triggers_def memory_event_key_create)
    next
      case swap
      with True Inr that show ?thesis
        by (auto simp: memory_detect_triggers_def memory_event_key_create)
    next
      case none
      with True Inr that show ?thesis
        by (auto simp: memory_detect_triggers_def)
    qed
  qed
qed

lemma should_alert_recent:
  "last_alert k = Some t0 \<Longrightarrow> now - t0 < of_int cd \<Longrightarrow> \<not> should_alert last_alert cd k now"
  by (simp add: should_alert_def)

lemma should_alert_elapsed:
  "last_alert k = Some t0 \<Longrightarrow> should_alert last_alert cd k now = (of_int cd \<le> now - t0)"
  by (simp add: should_alert_def)

lemma disk_initialize_table: "d_last_alert_time (snd (disk_initialize rt p config)) = d_last_alert_time p"
  by (simp add: disk_initialize_def Let_def disk_failed_def disk_validate_def disk_set_paths_def
      split: sum.splits)

lemma disk_apply_entry:
  assumes "d_last_alert_time p k = Some t0" and "T \<le> t0"
    and "\<forall>t \<in> set (disk_detect_times [x]). T \<le> t"
  shows "\<exists>t1. d_last_alert_time (disk_apply rt p x) k = Some t1 \<and> T \<le> t1"
proof (cases x)
  case (DiskInitialize config)
  then show ?thesis using assms by (simp add: disk_initialize_table)
next
  case (DiskStart now)
  then show ?thesis using assms by (simp add: disk_start_def)
next
  case DiskStop
  then show ?thesis using assms by (simp add: disk_stop_def)
next
  case (DiskDetect env info)
  obtain r p' where res: "disk_detect_triggers rt p env info = (r, p')"
    by (cases "disk_detect_triggers rt p env info")
  from disk_detect_result [OF res] DiskDetect assms res show ?thesis
    by (cases r) auto
qed

lemma disk_run_entry:
  assumes "d_last_alert_time p k = Some t0" and "T \<le> t0"
    and "\<forall>t \<in> set (disk_detect_times ops). T \<le> t"
  shows "\<exists>t1. d_last_alert_time (disk_run rt p ops) k = Some t1 \<and> T \<le> t1"
  using assms
proof (induction ops arbitrary: p t0)
  case Nil
  then show ?case by (simp add: disk_run_def)
next
  case (Cons x ops)
  have one: "\<forall>t \<in> set (disk_detect_times [x]). T \<le> t"
    using Cons.prems(3) by (cases x) auto
  have rest: "\<forall>t \<in> set (disk_detect_times ops). T \<le> t"
    using Cons.prems(3) by (cases x) auto
  from disk_apply_entry [OF Cons.prems(1) Cons.prems(2) one, of rt]
  obtain t1 where t1: "d_last_alert_time (disk_apply rt p x) k = Some t1" "T \<le> t1"
    by blast
  from Cons.IH [OF t1 rest] show ?case
    by (simp add: disk_run_def)
qed

lemma memory_initialize_table:
  "m_last_alert_time (snd (memory_initialize rt p config)) = m_last_alert_time p"
  by (simp add: memory_initialize_def Let_def memory_failed_def memory_validate_def
      split: sum.splits)

lemma memory_apply_entry:
  assumes "m_last_alert_time p k = Some t0" and "T \<le> t0"
    and "\<forall>t \<in> set (memory_detect_times [x]). T \<le> t"
  shows "\<exists>t1. m_last_alert_time (memory_apply rt p x) k = Some t1 \<and> T \<le> t1"
proof (cases x)
  case (MemoryInitialize config)
  then show ?thesis using assms by (simp add: memory_initialize_table)
next
  case (MemoryStart now)
  then show ?thesis using assms by (simp add: memory_start_def)
next
  case MemoryStop
  then show ?thesis using assms by (simp add: memory_stop_def)
next
  case (MemoryDetect env source)
  obtain r p' where res: "memory_detect_triggers rt p env source = (r, p')"
    by (cases "memory_detect_triggers rt p env source")
  from memory_detect_result [OF res] MemoryDetect assms res show ?thesis
    by (cases r) auto
qed

lemma memory_run_entry:
  assumes "m_last_alert_time p k = Some t0" and "T \<le> t0"
    and "\<forall>t \<in> set (memory_detect_times ops). T \<le> t"
  shows "\<exists>t1. m_last_alert_time (memory_run rt p ops) k = Some t1 \<and> T \<le> t1"
  using assms
proof (induction ops arbitrary: p t0)
  case Nil
  then show ?case by (simp add: memory_run_def)
next
  case (Cons x ops)
  have one: "\<forall>t \<in> set (memory_detect_times [x]). T \<le> t"
    using Cons.prems(3) by (cases x) auto
  have rest: "\<forall>t \<in> set (memory_detect_times ops). T \<le> t"
    using Cons.prems(3) by (cases x) auto
  from memory_apply_entry [OF Cons.prems(1) Cons.prems(2) one, of rt]
  obtain t1 where t1: "m_last_alert_time (memory_apply rt p x) k = Some t1" "T \<le> t1"
    by blast
  from Cons.IH [OF t1 rest] show ?case
    by (simp add: memory_run_def)
qed

lemma disk_later_suppressed:
  assumes emit: "disk_detect_triggers rt p env info = (Some ev, p1)"
    and later: "\<forall>t \<in> set (disk_detect_times ops). de_now env \<le> t"
    and within: "de_now env' - de_now env < of_int (d_alert_cooldown (disk_run rt p1 ops))"
    and again: "disk_detect_triggers rt (disk_run rt p1 ops) env' info' = (Some ev', q')"
  shows "disk_event_key ev' \<noteq> disk_event_key ev"
proof
  assume same: "disk_event_key ev' = disk_event_key ev"
  from disk_detect_result [OF emit]
  have "d_last_alert_time p1 (disk_event_key ev) = Some (de_now env)" by simp
  from disk_run_entry [OF this order_refl later, of rt]
  obtain t1 where t1: "d_last_alert_time (disk_run rt p1 ops) (disk_event_key ev) = Some t1"
      "de_now env \<le> t1"
    by blast
  from t1(2) within have "de_now env' - t1 < of_int (d_alert_cooldown (disk_run rt p1 ops))"
    by simp
  with t1(1) have "\<not> should_alert (d_last_alert_time (disk_run rt p1 ops))
      (d_alert_cooldown (disk_run rt p1 ops)) (disk_event_key ev) (de_now env')"
    by (simp add: should_alert_def)
  with disk_detect_result [OF again] same show False by simp
qed

lemma memory_later_suppressed:
  assumes emit: "memory_detect_triggers rt p env source = (Some ev, p1)"
    and later: "\<forall>t \<in> set (memory_detect_times ops). de_now env \<le> t"
    and within: "de_now env' - de_now env < of_int (m_alert_cooldown (memory_run rt p1 ops))"
    and again: "memory_detect_triggers rt (memory_run rt p1 ops) env' source' = (Some ev', q')"
  shows "memory_event_key ev' \<noteq> memory_event_key ev"
proof
  assume same: "memory_event_key ev' = memory_event_key ev"
  from memory_detect_result [OF emit]
  have "m_last_alert_time p1 (memory_event_key ev) = Some (de_now env)" by simp
  from memory_run_entry [OF this order_refl later, of rt]
  obtain t1 where t1: "m_last_alert_time (memory_run rt p1 ops) (memory_event_key ev) = Some t1"
      "de_now env \<le> t1"
    by blast
  from t1(2) within have "de_now env' - t1 < of_int (m_alert_cooldown (memory_run rt p1 ops))"
    by simp
  with t1(1) have "\<not> should_alert (m_last_alert_time (memory_run rt p1 ops))
      (m_alert_cooldown (memory_run rt p1 ops)) (memory_event_key ev) (de_now env')"
    by (simp add: should_alert_def)
  with memory_detect_result [OF again] same show False by simp
qed

lemma disk_suppression_ends:
  assumes emit: "disk_detect_triggers rt p env info = (Some ev, p1)"
  shows "should_alert (d_last_alert_time p1) cd (disk_event_key ev) t'
     = (of_int cd \<le> t' - de_now env)"
  using disk_detect_result [OF emit] by (simp add: should_alert_def)

lemma memory_suppression_ends:
  assumes emit: "memory_detect_triggers rt p env source = (Some ev, p1)"
  shows "should_alert (m_last_alert_time p1) cd (memory_event_key ev) t'
     = (of_int cd \<le> t' - de_now env)"
  using memory_detect_result [OF emit] by (simp add: should_alert_def)

lemma disk_scan_emits:
  assumes pre: "\<forall>f \<in> set pre. \<forall>l th. disk_alert_level q f = Some (l, th) \<longrightarrow>
        \<not> should_alert (d_last_alert_time q) (d_alert_cooldown q)
            (disk_alert_key (fs_mountpoint f) l) (de_now env)"
    and lvl: "disk_alert_level q fs = Some (lvl, thr)"
    and due: "should_alert (d_last_alert_time q) (d_alert_cooldown q)
        (disk_alert_key (fs_mountpoint fs) lvl) (de_now env)"
  shows "disk_scan rt q env (pre @ fs # post)
       = (Some (create_disk_event rt env fs lvl thr),
          q\<lparr>d_last_alert_time :=
               (d_last_alert_time q)(disk_alert_key (fs_mountpoint fs) lvl \<mapsto> de_now env)\<rparr>)"
  using pre
proof (induction pre)
  case Nil
  from lvl due show ?case by (simp add: Let_def fun_upd_def)
next
  case (Cons f pre)
  then show ?case by (cases "disk_alert_level q f") (auto simp: Let_def)
qed

lemma disk_emission_state:
  assumes emit: "disk_detect_triggers rt p env info = (Some ev, p1)"
  shows "d_running p1"
    and "d_last_alert_time p1 (disk_event_key ev) = Some (de_now env)"
proof -
  from emit have r: "d_running p"
    by (cases "d_running p") (simp_all add: disk_detect_triggers_def)
  from disk_detect_result [OF emit] r show "d_running p1"
    and "d_last_alert_time p1 (disk_event_key ev) = Some (de_now env)"
    by simp_all
qed

lemma disk_reemits_when_due:
  assumes run: "d_running q"
    and entry: "d_last_alert_time q (disk_alert_key (fs_mountpoint fs) lvl) = Some t0"
    and elapsed: "of_int (d_alert_cooldown q) \<le> de_now env - t0"
    and pre: "\<forall>f \<in> set pre. \<forall>l th. disk_alert_level q f = Some (l, th) \<longrightarrow>
        \<not> should_alert (d_last_alert_time q) (d_alert_cooldown q)
            (disk_alert_key (fs_mountpoint f) l) (de_now env)"
    and lvl: "disk_alert_level q fs = Some (lvl, thr)"
  shows "disk_detect_triggers rt q env (pre @ fs # post)
       = (Some (create_disk_event rt env fs lvl thr),
          q\<lparr>d_last_alert_time :=
               (d_last_alert_time q)(disk_alert_key (fs_mountpoint fs) lvl \<mapsto> de_now env)\<rparr>)"
proof -
  from entry elapsed
  have "should_alert (d_last_alert_time q) (d_alert_cooldown q)
        (disk_alert_key (fs_mountpoint fs) lvl) (de_now env)"
    by (simp add: should_alert_def)
  from disk_scan_emits [OF pre lvl this] run show ?thesis
    by (simp add: disk_detect_triggers_def)
qed

lemma memory_emission_state:
  assumes emit: "memory_detect_triggers rt p env source = (Some ev, p1)"
  shows "m_running p1"
    and "m_last_alert_time p1 (memory_event_key ev) = Some (de_now env)"
proof -
  from emit have r: "m_running p"
    by (cases "m_running p") (simp_all add: memory_detect_triggers_def)
  from memory_detect_result [OF emit] r show "m_running p1"
    and "m_last_alert_time p1 (memory_event_key ev) = Some (de_now env)"
    by simp_all
qed

lemma memory_reemits_when_due:
  assumes run: "m_running q"
    and entry: "m_last_alert_time q ''memory'' = Some t0"
    and elapsed: "of_int (m_alert_cooldown q) \<le> de_now env - t0"
    and high: "fgt (mi_memory_percent info) (m_memory_threshold q)"
  shows "memory_detect_triggers rt q env (Inr info)
       = (Some (create_memory_event rt q env info ''memory''),
          q\<lparr>m_last_alert_time := (m_last_alert_time q)(''memory'' \<mapsto> de_now env)\<rparr>)"
  using assms by (simp add: memory_detect_triggers_def should_alert_def)

lemma swap_reemits_when_due:
  assumes run: "m_running q"
    and entry: "m_last_alert_time q ''swap'' = Some t0"
    and elapsed: "of_int (m_alert_cooldown q) \<le> de_now env - t0"
    and high: "fgt (mi_swap_percent info) (m_swap_threshold q)"
    and first: "\<not> (fgt (mi_memory_percent info) (m_memory_threshold q)
        \<and> should_alert (m_last_alert_time q) (m_alert_cooldown q) ''memory'' (de_now env))"
  shows "memory_detect_triggers rt q env (Inr info)
       = (Some (create_memory_event rt q env info ''swap''),
          q\<lparr>m_last_alert_time := (m_last_alert_time q)(''swap'' \<mapsto> de_now env)\<rparr>)"
proof -
  from entry elapsed
  have "should_alert (m_last_alert_time q) (m_alert_cooldown q) ''swap'' (de_now env)"
    by (simp add: should_alert_def)
  with run high first show ?thesis
    by (auto simp: memory_detect_triggers_def)
qed

text \<open>
  C4. When a detection emits an event for an alert key at time \<open>T\<close>, every later
  detection at a time \<open>T'\<close> with \<open>T' - T\<close> below the cooldown then in force emits no
  event for that key, whatever operations ran in between, as long as the detections in
  between read a clock that did not go back before \<open>T\<close>; it may emit for another key.
  Right after the emission the key is due again exactly when the elapsed time has reached
  the cooldown. The suppression ends there: the next detection, at a time \<open>T'\<close> with
  \<open>T' - T\<close> at or above the cooldown, emits the event for that key again and stores \<open>T'\<close>,
  when the metric of the key is still above its threshold and no metric that the
  detection examines earlier is due (an earlier filesystem of the list; memory before
  swap). The same holds in every running state whose table holds \<open>T\<close> for the key.
  Both monitors.
\<close>

theorem cooldown_suppresses_repeated_alert:
  "(disk_detect_triggers rt p env info = (Some ev, p1)
      \<and> (\<forall>t \<in> set (disk_detect_times ops). de_now env \<le> t)
      \<and> de_now env' - de_now env < of_int (d_alert_cooldown (disk_run rt p1 ops))
      \<longrightarrow> (\<forall>ev'. fst (disk_detect_triggers rt (disk_run rt p1 ops) env' info') = Some ev'
             \<longrightarrow> disk_event_key ev' \<noteq> disk_event_key ev))
   \<and> (disk_detect_triggers rt p env info = (Some ev, p1)
      \<longrightarrow> should_alert (d_last_alert_time p1) (d_alert_cooldown p1) (disk_event_key ev) t'
          = (of_int (d_alert_cooldown p1) \<le> t' - de_now env))
   \<and> (memory_detect_triggers rt mp env source = (Some mev, mp1)
      \<and> (\<forall>t \<in> set (memory_detect_times mops). de_now env \<le> t)
      \<and> de_now env' - de_now env < of_int (m_alert_cooldown (memory_run rt mp1 mops))
      \<longrightarrow> (\<forall>ev'. fst (memory_detect_triggers rt (memory_run rt mp1 mops) env' source') = Some ev'
             \<longrightarrow> memory_event_key ev' \<noteq> memory_event_key mev))
   \<and> (memory_detect_triggers rt mp env source = (Some mev, mp1)
      \<longrightarrow> should_alert (m_last_alert_time mp1) (m_alert_cooldown mp1) (memory_event_key mev) t'
          = (of_int (m_alert_cooldown mp1) \<le> t' - de_now env))
   \<and> (disk_detect_triggers rt p env info = (Some ev, p1)
      \<and> of_int (d_alert_cooldown p1) \<le> de_now env' - de_now env
      \<and> (\<forall>f \<in> set pre. \<forall>l th. disk_alert_level p1 f = Some (l, th) \<longrightarrow>
            \<not> should_alert (d_last_alert_time p1) (d_alert_cooldown p1)
                (disk_alert_key (fs_mountpoint f) l) (de_now env'))
      \<and> fs_mountpoint fs = fs_mountpoint (ev_filesystem ev)
      \<and> disk_alert_level p1 fs = Some (ev_alert_level ev, thr)
      \<longrightarrow> disk_detect_triggers rt p1 env' (pre @ fs # post)
          = (Some (create_disk_event rt env' fs (ev_alert_level ev) thr),
             p1\<lparr>d_last_alert_time :=
                  (d_last_alert_time p1)(disk_event_key ev \<mapsto> de_now env')\<rparr>))
   \<and> (d_running q
      \<and> d_last_alert_time q (disk_alert_key (fs_mountpoint fs) lvl) = Some t0
      \<and> of_int (d_alert_cooldown q) \<le> de_now env' - t0
      \<and> (\<forall>f \<in> set pre. \<forall>l th. disk_alert_level q f = Some (l, th) \<longrightarrow>
            \<not> should_alert (d_last_alert_time q) (d_alert_cooldown q)
                (disk_alert_key (fs_mountpoint f) l) (de_now env'))
      \<and> disk_alert_level q fs = Some (lvl, thr)
      \<longrightarrow> disk_detect_triggers rt q env' (pre @ fs # post)
          = (Some (create_disk_event rt env' fs lvl thr),
             q\<lparr>d_last_alert_time :=
                 (d_last_alert_time q)(disk_alert_key (fs_mountpoint fs) lvl \<mapsto> de_now env')\<rparr>))
   \<and> (memory_detect_triggers rt mp env source = (Some mev, mp1)
      \<and> memory_event_key mev = ''memory''
      \<and> of_int (m_alert_cooldown mp1) \<le> de_now env' - de_now env
      \<and> fgt (mi_memory_percent minfo) (m_memory_threshold mp1)
      \<longrightarrow> memory_detect_triggers rt mp1 env' (Inr minfo)
          = (Some (create_memory_event rt mp1 env' minfo ''memory''),
             mp1\<lparr>m_last_alert_time := (m_last_alert_time mp1)(''memory'' \<mapsto> de_now env')\<rparr>))
   \<and> (memory_detect_triggers rt mp env source = (Some mev, mp1)
      \<and> memory_event_key mev = ''swap''
      \<and> of_int (m_alert_cooldown mp1) \<le> de_now env' - de_now env
      \<and> fgt (mi_swap_percent minfo) (m_swap_threshold mp1)
      \<and> \<not> (fgt (mi_memory_percent minfo) (m_memory_threshold mp1)
            \<and> should_alert (m_last_alert_time mp1) (m_alert_cooldown mp1) ''memory'' (de_now env'))
      \<longrightarrow> memory_detect_triggers rt mp1 env' (Inr minfo)
          = (Some (create_memory_event rt mp1 env' minfo ''swap''),
             mp1\<lparr>m_last_alert_time := (m_last_alert_time mp1)(''swap'' \<mapsto> de_now env')\<rparr>))
   \<and> (m_running mq
      \<and> m_last_alert_time mq ''memory'' = Some t0
      \<and> of_int (m_alert_cooldown mq) \<le> de_now env' - t0
      \<and> fgt (mi_memory_percent minfo) (m_memory_threshold mq)
      \<longrightarrow> memory_detect_triggers rt mq env' (Inr minfo)
          = (Some (create_memory_event rt mq env' minfo ''memory''),
             mq\<lparr>m_last_alert_time := (m_last_alert_time mq)(''memory'' \<mapsto> de_now env')\<rparr>))
   \<and> (m_running mq
      \<and> m_last_alert_time mq ''swap'' = Some t0
      \<and> of_int (m_alert_cooldown mq) \<le> de_now env' - t0
      \<and> fgt (mi_swap_percent minfo) (m_swap_threshold mq)
      \<and> \<not> (fgt (mi_memory_percent minfo) (m_memory_threshold mq)
            \<and> should_alert (m_last_alert_time mq) (m_alert_cooldown mq) ''memory'' (de_now env'))
      \<longrightarrow> memory_detect_triggers rt mq env' (Inr minfo)
          = (Some (create_memory_event rt mq env' minfo ''swap''),
             mq\<lparr>m_last_alert_time := (m_last_alert_time mq)(''swap'' \<mapsto> de_now env')\<rparr>))"
proof (intro conjI)
  show "disk_detect_triggers rt p env info = (Some ev, p1)
      \<and> (\<forall>t \<in> set (disk_detect_times ops). de_now env \<le> t)
      \<and> de_now env' - de_now env < of_int (d_alert_cooldown (disk_run rt p1 ops))
      \<longrightarrow> (\<forall>ev'. fst (disk_detect_triggers rt (disk_run rt p1 ops) env' info') = Some ev'
             \<longrightarrow> disk_event_key ev' \<noteq> disk_event_key ev)"
  proof (intro impI allI)
    fix ev'
    assume h: "disk_detect_triggers rt p env info = (Some ev, p1)
        \<and> (\<forall>t \<in> set (disk_detect_times ops). de_now env \<le> t)
        \<and> de_now env' - de_now env < of_int (d_alert_cooldown (disk_run rt p1 ops))"
      and e: "fst (disk_detect_triggers rt (disk_run rt p1 ops) env' info') = Some ev'"
    from e obtain q' where
      "disk_detect_triggers rt (disk_run rt p1 ops) env' info' = (Some ev', q')"
      by (cases "disk_detect_triggers rt (disk_run rt p1 ops) env' info'") auto
    with h show "disk_event_key ev' \<noteq> disk_event_key ev"
      using disk_later_suppressed by blast
  qed
next
  show "disk_detect_triggers rt p env info = (Some ev, p1)
      \<longrightarrow> should_alert (d_last_alert_time p1) (d_alert_cooldown p1) (disk_event_key ev) t'
          = (of_int (d_alert_cooldown p1) \<le> t' - de_now env)"
    by (intro impI) (rule disk_suppression_ends)
next
  show "memory_detect_triggers rt mp env source = (Some mev, mp1)
      \<and> (\<forall>t \<in> set (memory_detect_times mops). de_now env \<le> t)
      \<and> de_now env' - de_now env < of_int (m_alert_cooldown (memory_run rt mp1 mops))
      \<longrightarrow> (\<forall>ev'. fst (memory_detect_triggers rt (memory_run rt mp1 mops) env' source') = Some ev'
             \<longrightarrow> memory_event_key ev' \<noteq> memory_event_key mev)"
  proof (intro impI allI)
    fix ev'
    assume h: "memory_detect_triggers rt mp env source = (Some mev, mp1)
        \<and> (\<forall>t \<in> set (memory_detect_times mops). de_now env \<le> t)
        \<and> de_now env' - de_now env < of_int (m_alert_cooldown (memory_run rt mp1 mops))"
      and e: "fst (memory_detect_triggers rt (memory_run rt mp1 mops) env' source') = Some ev'"
    from e obtain q' where
      "memory_detect_triggers rt (memory_run rt mp1 mops) env' source' = (Some ev', q')"
      by (cases "memory_detect_triggers rt (memory_run rt mp1 mops) env' source'") auto
    with h show "memory_event_key ev' \<noteq> memory_event_key mev"
      using memory_later_suppressed by blast
  qed
next
  show "memory_detect_triggers rt mp env source = (Some mev, mp1)
      \<longrightarrow> should_alert (m_last_alert_time mp1) (m_alert_cooldown mp1) (memory_event_key mev) t'
          = (of_int (m_alert_cooldown mp1) \<le> t' - de_now env)"
    by (intro impI) (rule memory_suppression_ends)
next
  show "disk_detect_triggers rt p env info = (Some ev, p1)
      \<and> of_int (d_alert_cooldown p1) \<le> de_now env' - de_now env
      \<and> (\<forall>f \<in> set pre. \<forall>l th. disk_alert_level p1 f = Some (l, th) \<longrightarrow>
            \<not> should_alert (d_last_alert_time p1) (d_alert_cooldown p1)
                (disk_alert_key (fs_mountpoint f) l) (de_now env'))
      \<and> fs_mountpoint fs = fs_mountpoint (ev_filesystem ev)
      \<and> disk_alert_level p1 fs = Some (ev_alert_level ev, thr)
      \<longrightarrow> disk_detect_triggers rt p1 env' (pre @ fs # post)
          = (Some (create_disk_event rt env' fs (ev_alert_level ev) thr),
             p1\<lparr>d_last_alert_time :=
                  (d_last_alert_time p1)(disk_event_key ev \<mapsto> de_now env')\<rparr>)"
  proof (intro impI)
    assume h: "disk_detect_triggers rt p env info = (Some ev, p1)
      \<and> of_int (d_alert_cooldown p1) \<le> de_now env' - de_now env
      \<and> (\<forall>f \<in> set pre. \<forall>l th. disk_alert_level p1 f = Some (l, th) \<longrightarrow>
            \<not> should_alert (d_last_alert_time p1) (d_alert_cooldown p1)
                (disk_alert_key (fs_mountpoint f) l) (de_now env'))
      \<and> fs_mountpoint fs = fs_mountpoint (ev_filesystem ev)
      \<and> disk_alert_level p1 fs = Some (ev_alert_level ev, thr)"
    then have emit: "disk_detect_triggers rt p env info = (Some ev, p1)" by blast
    from h have key: "disk_alert_key (fs_mountpoint fs) (ev_alert_level ev) = disk_event_key ev"
      by (simp add: disk_event_key_def)
    from disk_emission_state [OF emit] key
    have run: "d_running p1"
      and entry: "d_last_alert_time p1 (disk_alert_key (fs_mountpoint fs) (ev_alert_level ev))
          = Some (de_now env)"
      by simp_all
    from h have elapsed: "of_int (d_alert_cooldown p1) \<le> de_now env' - de_now env"
      and pre: "\<forall>f \<in> set pre. \<forall>l th. disk_alert_level p1 f = Some (l, th) \<longrightarrow>
            \<not> should_alert (d_last_alert_time p1) (d_alert_cooldown p1)
                (disk_alert_key (fs_mountpoint f) l) (de_now env')"
      and lvl: "disk_alert_level p1 fs = Some (ev_alert_level ev, thr)"
      by blast+
    from disk_reemits_when_due [OF run entry elapsed pre lvl, of rt post] key
    show "disk_detect_triggers rt p1 env' (pre @ fs # post)
          = (Some (create_disk_event rt env' fs (ev_alert_level ev) thr),
             p1\<lparr>d_last_alert_time :=
                  (d_last_alert_time p1)(disk_event_key ev \<mapsto> de_now env')\<rparr>)"
      by simp
  qed
next
  show "d_running q
      \<and> d_last_alert_time q (disk_alert_key (fs_mountpoint fs) lvl) = Some t0
      \<and> of_int (d_alert_cooldown q) \<le> de_now env' - t0
      \<and> (\<forall>f \<in> set pre. \<forall>l th. disk_alert_level q f = Some (l, th) \<longrightarrow>
            \<not> should_alert (d_last_alert_time q) (d_alert_cooldown q)
                (disk_alert_key (fs_mountpoint f) l) (de_now env'))
      \<and> disk_alert_level q fs = Some (lvl, thr)
      \<longrightarrow> disk_detect_triggers rt q env' (pre @ fs # post)
          = (Some (create_disk_event rt env' fs lvl thr),
             q\<lparr>d_last_alert_time :=
                 (d_last_alert_time q)(disk_alert_key (fs_mountpoint fs) lvl \<mapsto> de_now env')\<rparr>)"
    using disk_reemits_when_due [of q fs lvl t0 env' pre thr rt post] by blast
next
  show "memory_detect_triggers rt mp env source = (Some mev, mp1)
      \<and> memory_event_key mev = ''memory''
      \<and> of_int (m_alert_cooldown mp1) \<le> de_now env' - de_now env
      \<and> fgt (mi_memory_percent minfo) (m_memory_threshold mp1)
      \<longrightarrow> memory_detect_triggers rt mp1 env' (Inr minfo)
          = (Some (create_memory_event rt mp1 env' minfo ''memory''),
             mp1\<lparr>m_last_alert_time := (m_last_alert_time mp1)(''memory'' \<mapsto> de_now env')\<rparr>)"
  proof (intro impI)
    assume h: "memory_detect_triggers rt mp env source = (Some mev, mp1)
      \<and> memory_event_key mev = ''memory''
      \<and> of_int (m_alert_cooldown mp1) \<le> de_now env' - de_now env
      \<and> fgt (mi_memory_percent minfo) (m_memory_threshold mp1)"
    then have emit: "memory_detect_triggers rt mp env source = (Some mev, mp1)" by blast
    from memory_emission_state [OF emit] h
    have "m_running mp1" and "m_last_alert_time mp1 ''memory'' = Some (de_now env)"
      by simp_all
    with h show "memory_detect_triggers rt mp1 env' (Inr minfo)
          = (Some (create_memory_event rt mp1 env' minfo ''memory''),
             mp1\<lparr>m_last_alert_time := (m_last_alert_time mp1)(''memory'' \<mapsto> de_now env')\<rparr>)"
      using memory_reemits_when_due [of mp1 "de_now env" env' minfo rt] by blast
  qed
next
  show "memory_detect_triggers rt mp env source = (Some mev, mp1)
      \<and> memory_event_key mev = ''swap''
      \<and> of_int (m_alert_cooldown mp1) \<le> de_now env' - de_now env
      \<and> fgt (mi_swap_percent minfo) (m_swap_threshold mp1)
      \<and> \<not> (fgt (mi_memory_percent minfo) (m_memory_threshold mp1)
            \<and> should_alert (m_last_alert_time mp1) (m_alert_cooldown mp1) ''memory'' (de_now env'))
      \<longrightarrow> memory_detect_triggers rt mp1 env' (Inr minfo)
          = (Some (create_memory_event rt mp1 env' minfo ''swap''),
             mp1\<lparr>m_last_alert_time := (m_last_alert_time mp1)(''swap'' \<mapsto> de_now env')\<rparr>)"
  proof (intro impI)
    assume h: "memory_detect_triggers rt mp env source = (Some mev, mp1)
      \<and> memory_event_key mev = ''swap''
      \<and> of_int (m_alert_cooldown mp1) \<le> de_now env' - de_now env
      \<and> fgt (mi_swap_percent minfo) (m_swap_threshold mp1)
      \<and> \<not> (fgt (mi_memory_percent minfo) (m_memory_threshold mp1)
            \<and> should_alert (m_last_alert_time mp1) (m_alert_cooldown mp1) ''memory'' (de_now env'))"
    then have emit: "memory_detect_triggers rt mp env source = (Some mev, mp1)" by blast
    from memory_emission_state [OF emit] h
    have "m_running mp1" and "m_last_alert_time mp1 ''swap'' = Some (de_now env)"
      by simp_all
    with h show "memory_detect_triggers rt mp1 env' (Inr minfo)
          = (Some (create_memory_event rt mp1 env' minfo ''swap''),
             mp1\<lparr>m_last_alert_time := (m_last_alert_time mp1)(''swap'' \<mapsto> de_now env')\<rparr>)"
      using swap_reemits_when_due [of mp1 "de_now env" env' minfo rt] by blast
  qed
next
  show "m_running mq
      \<and> m_last_alert_time mq ''memory'' = Some t0
      \<and> of_int (m_alert_cooldown mq) \<le> de_now env' - t0
      \<and> fgt (mi_memory_percent minfo) (m_memory_threshold mq)
      \<longrightarrow> memory_detect_triggers rt mq env' (Inr minfo)
          = (Some (create_memory_event rt mq env' minfo ''memory''),
             mq\<lparr>m_last_alert_time := (m_last_alert_time mq)(''memory'' \<mapsto> de_now env')\<rparr>)"
    using memory_reemits_when_due [of mq t0 env' minfo rt] by blast
next
  show "m_running mq
      \<and> m_last_alert_time mq ''swap'' = Some t0
      \<and> of_int (m_alert_cooldown mq) \<le> de_now env' - t0
      \<and> fgt (mi_swap_percent minfo) (m_swap_threshold mq)
      \<and> \<not> (fgt (mi_memory_percent minfo) (m_memory_threshold mq)
            \<and> should_alert (m_last_alert_time mq) (m_alert_cooldown mq) ''memory'' (de_now env'))
      \<longrightarrow> memory_detect_triggers rt mq env' (Inr minfo)
          = (Some (create_memory_event rt mq env' minfo ''swap''),
             mq\<lparr>m_last_alert_time := (m_last_alert_time mq)(''swap'' \<mapsto> de_now env')\<rparr>)"
    using swap_reemits_when_due [of mq t0 env' minfo rt] by blast
qed

lemma sample_disk_first:
  "disk_detect_triggers sample_runtime (snd (disk_start disk_new 0)) (sample_env 0)
       [sample_root, sample_var]
     = (Some (create_disk_event sample_runtime (sample_env 0) sample_root ''critical'' (Fin 95)),
        (snd (disk_start disk_new 0))\<lparr>d_last_alert_time := [''/_critical'' \<mapsto> 0]\<rparr>)"
  by (simp add: disk_detect_triggers_def disk_start_def disk_new_def disk_alert_level_def
      sample_root_def sample_var_def sample_env_def fge_def should_alert_def Let_def
      disk_alert_key_def)

lemma sample_disk_second:
  "fst (disk_detect_triggers sample_runtime
       (disk_run sample_runtime
          ((snd (disk_start disk_new 0))\<lparr>d_last_alert_time := [''/_critical'' \<mapsto> 0]\<rparr>)
          [DiskStop, DiskStart 50])
       (sample_env 300) [sample_root, sample_var])
     = Some (create_disk_event sample_runtime (sample_env 300) sample_var ''critical'' (Fin 95))"
  by (simp add: disk_detect_triggers_def disk_start_def disk_stop_def disk_new_def
      disk_alert_level_def disk_run_def
      sample_root_def sample_var_def sample_env_def fge_def should_alert_def Let_def
      disk_alert_key_def)

lemma sample_memory_first:
  "memory_detect_triggers sample_runtime (snd (memory_start memory_new 0)) (sample_env 0)
       (Inr sample_memory)
     = (Some (create_memory_event sample_runtime (snd (memory_start memory_new 0)) (sample_env 0)
          sample_memory ''memory''),
        (snd (memory_start memory_new 0))\<lparr>m_last_alert_time := [''memory'' \<mapsto> 0]\<rparr>)"
  by (simp add: memory_detect_triggers_def memory_start_def memory_new_def
      sample_memory_def sample_env_def fgt_def should_alert_def)

lemma sample_memory_second:
  "fst (memory_detect_triggers sample_runtime
       (memory_run sample_runtime
          ((snd (memory_start memory_new 0))\<lparr>m_last_alert_time := [''memory'' \<mapsto> 0]\<rparr>)
          [MemoryDetect (sample_env 100) (Inl (ValueError ''unavailable''))])
       (sample_env 200) (Inr sample_memory))
     = Some (create_memory_event sample_runtime
          ((snd (memory_start memory_new 0))\<lparr>m_last_alert_time := [''memory'' \<mapsto> 0]\<rparr>)
          (sample_env 200) sample_memory ''swap'')"
  by (simp add: memory_detect_triggers_def memory_start_def memory_new_def memory_run_def
      sample_memory_def sample_env_def fgt_def should_alert_def)

lemma sample_disk_third:
  "fst (disk_detect_triggers sample_runtime
       (disk_run sample_runtime
          ((snd (disk_start disk_new 0))\<lparr>d_last_alert_time := [''/_critical'' \<mapsto> 0]\<rparr>)
          [DiskDetect (sample_env 100) []])
       (sample_env 300) [sample_root, sample_var])
     = Some (create_disk_event sample_runtime (sample_env 300) sample_var ''critical'' (Fin 95))"
  by (simp add: disk_detect_triggers_def disk_start_def disk_stop_def disk_new_def
      disk_alert_level_def disk_run_def
      sample_root_def sample_var_def sample_env_def fge_def should_alert_def Let_def
      disk_alert_key_def)

theorem cooldown_suppresses_repeated_alert_witness:
  "disk_detect_triggers sample_runtime (snd (disk_start disk_new 0)) (sample_env 0)
       [sample_root, sample_var]
     = (Some (create_disk_event sample_runtime (sample_env 0) sample_root ''critical'' (Fin 95)),
        (snd (disk_start disk_new 0))\<lparr>d_last_alert_time := [''/_critical'' \<mapsto> 0]\<rparr>)
   \<and> disk_detect_times [DiskDetect (sample_env 100) []] = [100]
   \<and> fst (disk_detect_triggers sample_runtime
         (disk_run sample_runtime
            ((snd (disk_start disk_new 0))\<lparr>d_last_alert_time := [''/_critical'' \<mapsto> 0]\<rparr>)
            [DiskDetect (sample_env 100) []])
         (sample_env 300) [sample_root, sample_var])
       = Some (create_disk_event sample_runtime (sample_env 300) sample_var ''critical'' (Fin 95))
   \<and> disk_event_key (create_disk_event sample_runtime (sample_env 300) sample_var ''critical'' (Fin 95))
       \<noteq> disk_event_key
           (create_disk_event sample_runtime (sample_env 0) sample_root ''critical'' (Fin 95))
   \<and> should_alert [''/_critical'' \<mapsto> 0] 600 ''/_critical'' 600
   \<and> \<not> should_alert [''/_critical'' \<mapsto> 0] 600 ''/_critical'' 599
   \<and> memory_event_key (create_memory_event sample_runtime
          ((snd (memory_start memory_new 0))\<lparr>m_last_alert_time := [''memory'' \<mapsto> 0]\<rparr>)
          (sample_env 200) sample_memory ''swap'')
       \<noteq> memory_event_key (create_memory_event sample_runtime (snd (memory_start memory_new 0))
          (sample_env 0) sample_memory ''memory'')
   \<and> should_alert [''memory'' \<mapsto> 0] 300 ''memory'' 300
   \<and> fst (disk_detect_triggers sample_runtime
         ((snd (disk_start disk_new 0))\<lparr>d_last_alert_time := [''/_critical'' \<mapsto> 0]\<rparr>)
         (sample_env 599) [sample_root])
       = None
   \<and> disk_detect_triggers sample_runtime
         ((snd (disk_start disk_new 0))\<lparr>d_last_alert_time := [''/_critical'' \<mapsto> 0]\<rparr>)
         (sample_env 600) [sample_root, sample_var]
       = (Some (create_disk_event sample_runtime (sample_env 600) sample_root ''critical'' (Fin 95)),
          (snd (disk_start disk_new 0))\<lparr>d_last_alert_time := [''/_critical'' \<mapsto> 600]\<rparr>)
   \<and> fst (disk_detect_triggers sample_runtime
         ((snd (disk_start disk_new 0))
            \<lparr>d_last_alert_time := [''/_critical'' \<mapsto> 0, ''/var_critical'' \<mapsto> 300]\<rparr>)
         (sample_env 700) [sample_var, sample_root])
       = Some (create_disk_event sample_runtime (sample_env 700) sample_root ''critical'' (Fin 95))
   \<and> fst (memory_detect_triggers sample_runtime
         ((snd (memory_start memory_new 0))\<lparr>m_last_alert_time := [''memory'' \<mapsto> 0]\<rparr>)
         (sample_env 300) (Inr sample_memory))
       = Some (create_memory_event sample_runtime
           ((snd (memory_start memory_new 0))\<lparr>m_last_alert_time := [''memory'' \<mapsto> 0]\<rparr>)
           (sample_env 300) sample_memory ''memory'')
   \<and> memory_detect_triggers sample_runtime
         ((snd (memory_start memory_new 0))\<lparr>m_last_alert_time := [''memory'' \<mapsto> 0]\<rparr>)
         (sample_env 200) (Inr sample_memory)
       = (Some (create_memory_event sample_runtime
            ((snd (memory_start memory_new 0))\<lparr>m_last_alert_time := [''memory'' \<mapsto> 0]\<rparr>)
            (sample_env 200) sample_memory ''swap''),
          (snd (memory_start memory_new 0))
            \<lparr>m_last_alert_time := [''memory'' \<mapsto> 0, ''swap'' \<mapsto> 200]\<rparr>)
   \<and> fst (memory_detect_triggers sample_runtime
         ((snd (memory_start memory_new 0))
            \<lparr>m_last_alert_time := [''memory'' \<mapsto> 0, ''swap'' \<mapsto> 200]\<rparr>)
         (sample_env 500) (Inr sample_swap_only))
       = Some (create_memory_event sample_runtime
           ((snd (memory_start memory_new 0))
              \<lparr>m_last_alert_time := [''memory'' \<mapsto> 0, ''swap'' \<mapsto> 200]\<rparr>)
           (sample_env 500) sample_swap_only ''swap'')"
proof -
  let ?p0 = "snd (disk_start disk_new 0)"
  let ?p1 = "?p0\<lparr>d_last_alert_time := [''/_critical'' \<mapsto> 0]\<rparr>"
  let ?ev0 = "create_disk_event sample_runtime (sample_env 0) sample_root ''critical'' (Fin 95)"
  let ?ev1 = "create_disk_event sample_runtime (sample_env 300) sample_var ''critical'' (Fin 95)"
  let ?ops = "[DiskDetect (sample_env 100) []]"
  let ?m0 = "snd (memory_start memory_new 0)"
  let ?m1 = "?m0\<lparr>m_last_alert_time := [''memory'' \<mapsto> 0]\<rparr>"
  let ?mev0 = "create_memory_event sample_runtime ?m0 (sample_env 0) sample_memory ''memory''"
  let ?mev1 = "create_memory_event sample_runtime ?m1 (sample_env 200) sample_memory ''swap''"
  let ?mops = "[MemoryDetect (sample_env 100) (Inl (ValueError ''unavailable''))]"
  note d = cooldown_suppresses_repeated_alert
    [where rt = sample_runtime and p = ?p0 and env = "sample_env 0"
       and info = "[sample_root, sample_var]" and ev = ?ev0 and ?p1.0 = ?p1 and ops = ?ops
       and env' = "sample_env 300" and info' = "[sample_root, sample_var]" and t' = 600]
  note m = cooldown_suppresses_repeated_alert
    [where rt = sample_runtime and mp = ?m0 and env = "sample_env 0"
       and source = "Inr sample_memory" and mev = ?mev0 and ?mp1.0 = ?m1 and mops = ?mops
       and env' = "sample_env 200" and source' = "Inr sample_memory" and t' = 300]
  have times: "disk_detect_times ?ops = [100]"
    by (simp add: sample_env_def)
  have later: "\<forall>t \<in> set (disk_detect_times ?ops). de_now (sample_env 0) \<le> t"
    by (simp add: sample_env_def)
  have cd: "d_alert_cooldown (disk_run sample_runtime ?p1 ?ops) = 600"
    by (simp add: disk_run_def disk_detect_triggers_def disk_start_def disk_new_def)
  have within: "de_now (sample_env 300) - de_now (sample_env 0)
      < of_int (d_alert_cooldown (disk_run sample_runtime ?p1 ?ops))"
    unfolding cd by (simp add: sample_env_def)
  have key: "disk_event_key ?ev1 \<noteq> disk_event_key ?ev0"
    using d [THEN conjunct1] sample_disk_first later within sample_disk_third by blast
  have ends: "should_alert (d_last_alert_time ?p1) (d_alert_cooldown ?p1) (disk_event_key ?ev0) 600
      = (of_int (d_alert_cooldown ?p1) \<le> 600 - de_now (sample_env 0))"
    using d [THEN conjunct2, THEN conjunct1] sample_disk_first by blast
  have ends': "should_alert [''/_critical'' \<mapsto> 0] 600 ''/_critical'' 600"
    using ends
    by (simp add: disk_start_def disk_new_def sample_env_def disk_event_key_create
        sample_root_def disk_alert_key_def)
  have mlater: "\<forall>t \<in> set (memory_detect_times ?mops). de_now (sample_env 0) \<le> t"
    by (simp add: sample_env_def)
  have mcd: "m_alert_cooldown (memory_run sample_runtime ?m1 ?mops) = 300"
    by (simp add: memory_run_def memory_detect_triggers_def memory_start_def memory_new_def)
  have mwithin: "de_now (sample_env 200) - de_now (sample_env 0)
      < of_int (m_alert_cooldown (memory_run sample_runtime ?m1 ?mops))"
    unfolding mcd by (simp add: sample_env_def)
  have mkey: "memory_event_key ?mev1 \<noteq> memory_event_key ?mev0"
    using m [THEN conjunct2, THEN conjunct2, THEN conjunct1]
      sample_memory_first mlater mwithin sample_memory_second
    by blast
  have mends: "should_alert (m_last_alert_time ?m1) (m_alert_cooldown ?m1)
        (memory_event_key ?mev0) 300
      = (of_int (m_alert_cooldown ?m1) \<le> 300 - de_now (sample_env 0))"
    using m [THEN conjunct2, THEN conjunct2, THEN conjunct2] sample_memory_first by blast
  have mends': "should_alert [''memory'' \<mapsto> 0] 300 ''memory'' 300"
    using mends
    by (simp add: memory_start_def memory_new_def sample_env_def memory_event_key_create)
  have not_yet: "\<not> should_alert [''/_critical'' \<mapsto> 0] 600 ''/_critical'' 599"
    by (simp add: should_alert_def)
  have early: "fst (disk_detect_triggers sample_runtime ?p1 (sample_env 599) [sample_root]) = None"
    by (simp add: disk_detect_triggers_def disk_start_def disk_new_def disk_alert_level_def
        sample_root_def sample_env_def fge_def should_alert_def Let_def disk_alert_key_def)
  note r = cooldown_suppresses_repeated_alert
    [where rt = sample_runtime and p = ?p0 and env = "sample_env 0"
       and info = "[sample_root, sample_var]" and ev = ?ev0 and ?p1.0 = ?p1
       and env' = "sample_env 600" and pre = "[]" and fs = sample_root
       and post = "[sample_var]" and thr = "Fin 95",
     THEN conjunct2, THEN conjunct2, THEN conjunct2, THEN conjunct2, THEN conjunct1]
  have r1: "of_int (d_alert_cooldown ?p1) \<le> de_now (sample_env 600) - de_now (sample_env 0)"
    by (simp add: disk_start_def disk_new_def sample_env_def)
  have r2: "\<forall>f \<in> set []. \<forall>l th. disk_alert_level ?p1 f = Some (l, th) \<longrightarrow>
        \<not> should_alert (d_last_alert_time ?p1) (d_alert_cooldown ?p1)
            (disk_alert_key (fs_mountpoint f) l) (de_now (sample_env 600))"
    by simp
  have r3: "fs_mountpoint sample_root = fs_mountpoint (ev_filesystem ?ev0)"
    by (simp add: create_disk_event_def)
  have r4: "disk_alert_level ?p1 sample_root = Some (ev_alert_level ?ev0, Fin 95)"
    by (simp add: create_disk_event_def disk_alert_level_def disk_start_def disk_new_def
        sample_root_def fge_def)
  from r sample_disk_first r1 r2 r3 r4
  have "disk_detect_triggers sample_runtime ?p1 (sample_env 600) ([] @ sample_root # [sample_var])
      = (Some (create_disk_event sample_runtime (sample_env 600) sample_root
                 (ev_alert_level ?ev0) (Fin 95)),
         ?p1\<lparr>d_last_alert_time :=
               (d_last_alert_time ?p1)(disk_event_key ?ev0 \<mapsto> de_now (sample_env 600))\<rparr>)"
    by blast
  then have again: "disk_detect_triggers sample_runtime ?p1 (sample_env 600)
        [sample_root, sample_var]
      = (Some (create_disk_event sample_runtime (sample_env 600) sample_root ''critical'' (Fin 95)),
         ?p0\<lparr>d_last_alert_time := [''/_critical'' \<mapsto> 600]\<rparr>)"
    by (simp add: disk_event_key_create disk_alert_key_def sample_root_def sample_env_def)
      (simp add: create_disk_event_def)
  let ?q = "?p0\<lparr>d_last_alert_time := [''/_critical'' \<mapsto> 0, ''/var_critical'' \<mapsto> 300]\<rparr>"
  note g = cooldown_suppresses_repeated_alert
    [where rt = sample_runtime and q = ?q and fs = sample_root and lvl = "''critical''"
       and ?t0.0 = 0 and env' = "sample_env 700" and pre = "[sample_var]" and thr = "Fin 95"
       and post = "[]",
     THEN conjunct2, THEN conjunct2, THEN conjunct2, THEN conjunct2, THEN conjunct2,
     THEN conjunct1]
  have g1: "d_running ?q"
    by (simp add: disk_start_def disk_new_def)
  have g2: "d_last_alert_time ?q (disk_alert_key (fs_mountpoint sample_root) ''critical'') = Some 0"
    by (simp add: disk_alert_key_def sample_root_def)
  have g3: "of_int (d_alert_cooldown ?q) \<le> de_now (sample_env 700) - 0"
    by (simp add: disk_start_def disk_new_def sample_env_def)
  have g4: "\<forall>f \<in> set [sample_var]. \<forall>l th. disk_alert_level ?q f = Some (l, th) \<longrightarrow>
        \<not> should_alert (d_last_alert_time ?q) (d_alert_cooldown ?q)
            (disk_alert_key (fs_mountpoint f) l) (de_now (sample_env 700))"
    by (simp add: disk_alert_level_def disk_start_def disk_new_def sample_var_def fge_def
        should_alert_def disk_alert_key_def sample_env_def)
  have g5: "disk_alert_level ?q sample_root = Some (''critical'', Fin 95)"
    by (simp add: disk_alert_level_def disk_start_def disk_new_def sample_root_def fge_def)
  from g g1 g2 g3 g4 g5
  have "disk_detect_triggers sample_runtime ?q (sample_env 700) ([sample_var] @ sample_root # [])
      = (Some (create_disk_event sample_runtime (sample_env 700) sample_root ''critical'' (Fin 95)),
         ?q\<lparr>d_last_alert_time :=
              (d_last_alert_time ?q)(disk_alert_key (fs_mountpoint sample_root) ''critical''
                 \<mapsto> de_now (sample_env 700))\<rparr>)"
    by blast
  then have later_state: "fst (disk_detect_triggers sample_runtime ?q (sample_env 700)
        [sample_var, sample_root])
      = Some (create_disk_event sample_runtime (sample_env 700) sample_root ''critical'' (Fin 95))"
    by simp
  note mr = cooldown_suppresses_repeated_alert
    [where rt = sample_runtime and mp = ?m0 and env = "sample_env 0"
       and source = "Inr sample_memory" and mev = ?mev0 and ?mp1.0 = ?m1
       and env' = "sample_env 300" and minfo = sample_memory,
     THEN conjunct2, THEN conjunct2, THEN conjunct2, THEN conjunct2, THEN conjunct2,
     THEN conjunct2, THEN conjunct1]
  have mr1: "memory_event_key ?mev0 = ''memory''"
    by (simp add: memory_event_key_create)
  have mr2: "of_int (m_alert_cooldown ?m1) \<le> de_now (sample_env 300) - de_now (sample_env 0)"
    by (simp add: memory_start_def memory_new_def sample_env_def)
  have mr3: "fgt (mi_memory_percent sample_memory) (m_memory_threshold ?m1)"
    by (simp add: memory_start_def memory_new_def sample_memory_def fgt_def)
  from mr sample_memory_first mr1 mr2 mr3
  have "memory_detect_triggers sample_runtime ?m1 (sample_env 300) (Inr sample_memory)
      = (Some (create_memory_event sample_runtime ?m1 (sample_env 300) sample_memory ''memory''),
         ?m1\<lparr>m_last_alert_time :=
               (m_last_alert_time ?m1)(''memory'' \<mapsto> de_now (sample_env 300))\<rparr>)"
    by blast
  then have magain: "fst (memory_detect_triggers sample_runtime ?m1 (sample_env 300)
        (Inr sample_memory))
      = Some (create_memory_event sample_runtime ?m1 (sample_env 300) sample_memory ''memory'')"
    by simp
  let ?m2 = "?m0\<lparr>m_last_alert_time := [''memory'' \<mapsto> 0, ''swap'' \<mapsto> 200]\<rparr>"
  have swap_first: "memory_detect_triggers sample_runtime ?m1 (sample_env 200) (Inr sample_memory)
      = (Some ?mev1, ?m2)"
    by (simp add: memory_detect_triggers_def memory_start_def memory_new_def
        sample_memory_def sample_env_def fgt_def should_alert_def)
  note sr = cooldown_suppresses_repeated_alert
    [where rt = sample_runtime and mp = ?m1 and env = "sample_env 200"
       and source = "Inr sample_memory" and mev = ?mev1 and ?mp1.0 = ?m2
       and env' = "sample_env 500" and minfo = sample_swap_only,
     THEN conjunct2, THEN conjunct2, THEN conjunct2, THEN conjunct2, THEN conjunct2,
     THEN conjunct2, THEN conjunct2, THEN conjunct1]
  have sr1: "memory_event_key ?mev1 = ''swap''"
    by (simp add: memory_event_key_create)
  have sr2: "of_int (m_alert_cooldown ?m2) \<le> de_now (sample_env 500) - de_now (sample_env 200)"
    by (simp add: memory_start_def memory_new_def sample_env_def)
  have sr3: "fgt (mi_swap_percent sample_swap_only) (m_swap_threshold ?m2)"
    by (simp add: memory_start_def memory_new_def sample_swap_only_def fgt_def)
  have sr4: "\<not> (fgt (mi_memory_percent sample_swap_only) (m_memory_threshold ?m2)
        \<and> should_alert (m_last_alert_time ?m2) (m_alert_cooldown ?m2) ''memory''
            (de_now (sample_env 500)))"
    by (simp add: memory_start_def memory_new_def sample_swap_only_def fgt_def)
  from sr swap_first sr1 sr2 sr3 sr4
  have "memory_detect_triggers sample_runtime ?m2 (sample_env 500) (Inr sample_swap_only)
      = (Some (create_memory_event sample_runtime ?m2 (sample_env 500) sample_swap_only ''swap''),
         ?m2\<lparr>m_last_alert_time :=
               (m_last_alert_time ?m2)(''swap'' \<mapsto> de_now (sample_env 500))\<rparr>)"
    by blast
  then have sagain: "fst (memory_detect_triggers sample_runtime ?m2 (sample_env 500)
        (Inr sample_swap_only))
      = Some (create_memory_event sample_runtime ?m2 (sample_env 500) sample_swap_only ''swap'')"
    by simp
  show ?thesis
    using sample_disk_first times sample_disk_third key ends' not_yet mkey mends'
      early again later_state magain swap_first sagain
    by blast
qed

text \<open>
  C5. One \<open>detect_triggers\<close> call returns at most one event. When it returns an event,
  the state after the call is the state before it with the current time stored in the
  cooldown table under the alert key of that event and nothing else changed; when it
  returns none, the state is unchanged. Both monitors.
\<close>

theorem detect_emits_at_most_one:
  "(case disk_detect_triggers rt p env info of
      (None, p') \<Rightarrow> p' = p
    | (Some ev, p') \<Rightarrow>
        p' = p\<lparr>d_last_alert_time := (d_last_alert_time p)(disk_event_key ev \<mapsto> de_now env)\<rparr>)
   \<and> (case memory_detect_triggers rt mp env source of
      (None, mp') \<Rightarrow> mp' = mp
    | (Some ev, mp') \<Rightarrow>
        mp' = mp\<lparr>m_last_alert_time := (m_last_alert_time mp)(memory_event_key ev \<mapsto> de_now env)\<rparr>)"
proof
  obtain r p' where d: "disk_detect_triggers rt p env info = (r, p')"
    by (cases "disk_detect_triggers rt p env info")
  from disk_detect_result [OF d] d
  show "case disk_detect_triggers rt p env info of
      (None, p') \<Rightarrow> p' = p
    | (Some ev, p') \<Rightarrow>
        p' = p\<lparr>d_last_alert_time := (d_last_alert_time p)(disk_event_key ev \<mapsto> de_now env)\<rparr>"
    by (cases r) simp_all
next
  obtain r p' where d: "memory_detect_triggers rt mp env source = (r, p')"
    by (cases "memory_detect_triggers rt mp env source")
  from memory_detect_result [OF d] d
  show "case memory_detect_triggers rt mp env source of
      (None, mp') \<Rightarrow> mp' = mp
    | (Some ev, mp') \<Rightarrow>
        mp' = mp\<lparr>m_last_alert_time := (m_last_alert_time mp)(memory_event_key ev \<mapsto> de_now env)\<rparr>"
    by (cases r) simp_all
qed

theorem detect_emits_at_most_one_witness:
  "disk_alert_level (snd (disk_start disk_new 0)) sample_root = Some (''critical'', Fin 95)
   \<and> disk_alert_level (snd (disk_start disk_new 0)) sample_var = Some (''critical'', Fin 95)
   \<and> disk_detect_triggers sample_runtime (snd (disk_start disk_new 0)) (sample_env 0)
        [sample_root, sample_var]
        = (Some (create_disk_event sample_runtime (sample_env 0) sample_root ''critical'' (Fin 95)),
           (snd (disk_start disk_new 0))\<lparr>d_last_alert_time := [''/_critical'' \<mapsto> 0]\<rparr>)
   \<and> (snd (disk_start disk_new 0))\<lparr>d_last_alert_time := [''/_critical'' \<mapsto> 0]\<rparr>
        = (snd (disk_start disk_new 0))
            \<lparr>d_last_alert_time := (d_last_alert_time (snd (disk_start disk_new 0)))
               (disk_event_key
                  (create_disk_event sample_runtime (sample_env 0) sample_root ''critical'' (Fin 95))
                \<mapsto> de_now (sample_env 0))\<rparr>"
proof -
  have levels:
    "disk_alert_level (snd (disk_start disk_new 0)) sample_root = Some (''critical'', Fin 95)"
    "disk_alert_level (snd (disk_start disk_new 0)) sample_var = Some (''critical'', Fin 95)"
    by (simp_all add: disk_alert_level_def disk_start_def disk_new_def sample_root_def
        sample_var_def fge_def)
  from detect_emits_at_most_one
    [where rt = sample_runtime and p = "snd (disk_start disk_new 0)" and env = "sample_env 0"
       and info = "[sample_root, sample_var]"]
    sample_disk_first
  have "(snd (disk_start disk_new 0))\<lparr>d_last_alert_time := [''/_critical'' \<mapsto> 0]\<rparr>
        = (snd (disk_start disk_new 0))
            \<lparr>d_last_alert_time := (d_last_alert_time (snd (disk_start disk_new 0)))
               (disk_event_key
                  (create_disk_event sample_runtime (sample_env 0) sample_root ''critical'' (Fin 95))
                \<mapsto> de_now (sample_env 0))\<rparr>"
    by simp
  with levels sample_disk_first show ?thesis by blast
qed

section \<open>Rejected configurations and the error status\<close>

lemma disk_validate_cases:
  "disk_validate q = (True, q\<lparr>d_status := ''initialized''\<rparr>) \<or> disk_validate q = disk_failed q"
  by (simp add: disk_validate_def)

lemma disk_set_paths_fields:
  "d_config (disk_set_paths config q) = d_config q"
  "d_threshold (disk_set_paths config q) = d_threshold q"
  "d_critical_threshold (disk_set_paths config q) = d_critical_threshold q"
  "d_interval (disk_set_paths config q) = d_interval q"
  "d_alert_cooldown (disk_set_paths config q) = d_alert_cooldown q"
  "d_running (disk_set_paths config q) = d_running q"
  "d_status (disk_set_paths config q) = d_status q"
  "d_start_time (disk_set_paths config q) = d_start_time q"
  "d_last_alert_time (disk_set_paths config q) = d_last_alert_time q"
  by (simp_all add: disk_set_paths_def Let_def)

lemma disk_validate_fields:
  "d_config (snd (disk_validate q)) = d_config q"
  "d_threshold (snd (disk_validate q)) = d_threshold q"
  "d_critical_threshold (snd (disk_validate q)) = d_critical_threshold q"
  "d_interval (snd (disk_validate q)) = d_interval q"
  "d_alert_cooldown (snd (disk_validate q)) = d_alert_cooldown q"
  "d_running (snd (disk_validate q)) = d_running q"
  "d_start_time (snd (disk_validate q)) = d_start_time q"
  "d_last_alert_time (snd (disk_validate q)) = d_last_alert_time q"
  "d_status (snd (disk_validate q)) = (if fst (disk_validate q) then ''initialized'' else ''error'')"
  by (simp_all add: disk_validate_def disk_failed_def)

lemma disk_initialize_frame:
  "d_config (snd (disk_initialize rt p config)) = config"
  "d_running (snd (disk_initialize rt p config)) = d_running p"
  "d_start_time (snd (disk_initialize rt p config)) = d_start_time p"
  "d_status (snd (disk_initialize rt p config))
     = (if fst (disk_initialize rt p config) then ''initialized'' else ''error'')"
  by (simp_all add: disk_initialize_def Let_def disk_failed_def disk_validate_fields
      disk_set_paths_fields split: sum.splits)

lemma disk_initialize_fields:
  assumes "get_float rt config ''threshold'' (JFloat (Fin 85)) = Inr t"
  shows "d_threshold (snd (disk_initialize rt p config)) = t"
    and "get_float rt config ''critical_threshold'' (JFloat (Fin 95)) = Inr c
      \<Longrightarrow> d_critical_threshold (snd (disk_initialize rt p config)) = c"
    and "get_float rt config ''critical_threshold'' (JFloat (Fin 95)) = Inr c
      \<Longrightarrow> get_int rt config ''interval'' (JInt 300) = Inr i
      \<Longrightarrow> d_interval (snd (disk_initialize rt p config)) = i"
    and "get_float rt config ''critical_threshold'' (JFloat (Fin 95)) = Inr c
      \<Longrightarrow> get_int rt config ''interval'' (JInt 300) = Inr i
      \<Longrightarrow> get_int rt config ''alert_cooldown'' (JInt 600) = Inr cd
      \<Longrightarrow> d_alert_cooldown (snd (disk_initialize rt p config)) = cd"
  using assms
  by (simp_all add: disk_initialize_def Let_def disk_failed_def disk_validate_fields
      disk_set_paths_fields split: sum.splits)

lemma memory_validate_fields:
  "m_config (snd (memory_validate q)) = m_config q"
  "m_memory_threshold (snd (memory_validate q)) = m_memory_threshold q"
  "m_swap_threshold (snd (memory_validate q)) = m_swap_threshold q"
  "m_interval (snd (memory_validate q)) = m_interval q"
  "m_alert_cooldown (snd (memory_validate q)) = m_alert_cooldown q"
  "m_running (snd (memory_validate q)) = m_running q"
  "m_start_time (snd (memory_validate q)) = m_start_time q"
  "m_last_alert_time (snd (memory_validate q)) = m_last_alert_time q"
  "m_status (snd (memory_validate q)) = (if fst (memory_validate q) then ''initialized'' else ''error'')"
  by (simp_all add: memory_validate_def memory_failed_def)

lemma memory_initialize_frame:
  "m_config (snd (memory_initialize rt p config)) = config"
  "m_running (snd (memory_initialize rt p config)) = m_running p"
  "m_start_time (snd (memory_initialize rt p config)) = m_start_time p"
  "m_status (snd (memory_initialize rt p config))
     = (if fst (memory_initialize rt p config) then ''initialized'' else ''error'')"
  by (simp_all add: memory_initialize_def Let_def memory_failed_def memory_validate_fields
      split: sum.splits)

lemma disk_initialize_threshold:
  "d_threshold (snd (disk_initialize rt p config))
     = (case get_float rt config ''threshold'' (JFloat (Fin 85)) of
          Inl e \<Rightarrow> d_threshold p | Inr t \<Rightarrow> t)"
  by (simp add: disk_initialize_def Let_def disk_failed_def disk_validate_fields
      disk_set_paths_fields split: sum.splits)

lemma disk_initialize_critical:
  "d_critical_threshold (snd (disk_initialize rt p config))
     = (case get_float rt config ''threshold'' (JFloat (Fin 85)) of
          Inl e \<Rightarrow> d_critical_threshold p
        | Inr t \<Rightarrow>
            (case get_float rt config ''critical_threshold'' (JFloat (Fin 95)) of
               Inl e \<Rightarrow> d_critical_threshold p | Inr c \<Rightarrow> c))"
  by (simp add: disk_initialize_def Let_def disk_failed_def disk_validate_fields
      disk_set_paths_fields split: sum.splits)

lemma memory_initialize_threshold:
  "m_memory_threshold (snd (memory_initialize rt p config))
     = (case get_float rt config ''memory_threshold'' (JFloat (Fin 85)) of
          Inl e \<Rightarrow> m_memory_threshold p | Inr t \<Rightarrow> t)"
  by (simp add: memory_initialize_def Let_def memory_failed_def memory_validate_fields
      split: sum.splits)

lemma memory_initialize_swap:
  "m_swap_threshold (snd (memory_initialize rt p config))
     = (case get_float rt config ''memory_threshold'' (JFloat (Fin 85)) of
          Inl e \<Rightarrow> m_swap_threshold p
        | Inr t \<Rightarrow>
            (case get_float rt config ''swap_threshold'' (JFloat (Fin 90)) of
               Inl e \<Rightarrow> m_swap_threshold p | Inr c \<Rightarrow> c))"
  by (simp add: memory_initialize_def Let_def memory_failed_def memory_validate_fields
      split: sum.splits)

lemma disk_initialize_converted:
  assumes "get_float rt config ''threshold'' (JFloat (Fin 85)) = Inr t"
    and "get_float rt config ''critical_threshold'' (JFloat (Fin 95)) = Inr c"
    and "get_int rt config ''interval'' (JInt 300) = Inr i"
    and "get_int rt config ''alert_cooldown'' (JInt 600) = Inr cd"
  shows "d_threshold (snd (disk_initialize rt p config)) = t
       \<and> d_critical_threshold (snd (disk_initialize rt p config)) = c
       \<and> d_interval (snd (disk_initialize rt p config)) = i
       \<and> d_alert_cooldown (snd (disk_initialize rt p config)) = cd"
  using assms
  by (simp add: disk_initialize_def Let_def disk_validate_fields disk_set_paths_fields)

lemma memory_initialize_converted:
  assumes "get_float rt config ''memory_threshold'' (JFloat (Fin 85)) = Inr t"
    and "get_float rt config ''swap_threshold'' (JFloat (Fin 90)) = Inr c"
    and "get_int rt config ''interval'' (JInt 60) = Inr i"
    and "get_int rt config ''alert_cooldown'' (JInt 300) = Inr cd"
  shows "m_memory_threshold (snd (memory_initialize rt p config)) = t
       \<and> m_swap_threshold (snd (memory_initialize rt p config)) = c
       \<and> m_interval (snd (memory_initialize rt p config)) = i
       \<and> m_alert_cooldown (snd (memory_initialize rt p config)) = cd"
  using assms
  by (simp add: memory_initialize_def Let_def memory_validate_fields)

text \<open>
  C3, as the code has it. When \<open>initialize\<close> rejects a configuration it returns
  \<open>False\<close> and the status is \<open>error\<close>; the rejected configuration is stored in
  \<open>config\<close>, and when its four numeric options convert, the four fields derived from
  them hold the rejected values. The running flag, the start time and the cooldown
  table keep their values. Both monitors.
\<close>

theorem rejected_config_is_stored:
  "(\<not> fst (disk_initialize rt p config) \<longrightarrow>
      d_status (snd (disk_initialize rt p config)) = ''error''
      \<and> d_config (snd (disk_initialize rt p config)) = config
      \<and> d_running (snd (disk_initialize rt p config)) = d_running p
      \<and> d_start_time (snd (disk_initialize rt p config)) = d_start_time p
      \<and> d_last_alert_time (snd (disk_initialize rt p config)) = d_last_alert_time p
      \<and> (get_float rt config ''threshold'' (JFloat (Fin 85)) = Inr t
           \<and> get_float rt config ''critical_threshold'' (JFloat (Fin 95)) = Inr c
           \<and> get_int rt config ''interval'' (JInt 300) = Inr i
           \<and> get_int rt config ''alert_cooldown'' (JInt 600) = Inr cd
         \<longrightarrow> d_threshold (snd (disk_initialize rt p config)) = t
           \<and> d_critical_threshold (snd (disk_initialize rt p config)) = c
           \<and> d_interval (snd (disk_initialize rt p config)) = i
           \<and> d_alert_cooldown (snd (disk_initialize rt p config)) = cd))
   \<and> (\<not> fst (memory_initialize rt mp config) \<longrightarrow>
      m_status (snd (memory_initialize rt mp config)) = ''error''
      \<and> m_config (snd (memory_initialize rt mp config)) = config
      \<and> m_running (snd (memory_initialize rt mp config)) = m_running mp
      \<and> m_start_time (snd (memory_initialize rt mp config)) = m_start_time mp
      \<and> m_last_alert_time (snd (memory_initialize rt mp config)) = m_last_alert_time mp
      \<and> (get_float rt config ''memory_threshold'' (JFloat (Fin 85)) = Inr mt
           \<and> get_float rt config ''swap_threshold'' (JFloat (Fin 90)) = Inr st
           \<and> get_int rt config ''interval'' (JInt 60) = Inr mi
           \<and> get_int rt config ''alert_cooldown'' (JInt 300) = Inr mcd
         \<longrightarrow> m_memory_threshold (snd (memory_initialize rt mp config)) = mt
           \<and> m_swap_threshold (snd (memory_initialize rt mp config)) = st
           \<and> m_interval (snd (memory_initialize rt mp config)) = mi
           \<and> m_alert_cooldown (snd (memory_initialize rt mp config)) = mcd))"
  using disk_initialize_converted [of rt config t c i cd p]
    memory_initialize_converted [of rt config mt st mi mcd mp]
  by (simp add: disk_initialize_frame memory_initialize_frame disk_initialize_table
      memory_initialize_table)

lemmas sample_eval =
  disk_initialize_def memory_initialize_def get_float_def get_int_def Let_def
  disk_validate_def memory_validate_def disk_failed_def memory_failed_def disk_set_paths_def
  disk_new_def memory_new_def fge_def sample_accepted_def sample_rejected_def
  sample_memory_rejected_def

lemma sample_accepted_state:
  "disk_initialize sample_runtime disk_new sample_accepted = (True, sample_initialized)"
  "sample_initialized
     = disk_new\<lparr>d_config := sample_accepted, d_threshold := Fin 80,
          d_critical_threshold := Fin 90, d_status := ''initialized''\<rparr>"
  by (simp_all add: sample_initialized_def) (simp_all add: sample_eval)

lemma sample_rejected_state:
  "disk_initialize sample_runtime sample_initialized sample_rejected
     = (False, disk_new\<lparr>d_config := sample_rejected, d_threshold := Fin 95,
          d_critical_threshold := Fin 90, d_status := ''error''\<rparr>)"
  unfolding sample_accepted_state(2) by (simp add: sample_eval)

lemma sample_memory_rejected_state:
  "memory_initialize sample_runtime memory_new sample_memory_rejected
     = (False, memory_new\<lparr>m_config := sample_memory_rejected, m_memory_threshold := Fin 150,
          m_status := ''error''\<rparr>)"
  by (simp add: sample_eval)

theorem rejected_config_counterexample:
  "disk_initialize sample_runtime disk_new sample_accepted = (True, sample_initialized)
   \<and> \<not> fst (disk_initialize sample_runtime sample_initialized sample_rejected)
   \<and> d_threshold sample_initialized = Fin 80
   \<and> d_threshold (snd (disk_initialize sample_runtime sample_initialized sample_rejected)) = Fin 95
   \<and> d_config sample_initialized = sample_accepted
   \<and> d_config (snd (disk_initialize sample_runtime sample_initialized sample_rejected))
        = sample_rejected
   \<and> sample_rejected \<noteq> sample_accepted"
proof -
  have "sample_rejected \<noteq> sample_accepted"
    by (simp add: sample_accepted_def sample_rejected_def)
  moreover have "d_threshold sample_initialized = Fin 80"
    "d_config sample_initialized = sample_accepted"
    by (simp_all add: sample_accepted_state(2))
  ultimately show ?thesis
    by (simp add: sample_accepted_state(1) sample_rejected_state)
qed

theorem rejected_config_is_stored_witness:
  "\<not> fst (disk_initialize sample_runtime sample_initialized sample_rejected)
   \<and> get_float sample_runtime sample_rejected ''threshold'' (JFloat (Fin 85)) = Inr (Fin 95)
   \<and> get_float sample_runtime sample_rejected ''critical_threshold'' (JFloat (Fin 95)) = Inr (Fin 90)
   \<and> get_int sample_runtime sample_rejected ''interval'' (JInt 300) = Inr 300
   \<and> get_int sample_runtime sample_rejected ''alert_cooldown'' (JInt 600) = Inr 600
   \<and> d_status (snd (disk_initialize sample_runtime sample_initialized sample_rejected)) = ''error''
   \<and> d_config (snd (disk_initialize sample_runtime sample_initialized sample_rejected))
        = sample_rejected
   \<and> d_threshold (snd (disk_initialize sample_runtime sample_initialized sample_rejected)) = Fin 95
   \<and> d_critical_threshold (snd (disk_initialize sample_runtime sample_initialized sample_rejected))
        = Fin 90
   \<and> \<not> fst (memory_initialize sample_runtime memory_new sample_memory_rejected)
   \<and> m_status (snd (memory_initialize sample_runtime memory_new sample_memory_rejected)) = ''error''
   \<and> m_config (snd (memory_initialize sample_runtime memory_new sample_memory_rejected))
        = sample_memory_rejected
   \<and> m_memory_threshold (snd (memory_initialize sample_runtime memory_new sample_memory_rejected))
        = Fin 150"
proof -
  have d: "\<not> fst (disk_initialize sample_runtime sample_initialized sample_rejected)"
    by (simp add: sample_rejected_state)
  have m: "\<not> fst (memory_initialize sample_runtime memory_new sample_memory_rejected)"
    by (simp add: sample_memory_rejected_state)
  have c: "get_float sample_runtime sample_rejected ''threshold'' (JFloat (Fin 85)) = Inr (Fin 95)"
    "get_float sample_runtime sample_rejected ''critical_threshold'' (JFloat (Fin 95)) = Inr (Fin 90)"
    "get_int sample_runtime sample_rejected ''interval'' (JInt 300) = Inr 300"
    "get_int sample_runtime sample_rejected ''alert_cooldown'' (JInt 600) = Inr 600"
    by (simp_all add: get_float_def get_int_def sample_rejected_def)
  have mc: "get_float sample_runtime sample_memory_rejected ''memory_threshold'' (JFloat (Fin 85))
        = Inr (Fin 150)"
    "get_float sample_runtime sample_memory_rejected ''swap_threshold'' (JFloat (Fin 90))
        = Inr (Fin 90)"
    "get_int sample_runtime sample_memory_rejected ''interval'' (JInt 60) = Inr 60"
    "get_int sample_runtime sample_memory_rejected ''alert_cooldown'' (JInt 300) = Inr 300"
    by (simp_all add: get_float_def get_int_def sample_memory_rejected_def)
  note dt = rejected_config_is_stored
    [where rt = sample_runtime and p = sample_initialized and config = sample_rejected
       and t = "Fin 95" and c = "Fin 90" and i = 300 and cd = 600, THEN conjunct1]
  note mt = rejected_config_is_stored
    [where rt = sample_runtime and mp = memory_new and config = sample_memory_rejected
       and mt = "Fin 150" and st = "Fin 90" and mi = 60 and mcd = 300, THEN conjunct2]
  from dt d c mt m mc show ?thesis by blast
qed

lemma shell_initialize_status:
  "s_status (snd (shell_initialize rt p config))
     = (if fst (shell_initialize rt p config) then ''initialized'' else ''error'')"
  by (simp add: shell_initialize_def Let_def shell_failed_def shell_validate_def
      split: sum.splits option.splits)

lemma email_initialize_status:
  "e_status (snd (email_initialize rt p config))
     = (if fst (email_initialize rt p config) then ''initialized'' else ''error'')"
  by (simp add: email_initialize_def Let_def email_failed_def split: sum.splits)

lemma sample_error_states:
  "sample_disk_error
     = disk_new\<lparr>d_config := sample_rejected, d_threshold := Fin 95,
          d_critical_threshold := Fin 90, d_status := ''error''\<rparr>"
  "sample_running_error
     = disk_new\<lparr>d_config := sample_rejected, d_threshold := Fin 95,
          d_critical_threshold := Fin 90, d_running := True, d_status := ''error'',
          d_start_time := Some 0\<rparr>"
  "sample_memory_error
     = memory_new\<lparr>m_config := sample_memory_rejected, m_memory_threshold := Fin 150,
          m_status := ''error''\<rparr>"
  "sample_shell_error
     = (shell_new True)\<lparr>s_config := sample_shell_rejected, s_timeout := 0, s_status := ''error''\<rparr>"
  "sample_email_error = (email_new False)\<lparr>e_status := ''error''\<rparr>"
  by (simp_all add: sample_disk_error_def sample_running_error_def sample_memory_error_def
      sample_shell_error_def sample_email_error_def sample_eval disk_start_def
      shell_initialize_def shell_new_def sample_shell_rejected_def config_entry_def
      shell_validate_def shell_failed_def email_initialize_def email_new_def email_failed_def
      or_default_def)

text \<open>
  C2, as the code has it. In each of the four plugins (disk monitor, memory monitor,
  shell command, email notification), from the status \<open>error\<close>: \<open>stop\<close> succeeds and
  sets the status to \<open>stopped\<close>; \<open>start\<close> succeeds and sets it to \<open>running\<close>, unless
  the running flag is already set, in which case nothing changes; \<open>initialize\<close> sets it to
  \<open>initialized\<close> when it accepts the configuration and leaves it \<open>error\<close> otherwise.
\<close>

theorem error_state_transitions:
  "(d_status p = ''error'' \<longrightarrow>
      fst (disk_stop p) \<and> d_status (snd (disk_stop p)) = ''stopped''
      \<and> fst (disk_start p now)
      \<and> d_status (snd (disk_start p now)) = (if d_running p then ''error'' else ''running'')
      \<and> d_status (snd (disk_initialize rt p config))
          = (if fst (disk_initialize rt p config) then ''initialized'' else ''error''))
   \<and> (m_status mp = ''error'' \<longrightarrow>
      fst (memory_stop mp) \<and> m_status (snd (memory_stop mp)) = ''stopped''
      \<and> fst (memory_start mp now)
      \<and> m_status (snd (memory_start mp now)) = (if m_running mp then ''error'' else ''running'')
      \<and> m_status (snd (memory_initialize rt mp config))
          = (if fst (memory_initialize rt mp config) then ''initialized'' else ''error''))
   \<and> (s_status sp = ''error'' \<longrightarrow>
      fst (shell_stop sp) \<and> s_status (snd (shell_stop sp)) = ''stopped''
      \<and> fst (shell_start sp now)
      \<and> s_status (snd (shell_start sp now)) = (if s_running sp then ''error'' else ''running'')
      \<and> s_status (snd (shell_initialize rt sp config))
          = (if fst (shell_initialize rt sp config) then ''initialized'' else ''error''))
   \<and> (e_status ep = ''error'' \<longrightarrow>
      fst (email_stop ep) \<and> e_status (snd (email_stop ep)) = ''stopped''
      \<and> fst (email_start ep now)
      \<and> e_status (snd (email_start ep now)) = (if e_running ep then ''error'' else ''running'')
      \<and> e_status (snd (email_initialize rt ep config))
          = (if fst (email_initialize rt ep config) then ''initialized'' else ''error''))"
proof (intro conjI impI)
  assume "d_status p = ''error''"
  then show "fst (disk_stop p)" "d_status (snd (disk_stop p)) = ''stopped''"
    "fst (disk_start p now)"
    "d_status (snd (disk_start p now)) = (if d_running p then ''error'' else ''running'')"
    by (simp_all add: disk_stop_def disk_start_def)
  show "d_status (snd (disk_initialize rt p config))
          = (if fst (disk_initialize rt p config) then ''initialized'' else ''error'')"
    by (rule disk_initialize_frame(4))
next
  assume "m_status mp = ''error''"
  then show "fst (memory_stop mp)" "m_status (snd (memory_stop mp)) = ''stopped''"
    "fst (memory_start mp now)"
    "m_status (snd (memory_start mp now)) = (if m_running mp then ''error'' else ''running'')"
    by (simp_all add: memory_stop_def memory_start_def)
  show "m_status (snd (memory_initialize rt mp config))
          = (if fst (memory_initialize rt mp config) then ''initialized'' else ''error'')"
    by (rule memory_initialize_frame(4))
next
  assume "s_status sp = ''error''"
  then show "fst (shell_stop sp)" "s_status (snd (shell_stop sp)) = ''stopped''"
    "fst (shell_start sp now)"
    "s_status (snd (shell_start sp now)) = (if s_running sp then ''error'' else ''running'')"
    by (simp_all add: shell_stop_def shell_start_def)
  show "s_status (snd (shell_initialize rt sp config))
          = (if fst (shell_initialize rt sp config) then ''initialized'' else ''error'')"
    by (rule shell_initialize_status)
next
  assume "e_status ep = ''error''"
  then show "fst (email_stop ep)" "e_status (snd (email_stop ep)) = ''stopped''"
    "fst (email_start ep now)"
    "e_status (snd (email_start ep now)) = (if e_running ep then ''error'' else ''running'')"
    by (simp_all add: email_stop_def email_start_def)
  show "e_status (snd (email_initialize rt ep config))
          = (if fst (email_initialize rt ep config) then ''initialized'' else ''error'')"
    by (rule email_initialize_status)
qed

theorem error_state_counterexample:
  "d_status sample_disk_error = ''error''
   \<and> d_status (snd (disk_start sample_disk_error 0)) = ''running''
   \<and> d_status (snd (disk_stop sample_disk_error)) = ''stopped''
   \<and> s_status sample_shell_error = ''error''
   \<and> s_status (snd (shell_start sample_shell_error 0)) = ''running''
   \<and> s_status (snd (shell_stop sample_shell_error)) = ''stopped''"
  by (simp add: sample_error_states disk_start_def disk_stop_def disk_new_def
      shell_start_def shell_stop_def shell_new_def)

theorem error_state_transitions_witness:
  "d_status sample_disk_error = ''error''
   \<and> fst (disk_stop sample_disk_error)
   \<and> d_status (snd (disk_stop sample_disk_error)) = ''stopped''
   \<and> fst (disk_start sample_disk_error 0)
   \<and> d_status (snd (disk_start sample_disk_error 0)) = ''running''
   \<and> d_status (snd (disk_initialize sample_runtime sample_disk_error sample_accepted))
        = ''initialized''
   \<and> d_status sample_running_error = ''error''
   \<and> d_running sample_running_error
   \<and> fst (disk_start sample_running_error 1)
   \<and> d_status (snd (disk_start sample_running_error 1)) = ''error''
   \<and> m_status sample_memory_error = ''error''
   \<and> fst (memory_stop sample_memory_error)
   \<and> m_status (snd (memory_stop sample_memory_error)) = ''stopped''
   \<and> fst (memory_start sample_memory_error 0)
   \<and> m_status (snd (memory_start sample_memory_error 0)) = ''running''
   \<and> m_status (snd (memory_initialize sample_runtime sample_memory_error (JObj [])))
        = ''initialized''
   \<and> s_status sample_shell_error = ''error''
   \<and> fst (shell_stop sample_shell_error)
   \<and> s_status (snd (shell_stop sample_shell_error)) = ''stopped''
   \<and> fst (shell_start sample_shell_error 0)
   \<and> s_status (snd (shell_start sample_shell_error 0)) = ''running''
   \<and> s_status (snd (shell_initialize sample_runtime sample_shell_error (JObj [])))
        = ''initialized''
   \<and> e_status sample_email_error = ''error''
   \<and> fst (email_stop sample_email_error)
   \<and> e_status (snd (email_stop sample_email_error)) = ''stopped''
   \<and> fst (email_start sample_email_error 0)
   \<and> e_status (snd (email_start sample_email_error 0)) = ''running''
   \<and> e_status (snd (email_initialize sample_runtime sample_email_error (JObj [])))
        = ''error''"
proof -
  have d: "d_status sample_disk_error = ''error''" "\<not> d_running sample_disk_error"
    "fst (disk_initialize sample_runtime sample_disk_error sample_accepted)"
    by (simp_all add: sample_error_states) (simp_all add: sample_eval)
  have q: "d_status sample_running_error = ''error''" "d_running sample_running_error"
    by (simp_all add: sample_error_states)
  have m: "m_status sample_memory_error = ''error''" "\<not> m_running sample_memory_error"
    "fst (memory_initialize sample_runtime sample_memory_error (JObj []))"
    by (simp_all add: sample_error_states) (simp_all add: sample_eval)
  have s: "s_status sample_shell_error = ''error''" "\<not> s_running sample_shell_error"
    "fst (shell_initialize sample_runtime sample_shell_error (JObj []))"
    by (simp_all add: sample_error_states)
      (simp_all add: shell_new_def shell_initialize_def config_entry_def get_int_def
        shell_validate_def Let_def)
  have e: "e_status sample_email_error = ''error''" "\<not> e_running sample_email_error"
    "\<not> fst (email_initialize sample_runtime sample_email_error (JObj []))"
    by (simp_all add: sample_error_states)
      (simp_all add: email_new_def email_initialize_def get_int_def or_default_def
        email_failed_def Let_def)
  note t1 = error_state_transitions
    [where p = sample_disk_error and now = 0 and rt = sample_runtime
       and config = sample_accepted, THEN conjunct1]
  note t2 = error_state_transitions
    [where p = sample_running_error and now = 1 and rt = sample_runtime
       and config = sample_accepted, THEN conjunct1]
  note t3 = error_state_transitions
    [where mp = sample_memory_error and sp = sample_shell_error and ep = sample_email_error
       and now = 0 and rt = sample_runtime and config = "JObj []", THEN conjunct2]
  from t1 d
  have c1: "fst (disk_stop sample_disk_error)"
    "d_status (snd (disk_stop sample_disk_error)) = ''stopped''"
    "fst (disk_start sample_disk_error 0)"
    "d_status (snd (disk_start sample_disk_error 0)) = ''running''"
    "d_status (snd (disk_initialize sample_runtime sample_disk_error sample_accepted))
        = ''initialized''"
    by simp_all
  from t2 q
  have c2: "fst (disk_start sample_running_error 1)"
    "d_status (snd (disk_start sample_running_error 1)) = ''error''"
    by simp_all
  from t3 [THEN conjunct1] m
  have c3: "fst (memory_stop sample_memory_error)"
    "m_status (snd (memory_stop sample_memory_error)) = ''stopped''"
    "fst (memory_start sample_memory_error 0)"
    "m_status (snd (memory_start sample_memory_error 0)) = ''running''"
    "m_status (snd (memory_initialize sample_runtime sample_memory_error (JObj [])))
        = ''initialized''"
    by simp_all
  from t3 [THEN conjunct2, THEN conjunct1] s
  have c4: "fst (shell_stop sample_shell_error)"
    "s_status (snd (shell_stop sample_shell_error)) = ''stopped''"
    "fst (shell_start sample_shell_error 0)"
    "s_status (snd (shell_start sample_shell_error 0)) = ''running''"
    "s_status (snd (shell_initialize sample_runtime sample_shell_error (JObj [])))
        = ''initialized''"
    by simp_all
  from t3 [THEN conjunct2, THEN conjunct2] e
  have c5: "fst (email_stop sample_email_error)"
    "e_status (snd (email_stop sample_email_error)) = ''stopped''"
    "fst (email_start sample_email_error 0)"
    "e_status (snd (email_start sample_email_error 0)) = ''running''"
    "e_status (snd (email_initialize sample_runtime sample_email_error (JObj [])))
        = ''error''"
    by simp_all
  from d(1) q m(1) s(1) e(1) c1 c2 c3 c4 c5 show ?thesis by blast
qed

section \<open>Results of the action plugins\<close>

lemma create_error_result_shape:
  "ar_status (create_error_result pid env aid err) = ''failed''"
  "ar_error (create_error_result pid env aid err) = Some err"
  "ar_data (create_error_result pid env aid err) = None"
  by (simp_all add: create_error_result_def)

lemma failed_with_shape:
  "ar_status (failed_with r e) = ''failed''"
  "ar_error (failed_with r e) = Some (str_exn e)"
  "ar_data (failed_with r e) = ar_data r"
  by (simp_all add: failed_with_def)

lemma running_result_shape:
  "ar_data (running_result pid env aid) = None"
  "ar_error (running_result pid env aid) = None"
  by (simp_all add: running_result_def)

lemma shell_finish_shape: "terminal_shape (shell_finish p env aid command wd er)"
  by (simp add: shell_finish_def terminal_shape_def Let_def failed_with_def running_result_def
      split: option.splits)

lemma shell_try_shape:
  assumes "shell_try rt source p env aid parameters calls = (r, calls')"
  shows "terminal_shape r \<and> (ar_data r \<noteq> None \<longrightarrow> calls' \<noteq> calls)"
proof (cases "dict_get parameters ''command'' (JStr [])")
  case (Inl e)
  with assms show ?thesis
    by (auto simp: shell_try_def terminal_shape_def failed_with_def running_result_def)
next
  case (Inr command)
  let ?wd = "case dict_get parameters ''working_dir'' (JStr ''/tmp'') of Inr v \<Rightarrow> v | Inl e \<Rightarrow> JNull"
  show ?thesis
  proof (cases "truthy command")
    case False
    with assms Inr show ?thesis
      by (auto simp: shell_try_def terminal_shape_def create_error_result_def Let_def)
  next
    case True
    show ?thesis
    proof (cases "shell_validate_command rt p command ?wd")
      case (Some err)
      with assms Inr True show ?thesis
        by (auto simp: shell_try_def terminal_shape_def create_error_result_def Let_def)
    next
      case None
      with assms Inr True show ?thesis
        using shell_finish_shape by (auto simp: shell_try_def Let_def)
    qed
  qed
qed

lemma shell_execute_shape:
  assumes "shell_execute_action rt source p env req calls = (Inr r, calls')"
  shows "terminal_shape r \<and> (ar_data r \<noteq> None \<longrightarrow> calls' \<noteq> calls)"
proof -
  from assms obtain aid where aid: "subscript rt req ''id'' = Inr aid"
    by (auto simp: shell_execute_action_def split: sum.splits)
  show ?thesis
  proof (cases "s_running p")
    case False
    with assms aid show ?thesis
      by (auto simp: shell_execute_action_def terminal_shape_def create_error_result_def)
  next
    case True
    with assms aid obtain parameters where
      "shell_try rt source p env aid parameters calls = (r, calls')"
      by (auto simp: shell_execute_action_def split: sum.splits prod.splits)
    then show ?thesis by (rule shell_try_shape)
  qed
qed

lemma email_finish_shape: "terminal_shape (email_finish rt p env aid call er)"
  by (simp add: email_finish_def terminal_shape_def Let_def failed_with_def running_result_def
      split: option.splits sum.splits)

lemma email_try_shape:
  assumes "email_try rt source p env aid parameters calls = (r, calls')"
  shows "terminal_shape r \<and> (ar_data r \<noteq> None \<longrightarrow> calls' \<noteq> calls)"
proof (cases "dict_get parameters ''to'' (JArr [])")
  case (Inl e)
  with assms show ?thesis
    by (auto simp: email_try_def terminal_shape_def failed_with_def running_result_def)
next
  case (Inr to_emails)
  show ?thesis
  proof (cases "truthy to_emails")
    case False
    with assms Inr show ?thesis
      by (auto simp: email_try_def terminal_shape_def create_error_result_def)
  next
    case True
    define call where "call =
       \<lparr> ec_demo_mode = e_demo_mode p,
         ec_to = listify to_emails,
         ec_cc = listify (or_default (dict_get parameters ''cc'' (JArr []))),
         ec_bcc = listify (or_default (dict_get parameters ''bcc'' (JArr []))),
         ec_subject = or_default (dict_get parameters ''subject'' (JStr ''Stavily Notification'')),
         ec_body = or_default (dict_get parameters ''body'' (JStr [])),
         ec_html_body = or_default (dict_get parameters ''html_body'' (JStr [])),
         ec_attachments = or_default (dict_get parameters ''attachments'' (JArr [])) \<rparr>"
    have eq: "email_try rt source p env aid parameters calls =
        (case source call of
           Inl e \<Rightarrow> (failed_with (running_result ''email-notification'' env aid) e, calls @ [call])
         | Inr er \<Rightarrow> (email_finish rt p env aid call er, calls @ [call]))"
      using Inr True by (simp add: email_try_def Let_def call_def split: sum.splits)
    show ?thesis
    proof (cases "source call")
      case (Inl e)
      with assms eq have "r = failed_with (running_result ''email-notification'' env aid) e"
        and "calls' = calls @ [call]"
        by simp_all
      then show ?thesis
        by (simp add: terminal_shape_def failed_with_def running_result_def)
    next
      case (Inr er)
      with assms eq have "r = email_finish rt p env aid call er" and "calls' = calls @ [call]"
        by simp_all
      then show ?thesis using email_finish_shape by simp
    qed
  qed
qed

lemma email_execute_shape:
  assumes "email_execute_action rt source p env req calls = (Inr r, calls')"
  shows "terminal_shape r \<and> (ar_data r \<noteq> None \<longrightarrow> calls' \<noteq> calls)"
proof -
  from assms obtain aid where aid: "subscript rt req ''id'' = Inr aid"
    by (auto simp: email_execute_action_def split: sum.splits)
  show ?thesis
  proof (cases "e_running p")
    case False
    with assms aid show ?thesis
      by (auto simp: email_execute_action_def terminal_shape_def create_error_result_def)
  next
    case True
    with assms aid obtain parameters where
      "email_try rt source p env aid parameters calls = (r, calls')"
      by (auto simp: email_execute_action_def split: sum.splits prod.splits)
    then show ?thesis by (rule email_try_shape)
  qed
qed

text \<open>
  C1, as the code has it. Every result that \<open>execute_action\<close> returns has a terminal
  status. A completed result carries data and no error. A failed result carries an error;
  it carries data as well only when the Action Source was invoked (the partial data of a
  failed execution), so the failed results of the not-running, missing-parameter and
  validation paths carry none. Both action plugins.
\<close>

theorem action_result_data_and_error:
  "(shell_execute_action rt source p env req calls = (Inr r, calls') \<longrightarrow>
      (ar_status r = ''completed'' \<or> ar_status r = ''failed'')
      \<and> (ar_status r = ''completed'' \<longrightarrow> ar_data r \<noteq> None \<and> ar_error r = None)
      \<and> (ar_status r = ''failed'' \<longrightarrow> ar_error r \<noteq> None)
      \<and> (ar_data r \<noteq> None \<longrightarrow> calls' \<noteq> calls))
   \<and> (email_execute_action rt esource ep env ereq ecalls = (Inr er, ecalls') \<longrightarrow>
      (ar_status er = ''completed'' \<or> ar_status er = ''failed'')
      \<and> (ar_status er = ''completed'' \<longrightarrow> ar_data er \<noteq> None \<and> ar_error er = None)
      \<and> (ar_status er = ''failed'' \<longrightarrow> ar_error er \<noteq> None)
      \<and> (ar_data er \<noteq> None \<longrightarrow> ecalls' \<noteq> ecalls))"
proof (intro conjI impI)
  assume a: "shell_execute_action rt source p env req calls = (Inr r, calls')"
  note s = shell_execute_shape [OF a]
  from s show "ar_status r = ''completed'' \<or> ar_status r = ''failed''"
    by (auto simp: terminal_shape_def split: if_splits)
  { assume "ar_status r = ''completed''"
    with s show "ar_data r \<noteq> None" and "ar_error r = None"
      by (simp_all add: terminal_shape_def) }
  { assume "ar_status r = ''failed''"
    with s show "ar_error r \<noteq> None"
      by (simp add: terminal_shape_def) }
  { assume "ar_data r \<noteq> None"
    with s show "calls' \<noteq> calls" by simp }
next
  assume a: "email_execute_action rt esource ep env ereq ecalls = (Inr er, ecalls')"
  note s = email_execute_shape [OF a]
  from s show "ar_status er = ''completed'' \<or> ar_status er = ''failed''"
    by (auto simp: terminal_shape_def split: if_splits)
  { assume "ar_status er = ''completed''"
    with s show "ar_data er \<noteq> None" and "ar_error er = None"
      by (simp_all add: terminal_shape_def) }
  { assume "ar_status er = ''failed''"
    with s show "ar_error er \<noteq> None"
      by (simp add: terminal_shape_def) }
  { assume "ar_data er \<noteq> None"
    with s show "ecalls' \<noteq> ecalls" by simp }
qed

lemma sample_shell_eq:
  "sample_shell = (shell_new True)\<lparr>s_running := True, s_status := ''running'', s_start_time := Some 0\<rparr>"
  by (simp add: sample_shell_def shell_start_def shell_new_def)

lemma sample_validate_ls:
  "shell_validate_command sample_runtime sample_shell (JStr ''ls -la'') (JStr ''/tmp'') = None"
  by (simp add: sample_shell_eq shell_new_def shell_validate_command_def sample_runtime_def
      sample_split_def shell_checks_def basename_def find_dangerous_def dangerous_patterns_def
      lower_def lower_char_def Let_def)

lemma sample_request_parts:
  "subscript rt (sample_request c) ''id'' = Inr (JStr ''a1'')"
  "dict_get (sample_request c) ''parameters'' (JObj []) = Inr (JObj [(''command'', JStr c)])"
  by (simp_all add: sample_request_def)

lemma sample_execute_ls:
  "shell_execute_action sample_runtime sample_failure sample_shell sample_action_env
       (sample_request ''ls -la'') []
     = (Inr sample_failed_result, [sample_call])"
  using sample_validate_ls
  by (simp add: shell_execute_action_def sample_request_parts shell_try_def Let_def
      sample_failure_def sample_failed_result_def sample_call_def)
    (simp add: sample_shell_eq shell_new_def)

lemma sample_failed_result_fields:
  "ar_status sample_failed_result = ''failed''"
  "ar_error sample_failed_result = Some ''Simulated error for command: ls -la''"
  "ar_data sample_failed_result \<noteq> None"
  by (simp_all add: sample_failed_result_def shell_finish_def sample_failure_def Let_def)

theorem action_result_counterexample:
  "shell_execute_action sample_runtime sample_failure sample_shell sample_action_env
       (sample_request ''ls -la'') []
     = (Inr sample_failed_result, [sample_call])
   \<and> ar_status sample_failed_result = ''failed''
   \<and> ar_error sample_failed_result = Some ''Simulated error for command: ls -la''
   \<and> ar_data sample_failed_result \<noteq> None"
  by (simp add: sample_execute_ls sample_failed_result_fields)

lemma sample_email_execute:
  "email_execute_action sample_runtime sample_sent sample_email sample_action_env
       sample_email_request []
     = (Inr sample_email_result,
        snd (email_try sample_runtime sample_sent sample_email sample_action_env (JStr ''m1'')
               (JObj [(''to'', JStr ''ops@example.com'')]) []))"
  by (simp add: email_execute_action_def sample_email_request_def sample_email_def
      email_start_def email_new_def sample_email_result_def split: prod.splits)

lemma sample_email_result_fields:
  "ar_status sample_email_result = ''completed''"
  by (simp add: sample_email_result_def email_try_def listify_def or_default_def Let_def
      sample_sent_def email_finish_def running_result_def)

theorem action_result_data_and_error_witness:
  "shell_execute_action sample_runtime sample_failure sample_shell sample_action_env
       (sample_request ''ls -la'') []
     = (Inr sample_failed_result, [sample_call])
   \<and> ar_status sample_failed_result = ''failed''
   \<and> ar_error sample_failed_result \<noteq> None
   \<and> ar_data sample_failed_result \<noteq> None
   \<and> [sample_call] \<noteq> []
   \<and> ar_status sample_email_result = ''completed''
   \<and> ar_data sample_email_result \<noteq> None
   \<and> ar_error sample_email_result = None"
proof -
  note t = action_result_data_and_error
    [where rt = sample_runtime and source = sample_failure and p = sample_shell
       and env = sample_action_env and req = "sample_request ''ls -la''" and calls = "[]"
       and r = sample_failed_result and calls' = "[sample_call]"
       and esource = sample_sent and ep = sample_email and ereq = sample_email_request
       and ecalls = "[]" and er = sample_email_result]
  from t [THEN conjunct1] sample_execute_ls sample_failed_result_fields
  have s: "ar_error sample_failed_result \<noteq> None" "[sample_call] \<noteq> []"
    by blast+
  from t [THEN conjunct2] sample_email_execute sample_email_result_fields
  have e: "ar_data sample_email_result \<noteq> None" "ar_error sample_email_result = None"
    by blast+
  from s e sample_execute_ls sample_failed_result_fields sample_email_result_fields
  show ?thesis by blast
qed

section \<open>Validation failures and requests without an id\<close>

lemma shell_checks_pass:
  assumes "shell_checks rt p c main_command wd = Inr None"
  shows "py_contains rt main_command (s_blocked_commands p) = Inr False
       \<and> (truthy (s_allowed_commands p)
            \<longrightarrow> py_contains rt main_command (s_allowed_commands p) = Inr True)
       \<and> (truthy (s_allowed_paths p)
            \<longrightarrow> (\<exists>paths. py_iter rt (s_allowed_paths p) = Inr paths
                  \<and> any_startswith rt wd paths = Inr True))
       \<and> find_dangerous c = None"
  using assms
  by (auto simp: shell_checks_def split: sum.splits if_splits option.splits)

lemma shell_validate_pass:
  assumes "shell_validate_command rt p (JStr c) wd = None"
  shows "\<exists>tok toks. shlex_split rt c = Inr (tok # toks)
       \<and> shell_checks rt p c (basename tok) wd = Inr None"
  using assms
  by (auto simp: shell_validate_command_def split: sum.splits list.splits)

lemma startswith_iff: "startswith s pre = (\<exists>rest. s = pre @ rest)"
  by (induction s pre rule: startswith.induct) auto

lemma py_substring_iff: "py_substring needle s = (\<exists>a b. s = a @ needle @ b)"
proof (induction s)
  case Nil
  then show ?case by auto
next
  case (Cons c cs)
  show ?case
  proof
    assume "py_substring needle (c # cs)"
    then consider "startswith (c # cs) needle" | "py_substring needle cs" by auto
    then show "\<exists>a b. c # cs = a @ needle @ b"
    proof cases
      case 1
      then obtain rest where "c # cs = needle @ rest" by (auto simp: startswith_iff)
      then have "c # cs = [] @ needle @ rest" by simp
      then show ?thesis by blast
    next
      case 2
      with Cons obtain a b where "cs = a @ needle @ b" by blast
      then have "c # cs = (c # a) @ needle @ b" by simp
      then show ?thesis by blast
    qed
  next
    assume "\<exists>a b. c # cs = a @ needle @ b"
    then obtain a b where ab: "c # cs = a @ needle @ b" by blast
    show "py_substring needle (c # cs)"
    proof (cases a)
      case Nil
      with ab have "startswith (c # cs) needle" by (auto simp: startswith_iff)
      then show ?thesis by simp
    next
      case (Cons x a')
      with ab have "cs = a' @ needle @ b" by simp
      with Cons.IH have "py_substring needle cs" by blast
      then show ?thesis by simp
    qed
  qed
qed

lemma takeWhile_no_slash:
  "CHR ''/'' \<notin> set name \<Longrightarrow> takeWhile (\<lambda>c. c \<noteq> CHR ''/'') (rev name) = rev name"
  by (rule takeWhile_eq_all_conv [THEN iffD2]) auto

lemma basename_plain: "CHR ''/'' \<notin> set name \<Longrightarrow> basename name = name"
  by (simp add: basename_def takeWhile_no_slash)

lemma basename_path: "CHR ''/'' \<notin> set name \<Longrightarrow> basename (dir @ CHR ''/'' # name) = name"
  by (simp add: basename_def takeWhile_tail takeWhile_no_slash)

lemma py_contains_strings: "py_contains rt x (JArr (map JStr xs)) = Inr (x \<in> set xs)"
  by auto

lemma truthy_strings: "truthy (JArr (map JStr xs)) = (xs \<noteq> [])"
  by simp

lemma any_startswith_strings:
  "any_startswith rt (JStr w) (map JStr ps) = Inr (\<exists>pth \<in> set ps. \<exists>rest. w = pth @ rest)"
  by (induction ps) (auto simp: startswith_iff)

lemma find_first:
  "\<forall>x \<in> set pre. \<not> P x \<Longrightarrow> P y \<Longrightarrow> List.find P (pre @ y # post) = Some y"
  by (induction pre) auto

lemma find_dangerous_first:
  assumes "[''rm -rf'', '':(){ :|:& };:'', ''chmod 777'', ''chown root''] = pre @ pat # post"
    and "\<forall>x \<in> set pre. \<forall>a b. lower c \<noteq> a @ x @ b"
    and "lower c = a @ pat @ b"
  shows "find_dangerous c = Some pat"
proof -
  from assms(2) have "\<forall>x \<in> set pre. \<not> py_substring x (lower c)"
    by (simp add: py_substring_iff)
  moreover from assms(3) have "py_substring pat (lower c)"
    by (auto simp: py_substring_iff)
  ultimately have "List.find (\<lambda>pattern. py_substring pattern (lower c)) (pre @ pat # post)
      = Some pat"
    by (rule find_first)
  with assms(1) show ?thesis
    by (simp add: find_dangerous_def dangerous_patterns_def)
qed

lemma find_dangerous_none:
  assumes "\<forall>x \<in> set [''rm -rf'', '':(){ :|:& };:'', ''chmod 777'', ''chown root''].
      \<forall>a b. lower c \<noteq> a @ x @ b"
  shows "find_dangerous c = None"
  using assms
  by (simp add: find_dangerous_def dangerous_patterns_def py_substring_iff del: py_substring.simps)

lemma shell_checks_strings:
  assumes "s_blocked_commands p = JArr (map JStr blocked)"
    and "s_allowed_commands p = JArr (map JStr allowed)"
    and "s_allowed_paths p = JArr (map JStr paths)"
  shows "shell_checks rt p c name (JStr w) =
     Inr (if name \<in> set blocked
          then Some (''Command '' @ [CHR 0x27] @ name @ [CHR 0x27] @ '' is blocked for security'')
          else if allowed \<noteq> [] \<and> name \<notin> set allowed
          then Some (''Command '' @ [CHR 0x27] @ name @ [CHR 0x27] @ '' is not in allowed list'')
          else if paths \<noteq> [] \<and> \<not> (\<exists>pth \<in> set paths. \<exists>rest. w = pth @ rest)
          then Some (''Working directory '' @ [CHR 0x27] @ w @ [CHR 0x27] @ '' is not allowed'')
          else (case find_dangerous c of
                  Some pattern \<Rightarrow> Some (''Command contains dangerous pattern: '' @ pattern)
                | None \<Rightarrow> None))"
  unfolding shell_checks_def assms py_contains_strings truthy_strings
  by (simp add: any_startswith_strings quoted_def fmt_def split: option.splits)


lemma shell_validate_strings:
  assumes "s_blocked_commands p = JArr (map JStr blocked)"
    and "s_allowed_commands p = JArr (map JStr allowed)"
    and "s_allowed_paths p = JArr (map JStr paths)"
    and "shlex_split rt c = Inr (tok # toks)"
    and "tok = name \<or> tok = dir @ ''/'' @ name"
    and "CHR ''/'' \<notin> set name"
  shows "shell_validate_command rt p (JStr c) (JStr w) =
     (if name \<in> set blocked
      then Some (''Command '' @ [CHR 0x27] @ name @ [CHR 0x27] @ '' is blocked for security'')
      else if allowed \<noteq> [] \<and> name \<notin> set allowed
      then Some (''Command '' @ [CHR 0x27] @ name @ [CHR 0x27] @ '' is not in allowed list'')
      else if paths \<noteq> [] \<and> \<not> (\<exists>pth \<in> set paths. \<exists>rest. w = pth @ rest)
      then Some (''Working directory '' @ [CHR 0x27] @ w @ [CHR 0x27] @ '' is not allowed'')
      else (case find_dangerous c of
              Some pattern \<Rightarrow> Some (''Command contains dangerous pattern: '' @ pattern)
            | None \<Rightarrow> None))"
proof -
  from assms(5,6) have "basename tok = name"
    by (auto simp: basename_plain basename_path)
  with assms(4) show ?thesis
    by (simp add: shell_validate_command_def shell_checks_strings [OF assms(1-3)])
qed

lemma shell_rejected:
  assumes "s_running p"
    and "subscript rt req ''id'' = Inr action_id"
    and "dict_get req ''parameters'' (JObj []) = Inr parameters"
    and "dict_get parameters ''command'' (JStr []) = Inr command"
    and "truthy command"
    and "dict_get parameters ''working_dir'' (JStr ''/tmp'') = Inr working_dir"
    and "shell_validate_command rt p command working_dir = Some err"
  shows "shell_execute_action rt source p env req calls
       = (Inr (create_error_result ''shell-command'' env action_id err), calls)"
proof -
  from assms have "shell_try rt source p env action_id parameters calls
      = (create_error_result ''shell-command'' env action_id err, calls)"
    by (simp add: shell_try_def Let_def)
  with assms show ?thesis
    by (simp add: shell_execute_action_def)
qed

lemma shell_typed_rejections:
  "(s_running p
      \<and> subscript rt req ''id'' = Inr action_id
      \<and> dict_get req ''parameters'' (JObj []) = Inr parameters
      \<and> dict_get parameters ''command'' (JStr []) = Inr (JStr c)
      \<and> c \<noteq> []
      \<and> dict_get parameters ''working_dir'' (JStr ''/tmp'') = Inr (JStr w)
      \<and> s_blocked_commands p = JArr (map JStr blocked)
      \<and> s_allowed_commands p = JArr (map JStr allowed)
      \<and> s_allowed_paths p = JArr (map JStr paths)
      \<and> shlex_split rt c = Inr (tok # toks)
      \<and> (tok = name \<or> tok = dir @ ''/'' @ name)
      \<and> CHR ''/'' \<notin> set name
    \<longrightarrow> (name \<in> set blocked
          \<longrightarrow> shell_execute_action rt source p env req calls
              = (Inr (create_error_result ''shell-command'' env action_id
                   (''Command '' @ [CHR 0x27] @ name @ [CHR 0x27] @ '' is blocked for security'')),
                 calls))
        \<and> (name \<notin> set blocked \<and> allowed \<noteq> [] \<and> name \<notin> set allowed
          \<longrightarrow> shell_execute_action rt source p env req calls
              = (Inr (create_error_result ''shell-command'' env action_id
                   (''Command '' @ [CHR 0x27] @ name @ [CHR 0x27] @ '' is not in allowed list'')),
                 calls))
        \<and> (name \<notin> set blocked \<and> (allowed = [] \<or> name \<in> set allowed)
            \<and> paths \<noteq> [] \<and> (\<forall>pth \<in> set paths. \<forall>rest. w \<noteq> pth @ rest)
          \<longrightarrow> shell_execute_action rt source p env req calls
              = (Inr (create_error_result ''shell-command'' env action_id
                   (''Working directory '' @ [CHR 0x27] @ w @ [CHR 0x27] @ '' is not allowed'')),
                 calls))
        \<and> (name \<notin> set blocked \<and> (allowed = [] \<or> name \<in> set allowed)
            \<and> (paths = [] \<or> (\<exists>pth \<in> set paths. \<exists>rest. w = pth @ rest))
            \<and> [''rm -rf'', '':(){ :|:& };:'', ''chmod 777'', ''chown root''] = pre @ pat # post
            \<and> (\<forall>x \<in> set pre. \<forall>a b. lower c \<noteq> a @ x @ b)
            \<and> lower c = a @ pat @ b
          \<longrightarrow> shell_execute_action rt source p env req calls
              = (Inr (create_error_result ''shell-command'' env action_id
                   (''Command contains dangerous pattern: '' @ pat)),
                 calls))
        \<and> (name \<notin> set blocked \<and> (allowed = [] \<or> name \<in> set allowed)
            \<and> (paths = [] \<or> (\<exists>pth \<in> set paths. \<exists>rest. w = pth @ rest))
            \<and> (\<forall>x \<in> set [''rm -rf'', '':(){ :|:& };:'', ''chmod 777'', ''chown root''].
                  \<forall>a b. lower c \<noteq> a @ x @ b)
          \<longrightarrow> shell_validate_command rt p (JStr c) (JStr w) = None
              \<and> length (snd (shell_execute_action rt source p env req calls))
                  = Suc (length calls)))"
proof (intro impI)
  assume h: "s_running p
      \<and> subscript rt req ''id'' = Inr action_id
      \<and> dict_get req ''parameters'' (JObj []) = Inr parameters
      \<and> dict_get parameters ''command'' (JStr []) = Inr (JStr c)
      \<and> c \<noteq> []
      \<and> dict_get parameters ''working_dir'' (JStr ''/tmp'') = Inr (JStr w)
      \<and> s_blocked_commands p = JArr (map JStr blocked)
      \<and> s_allowed_commands p = JArr (map JStr allowed)
      \<and> s_allowed_paths p = JArr (map JStr paths)
      \<and> shlex_split rt c = Inr (tok # toks)
      \<and> (tok = name \<or> tok = dir @ ''/'' @ name)
      \<and> CHR ''/'' \<notin> set name"
  then have v: "shell_validate_command rt p (JStr c) (JStr w) =
     (if name \<in> set blocked
      then Some (''Command '' @ [CHR 0x27] @ name @ [CHR 0x27] @ '' is blocked for security'')
      else if allowed \<noteq> [] \<and> name \<notin> set allowed
      then Some (''Command '' @ [CHR 0x27] @ name @ [CHR 0x27] @ '' is not in allowed list'')
      else if paths \<noteq> [] \<and> \<not> (\<exists>pth \<in> set paths. \<exists>rest. w = pth @ rest)
      then Some (''Working directory '' @ [CHR 0x27] @ w @ [CHR 0x27] @ '' is not allowed'')
      else (case find_dangerous c of
              Some pattern \<Rightarrow> Some (''Command contains dangerous pattern: '' @ pattern)
            | None \<Rightarrow> None))"
    using shell_validate_strings [of p blocked allowed paths rt c tok toks name dir w] by blast
  from h have tr: "truthy (JStr c)" by simp
  have rej: "shell_execute_action rt source p env req calls
         = (Inr (create_error_result ''shell-command'' env action_id err), calls)"
    if "shell_validate_command rt p (JStr c) (JStr w) = Some err" for err
    using h tr that shell_rejected [of p rt req action_id parameters "JStr c" "JStr w" err source env calls]
    by blast
  show "(name \<in> set blocked
          \<longrightarrow> shell_execute_action rt source p env req calls
              = (Inr (create_error_result ''shell-command'' env action_id
                   (''Command '' @ [CHR 0x27] @ name @ [CHR 0x27] @ '' is blocked for security'')),
                 calls))
        \<and> (name \<notin> set blocked \<and> allowed \<noteq> [] \<and> name \<notin> set allowed
          \<longrightarrow> shell_execute_action rt source p env req calls
              = (Inr (create_error_result ''shell-command'' env action_id
                   (''Command '' @ [CHR 0x27] @ name @ [CHR 0x27] @ '' is not in allowed list'')),
                 calls))
        \<and> (name \<notin> set blocked \<and> (allowed = [] \<or> name \<in> set allowed)
            \<and> paths \<noteq> [] \<and> (\<forall>pth \<in> set paths. \<forall>rest. w \<noteq> pth @ rest)
          \<longrightarrow> shell_execute_action rt source p env req calls
              = (Inr (create_error_result ''shell-command'' env action_id
                   (''Working directory '' @ [CHR 0x27] @ w @ [CHR 0x27] @ '' is not allowed'')),
                 calls))
        \<and> (name \<notin> set blocked \<and> (allowed = [] \<or> name \<in> set allowed)
            \<and> (paths = [] \<or> (\<exists>pth \<in> set paths. \<exists>rest. w = pth @ rest))
            \<and> [''rm -rf'', '':(){ :|:& };:'', ''chmod 777'', ''chown root''] = pre @ pat # post
            \<and> (\<forall>x \<in> set pre. \<forall>a b. lower c \<noteq> a @ x @ b)
            \<and> lower c = a @ pat @ b
          \<longrightarrow> shell_execute_action rt source p env req calls
              = (Inr (create_error_result ''shell-command'' env action_id
                   (''Command contains dangerous pattern: '' @ pat)),
                 calls))
        \<and> (name \<notin> set blocked \<and> (allowed = [] \<or> name \<in> set allowed)
            \<and> (paths = [] \<or> (\<exists>pth \<in> set paths. \<exists>rest. w = pth @ rest))
            \<and> (\<forall>x \<in> set [''rm -rf'', '':(){ :|:& };:'', ''chmod 777'', ''chown root''].
                  \<forall>a b. lower c \<noteq> a @ x @ b)
          \<longrightarrow> shell_validate_command rt p (JStr c) (JStr w) = None
              \<and> length (snd (shell_execute_action rt source p env req calls))
                  = Suc (length calls))"
  proof (intro conjI impI)
    assume "name \<in> set blocked"
    with v show "shell_execute_action rt source p env req calls
              = (Inr (create_error_result ''shell-command'' env action_id
                   (''Command '' @ [CHR 0x27] @ name @ [CHR 0x27] @ '' is blocked for security'')),
                 calls)"
      by (intro rej) simp
  next
    assume "name \<notin> set blocked \<and> allowed \<noteq> [] \<and> name \<notin> set allowed"
    with v show "shell_execute_action rt source p env req calls
              = (Inr (create_error_result ''shell-command'' env action_id
                   (''Command '' @ [CHR 0x27] @ name @ [CHR 0x27] @ '' is not in allowed list'')),
                 calls)"
      by (intro rej) simp
  next
    assume a: "name \<notin> set blocked \<and> (allowed = [] \<or> name \<in> set allowed)
            \<and> paths \<noteq> [] \<and> (\<forall>pth \<in> set paths. \<forall>rest. w \<noteq> pth @ rest)"
    then have "\<not> (allowed \<noteq> [] \<and> name \<notin> set allowed)"
      and "paths \<noteq> [] \<and> \<not> (\<exists>pth \<in> set paths. \<exists>rest. w = pth @ rest)"
      by blast+
    with a v show "shell_execute_action rt source p env req calls
              = (Inr (create_error_result ''shell-command'' env action_id
                   (''Working directory '' @ [CHR 0x27] @ w @ [CHR 0x27] @ '' is not allowed'')),
                 calls)"
      by (intro rej) simp
  next
    assume a: "name \<notin> set blocked \<and> (allowed = [] \<or> name \<in> set allowed)
            \<and> (paths = [] \<or> (\<exists>pth \<in> set paths. \<exists>rest. w = pth @ rest))
            \<and> [''rm -rf'', '':(){ :|:& };:'', ''chmod 777'', ''chown root''] = pre @ pat # post
            \<and> (\<forall>x \<in> set pre. \<forall>a b. lower c \<noteq> a @ x @ b)
            \<and> lower c = a @ pat @ b"
    then have f: "find_dangerous c = Some pat"
      using find_dangerous_first [of pre pat post c a b] by blast
    from a have "\<not> (allowed \<noteq> [] \<and> name \<notin> set allowed)"
      and "\<not> (paths \<noteq> [] \<and> \<not> (\<exists>pth \<in> set paths. \<exists>rest. w = pth @ rest))"
      by blast+
    with a v f show "shell_execute_action rt source p env req calls
              = (Inr (create_error_result ''shell-command'' env action_id
                   (''Command contains dangerous pattern: '' @ pat)),
                 calls)"
      by (intro rej) simp
  next
    assume a: "name \<notin> set blocked \<and> (allowed = [] \<or> name \<in> set allowed)
            \<and> (paths = [] \<or> (\<exists>pth \<in> set paths. \<exists>rest. w = pth @ rest))
            \<and> (\<forall>x \<in> set [''rm -rf'', '':(){ :|:& };:'', ''chmod 777'', ''chown root''].
                  \<forall>a b. lower c \<noteq> a @ x @ b)"
    then have f: "find_dangerous c = None"
      using find_dangerous_none [of c] by blast
    from a have "\<not> (allowed \<noteq> [] \<and> name \<notin> set allowed)"
      and "\<not> (paths \<noteq> [] \<and> \<not> (\<exists>pth \<in> set paths. \<exists>rest. w = pth @ rest))"
      by blast+
    with a v f show ok: "shell_validate_command rt p (JStr c) (JStr w) = None"
      by simp
    let ?call = "\<lparr> sc_demo_mode = s_demo_mode p, sc_command = JStr c,
             sc_working_dir = JStr w,
             sc_env_vars = (case dict_get parameters ''env_vars'' (JObj []) of
                              Inr v \<Rightarrow> v | Inl e \<Rightarrow> JNull),
             sc_input = (case dict_get parameters ''input'' (JStr []) of
                              Inr v \<Rightarrow> v | Inl e \<Rightarrow> JNull),
             sc_timeout = (case dict_get parameters ''timeout'' (JInt (s_timeout p)) of
                              Inr v \<Rightarrow> v | Inl e \<Rightarrow> JNull) \<rparr>"
    from h tr ok have "shell_try rt source p env action_id parameters calls
        = (shell_finish p env action_id (JStr c) (JStr w) (source ?call), calls @ [?call])"
      by (simp add: shell_try_def Let_def)
    with h show "length (snd (shell_execute_action rt source p env req calls))
                  = Suc (length calls)"
      by (simp add: shell_execute_action_def)
  qed
qed

text \<open>
  C7. On a running shell plugin, a request that carries an id and whose command fails
  \<open>_validate_command\<close> gets the failed result of \<open>_create_error_result\<close> with the error of
  the validation, no data, and the list of calls of the Action Source is unchanged. The
  validation fails whenever the base executable is in the blocked set, an allow-list is
  configured and the executable is not in it, the working directory starts with none of
  the allowed paths, or the lower-cased command contains a dangerous pattern.

  When the three lists of the configuration are lists of strings and the request carries
  strings, with \<open>name\<close> what follows the last slash of the first token: a blocked \<open>name\<close>
  gives \<open>Command '<name>' is blocked for security\<close>; otherwise a \<open>name\<close> missing from a
  non-empty allow-list gives \<open>Command '<name>' is not in allowed list\<close>; otherwise a
  working directory of which no allowed path is a prefix gives
  \<open>Working directory '<dir>' is not allowed\<close>; otherwise the first of the patterns
  \<open>rm -rf\<close>, \<open>:(){ :|:& };:\<close>, \<open>chmod 777\<close>, \<open>chown root\<close> that occurs in the
  lower-cased command gives \<open>Command contains dangerous pattern: <pattern>\<close>; in each
  case that text is the error of the returned result and the Action Source is not
  called. Only when none of the four applies does the validation pass, and then the Action
  Source is called once. A command that cannot be split gives
  \<open>Invalid command syntax: <message>\<close> and one without tokens \<open>Empty command\<close>.
\<close>

theorem shell_validation_failure:
  "(s_running p
      \<and> subscript rt req ''id'' = Inr action_id
      \<and> dict_get req ''parameters'' (JObj []) = Inr parameters
      \<and> dict_get parameters ''command'' (JStr []) = Inr command
      \<and> truthy command
      \<and> dict_get parameters ''working_dir'' (JStr ''/tmp'') = Inr working_dir
      \<and> shell_validate_command rt p command working_dir = Some err
    \<longrightarrow> shell_execute_action rt source p env req calls
          = (Inr (create_error_result ''shell-command'' env action_id err), calls)
        \<and> ar_status (create_error_result ''shell-command'' env action_id err
                       :: shell_data action_result) = ''failed''
        \<and> ar_error (create_error_result ''shell-command'' env action_id err
                       :: shell_data action_result) = Some err
        \<and> ar_data (create_error_result ''shell-command'' env action_id err
                       :: shell_data action_result) = None)
   \<and> (shlex_split rt c = Inr (tok # toks)
      \<and> (py_contains rt (basename tok) (s_blocked_commands p) = Inr True
          \<or> (truthy (s_allowed_commands p)
              \<and> py_contains rt (basename tok) (s_allowed_commands p) = Inr False)
          \<or> (truthy (s_allowed_paths p)
              \<and> (\<exists>paths. py_iter rt (s_allowed_paths p) = Inr paths
                    \<and> any_startswith rt wd paths = Inr False))
          \<or> find_dangerous c \<noteq> None)
    \<longrightarrow> shell_validate_command rt p (JStr c) wd \<noteq> None)
   \<and> ((s_running p
         \<and> subscript rt req ''id'' = Inr action_id
         \<and> dict_get req ''parameters'' (JObj []) = Inr parameters
         \<and> dict_get parameters ''command'' (JStr []) = Inr (JStr c)
         \<and> c \<noteq> []
         \<and> dict_get parameters ''working_dir'' (JStr ''/tmp'') = Inr (JStr w)
         \<and> s_blocked_commands p = JArr (map JStr blocked)
         \<and> s_allowed_commands p = JArr (map JStr allowed)
         \<and> s_allowed_paths p = JArr (map JStr paths)
         \<and> shlex_split rt c = Inr (tok # toks)
         \<and> (tok = name \<or> tok = dir @ ''/'' @ name)
         \<and> CHR ''/'' \<notin> set name
       \<longrightarrow> (name \<in> set blocked
             \<longrightarrow> shell_execute_action rt source p env req calls
                 = (Inr (create_error_result ''shell-command'' env action_id
                      (''Command '' @ [CHR 0x27] @ name @ [CHR 0x27] @ '' is blocked for security'')),
                    calls))
           \<and> (name \<notin> set blocked \<and> allowed \<noteq> [] \<and> name \<notin> set allowed
             \<longrightarrow> shell_execute_action rt source p env req calls
                 = (Inr (create_error_result ''shell-command'' env action_id
                      (''Command '' @ [CHR 0x27] @ name @ [CHR 0x27] @ '' is not in allowed list'')),
                    calls))
           \<and> (name \<notin> set blocked \<and> (allowed = [] \<or> name \<in> set allowed)
               \<and> paths \<noteq> [] \<and> (\<forall>pth \<in> set paths. \<forall>rest. w \<noteq> pth @ rest)
             \<longrightarrow> shell_execute_action rt source p env req calls
                 = (Inr (create_error_result ''shell-command'' env action_id
                      (''Working directory '' @ [CHR 0x27] @ w @ [CHR 0x27] @ '' is not allowed'')),
                    calls))
           \<and> (name \<notin> set blocked \<and> (allowed = [] \<or> name \<in> set allowed)
               \<and> (paths = [] \<or> (\<exists>pth \<in> set paths. \<exists>rest. w = pth @ rest))
               \<and> [''rm -rf'', '':(){ :|:& };:'', ''chmod 777'', ''chown root''] = pre @ pat # post
               \<and> (\<forall>x \<in> set pre. \<forall>a b. lower c \<noteq> a @ x @ b)
               \<and> lower c = a @ pat @ b
             \<longrightarrow> shell_execute_action rt source p env req calls
                 = (Inr (create_error_result ''shell-command'' env action_id
                      (''Command contains dangerous pattern: '' @ pat)),
                    calls))
           \<and> (name \<notin> set blocked \<and> (allowed = [] \<or> name \<in> set allowed)
               \<and> (paths = [] \<or> (\<exists>pth \<in> set paths. \<exists>rest. w = pth @ rest))
               \<and> (\<forall>x \<in> set [''rm -rf'', '':(){ :|:& };:'', ''chmod 777'', ''chown root''].
                     \<forall>a b. lower c \<noteq> a @ x @ b)
             \<longrightarrow> shell_validate_command rt p (JStr c) (JStr w) = None
                 \<and> length (snd (shell_execute_action rt source p env req calls))
                     = Suc (length calls))))
   \<and> (shlex_split rt c = Inl msg
    \<longrightarrow> shell_validate_command rt p (JStr c) wd = Some (''Invalid command syntax: '' @ msg))
   \<and> (shlex_split rt c = Inr []
    \<longrightarrow> shell_validate_command rt p (JStr c) wd = Some ''Empty command'')"
  (is "?general \<and> ?fails \<and> ?typed \<and> ?unsplit \<and> ?empty")
proof (intro conjI)
  show ?general
  proof (intro conjI impI)
    assume h: "s_running p
        \<and> subscript rt req ''id'' = Inr action_id
        \<and> dict_get req ''parameters'' (JObj []) = Inr parameters
        \<and> dict_get parameters ''command'' (JStr []) = Inr command
        \<and> truthy command
        \<and> dict_get parameters ''working_dir'' (JStr ''/tmp'') = Inr working_dir
        \<and> shell_validate_command rt p command working_dir = Some err"
    then show "shell_execute_action rt source p env req calls
            = (Inr (create_error_result ''shell-command'' env action_id err), calls)"
      using shell_rejected [of p rt req action_id parameters command working_dir err
          source env calls]
      by blast
    show "ar_status (create_error_result ''shell-command'' env action_id err
                         :: shell_data action_result) = ''failed''"
      by (simp add: create_error_result_def)
    show "ar_error (create_error_result ''shell-command'' env action_id err
                         :: shell_data action_result) = Some err"
      by (simp add: create_error_result_def)
    show "ar_data (create_error_result ''shell-command'' env action_id err
                         :: shell_data action_result) = None"
      by (simp add: create_error_result_def)
  qed
next
  show ?fails
  proof (intro impI)
    assume h: "shlex_split rt c = Inr (tok # toks)
        \<and> (py_contains rt (basename tok) (s_blocked_commands p) = Inr True
            \<or> (truthy (s_allowed_commands p)
                \<and> py_contains rt (basename tok) (s_allowed_commands p) = Inr False)
            \<or> (truthy (s_allowed_paths p)
                \<and> (\<exists>paths. py_iter rt (s_allowed_paths p) = Inr paths
                      \<and> any_startswith rt wd paths = Inr False))
            \<or> find_dangerous c \<noteq> None)"
    show "shell_validate_command rt p (JStr c) wd \<noteq> None"
    proof
      assume "shell_validate_command rt p (JStr c) wd = None"
      from shell_validate_pass [OF this] h
      have "shell_checks rt p c (basename tok) wd = Inr None" by auto
      from shell_checks_pass [OF this] h show False by auto
    qed
  qed
next
  show ?typed
    by (rule shell_typed_rejections)
next
  show ?unsplit
    by (simp add: shell_validate_command_def)
next
  show ?empty
    by (simp add: shell_validate_command_def)
qed

lemma sample_validate_rm:
  "shell_validate_command sample_runtime sample_shell (JStr ''rm -rf /'') (JStr ''/tmp'')
     = Some (''Command '' @ quoted ''rm'' @ '' is blocked for security'')"
  by (simp add: sample_shell_eq shell_new_def shell_validate_command_def sample_runtime_def
      sample_split_def shell_checks_def basename_def)

lemma sample_find_dangerous: "find_dangerous ''rm -rf /'' = Some ''rm -rf''"
  by (simp add: find_dangerous_def dangerous_patterns_def lower_def lower_char_def Let_def)

lemma sample_shell_lists:
  "s_blocked_commands sample_shell
     = JArr (map JStr [''rm'', ''rmdir'', ''dd'', ''mkfs'', ''fdisk'', ''format''])"
  "s_allowed_commands sample_shell = JArr (map JStr [])"
  "s_allowed_paths sample_shell = JArr (map JStr [''/tmp'', ''/var/tmp''])"
  by (simp_all add: sample_shell_eq shell_new_def)

lemma sample_allow_shell_eq:
  "sample_allow_shell
     = (shell_new True)\<lparr>s_config := JObj [(''allowed_commands'', JArr [JStr ''ls''])],
          s_allowed_commands := JArr [JStr ''ls''], s_running := True, s_status := ''running'',
          s_start_time := Some 0\<rparr>"
  by (simp add: sample_allow_shell_def shell_initialize_def config_entry_def get_int_def
      shell_validate_def shell_start_def shell_new_def Let_def)

lemma sample_allow_shell_lists:
  "s_running sample_allow_shell"
  "s_blocked_commands sample_allow_shell
     = JArr (map JStr [''rm'', ''rmdir'', ''dd'', ''mkfs'', ''fdisk'', ''format''])"
  "s_allowed_commands sample_allow_shell = JArr (map JStr [''ls''])"
  "s_allowed_paths sample_allow_shell = JArr (map JStr [''/tmp'', ''/var/tmp''])"
  by (simp_all add: sample_allow_shell_eq shell_new_def)

lemma sample_request_in_parts:
  "subscript rt (sample_request_in c d) ''id'' = Inr (JStr ''a1'')"
  "dict_get (sample_request_in c d) ''parameters'' (JObj [])
     = Inr (JObj [(''command'', JStr c), (''working_dir'', JStr d)])"
  by (simp_all add: sample_request_in_def)

lemma sample_splits:
  "shlex_split sample_runtime ''rm -rf /'' = Inr [''rm'', ''-rf'', ''/'']"
  "shlex_split sample_runtime ''ls -la'' = Inr [''ls'', ''-la'']"
  "shlex_split sample_runtime ''/bin/dd if=/dev/zero'' = Inr [''/bin/dd'', ''if=/dev/zero'']"
  "shlex_split sample_runtime ''echo chmod 777 x'' = Inr [''echo'', ''chmod'', ''777'', ''x'']"
  "shlex_split sample_runtime ''echo \"'' = Inl ''No closing quotation''"
  by (simp_all add: sample_runtime_def sample_split_def)

lemma sample_lowers:
  "lower ''echo chmod 777 x'' = ''echo '' @ ''chmod 777'' @ '' x''"
  "\<forall>x \<in> set [''rm -rf'', '':(){ :|:& };:'']. \<forall>a b. lower ''echo chmod 777 x'' \<noteq> a @ x @ b"
  "\<forall>x \<in> set [''rm -rf'', '':(){ :|:& };:'', ''chmod 777'', ''chown root''].
     \<forall>a b. lower ''ls -la'' \<noteq> a @ x @ b"
proof -
  show "lower ''echo chmod 777 x'' = ''echo '' @ ''chmod 777'' @ '' x''"
    by (simp add: lower_def lower_char_def Let_def)
  have "\<forall>x \<in> set [''rm -rf'', '':(){ :|:& };:'']. \<not> py_substring x (lower ''echo chmod 777 x'')"
    by (simp add: lower_def lower_char_def Let_def)
  then show "\<forall>x \<in> set [''rm -rf'', '':(){ :|:& };:''].
      \<forall>a b. lower ''echo chmod 777 x'' \<noteq> a @ x @ b"
    unfolding py_substring_iff by blast
  have "\<forall>x \<in> set [''rm -rf'', '':(){ :|:& };:'', ''chmod 777'', ''chown root''].
      \<not> py_substring x (lower ''ls -la'')"
    by (simp add: lower_def lower_char_def Let_def)
  then show "\<forall>x \<in> set [''rm -rf'', '':(){ :|:& };:'', ''chmod 777'', ''chown root''].
      \<forall>a b. lower ''ls -la'' \<noteq> a @ x @ b"
    unfolding py_substring_iff by blast
qed

theorem shell_validation_failure_witness:
  "s_running sample_shell
   \<and> subscript sample_runtime (sample_request ''rm -rf /'') ''id'' = Inr (JStr ''a1'')
   \<and> truthy (JStr ''rm -rf /'')
   \<and> shell_validate_command sample_runtime sample_shell (JStr ''rm -rf /'') (JStr ''/tmp'')
        = Some (''Command '' @ quoted ''rm'' @ '' is blocked for security'')
   \<and> shell_execute_action sample_runtime sample_failure sample_shell sample_action_env
        (sample_request ''rm -rf /'') []
        = (Inr (create_error_result ''shell-command'' sample_action_env (JStr ''a1'')
                  (''Command '' @ quoted ''rm'' @ '' is blocked for security'')), [])
   \<and> shlex_split sample_runtime ''rm -rf /'' = Inr [''rm'', ''-rf'', ''/'']
   \<and> find_dangerous ''rm -rf /'' \<noteq> None
   \<and> shell_validate_command sample_runtime (shell_new True) (JStr ''rm -rf /'') (JStr ''/tmp'')
        \<noteq> None
   \<and> shlex_split sample_runtime ''/bin/dd if=/dev/zero'' = Inr [''/bin/dd'', ''if=/dev/zero'']
   \<and> shell_execute_action sample_runtime sample_failure sample_shell sample_action_env
        (sample_request ''/bin/dd if=/dev/zero'') []
        = (Inr (create_error_result ''shell-command'' sample_action_env (JStr ''a1'')
                  (''Command '' @ [CHR 0x27] @ ''dd'' @ [CHR 0x27] @ '' is blocked for security'')),
           [])
   \<and> shell_execute_action sample_runtime sample_failure sample_allow_shell sample_action_env
        (sample_request ''echo chmod 777 x'') []
        = (Inr (create_error_result ''shell-command'' sample_action_env (JStr ''a1'')
                  (''Command '' @ [CHR 0x27] @ ''echo'' @ [CHR 0x27] @ '' is not in allowed list'')),
           [])
   \<and> shell_execute_action sample_runtime sample_failure sample_shell sample_action_env
        (sample_request_in ''ls -la'' ''/etc'') []
        = (Inr (create_error_result ''shell-command'' sample_action_env (JStr ''a1'')
                  (''Working directory '' @ [CHR 0x27] @ ''/etc'' @ [CHR 0x27] @ '' is not allowed'')),
           [])
   \<and> shell_execute_action sample_runtime sample_failure sample_shell sample_action_env
        (sample_request ''echo chmod 777 x'') []
        = (Inr (create_error_result ''shell-command'' sample_action_env (JStr ''a1'')
                  (''Command contains dangerous pattern: '' @ ''chmod 777'')),
           [])
   \<and> shell_validate_command sample_runtime sample_shell (JStr ''ls -la'') (JStr ''/tmp'') = None
   \<and> length (snd (shell_execute_action sample_runtime sample_failure sample_shell
                     sample_action_env (sample_request ''ls -la'') [])) = Suc (length ([] :: shell_call list))
   \<and> shell_validate_command sample_runtime sample_shell (JStr ''echo \"'') (JStr ''/tmp'')
        = Some (''Invalid command syntax: '' @ ''No closing quotation'')"
proof -
  let ?err = "''Command '' @ quoted ''rm'' @ '' is blocked for security''"
  let ?blocked = "[''rm'', ''rmdir'', ''dd'', ''mkfs'', ''fdisk'', ''format'']"
  let ?paths = "[''/tmp'', ''/var/tmp'']"
  note t = shell_validation_failure
    [where rt = sample_runtime and p = sample_shell and req = "sample_request ''rm -rf /''"
       and action_id = "JStr ''a1''" and parameters = "JObj [(''command'', JStr ''rm -rf /'')]"
       and command = "JStr ''rm -rf /''" and working_dir = "JStr ''/tmp''" and err = ?err
       and source = sample_failure and env = sample_action_env and calls = "[]",
     THEN conjunct1]
  note u = shell_validation_failure
    [where rt = sample_runtime and p = "shell_new True" and c = "''rm -rf /''" and tok = "''rm''"
       and toks = "[''-rf'', ''/'']" and wd = "JStr ''/tmp''", THEN conjunct2, THEN conjunct1]
  have run: "s_running sample_shell"
    by (simp add: sample_shell_eq)
  have id: "subscript sample_runtime (sample_request ''rm -rf /'') ''id'' = Inr (JStr ''a1'')"
    by (rule sample_request_parts)
  have cmd: "dict_get (JObj [(''command'', JStr ''rm -rf /'')]) ''command'' (JStr [])
      = Inr (JStr ''rm -rf /'')"
    by simp
  have wd: "dict_get (JObj [(''command'', JStr ''rm -rf /'')]) ''working_dir'' (JStr ''/tmp'')
      = Inr (JStr ''/tmp'')"
    by simp
  have tr: "truthy (JStr ''rm -rf /'')"
    by simp
  have d: "find_dangerous ''rm -rf /'' \<noteq> None"
    by (simp add: sample_find_dangerous)
  from t run id sample_request_parts(2) [of "''rm -rf /''"] cmd wd tr sample_validate_rm
  have ex: "shell_execute_action sample_runtime sample_failure sample_shell sample_action_env
        (sample_request ''rm -rf /'') []
        = (Inr (create_error_result ''shell-command'' sample_action_env (JStr ''a1'') ?err), [])"
    by blast
  from u sample_splits(1) d
  have v: "shell_validate_command sample_runtime (shell_new True) (JStr ''rm -rf /'')
      (JStr ''/tmp'') \<noteq> None"
    by blast
  note dd = shell_validation_failure
    [where rt = sample_runtime and p = sample_shell
       and req = "sample_request ''/bin/dd if=/dev/zero''" and action_id = "JStr ''a1''"
       and parameters = "JObj [(''command'', JStr ''/bin/dd if=/dev/zero'')]"
       and c = "''/bin/dd if=/dev/zero''" and w = "''/tmp''" and blocked = ?blocked
       and allowed = "[]" and paths = ?paths and tok = "''/bin/dd''"
       and toks = "[''if=/dev/zero'']" and name = "''dd''" and dir = "''/bin''"
       and source = sample_failure and env = sample_action_env and calls = "[]",
     THEN conjunct2, THEN conjunct2, THEN conjunct1, THEN mp, THEN conjunct1, THEN mp]
  have c1: "shell_execute_action sample_runtime sample_failure sample_shell sample_action_env
        (sample_request ''/bin/dd if=/dev/zero'') []
        = (Inr (create_error_result ''shell-command'' sample_action_env (JStr ''a1'')
                  (''Command '' @ [CHR 0x27] @ ''dd'' @ [CHR 0x27] @ '' is blocked for security'')),
           [])"
    apply (rule dd)
     apply (simp add: run sample_request_parts sample_shell_lists sample_splits)
    apply simp
    done
  note al = shell_validation_failure
    [where rt = sample_runtime and p = sample_allow_shell
       and req = "sample_request ''echo chmod 777 x''" and action_id = "JStr ''a1''"
       and parameters = "JObj [(''command'', JStr ''echo chmod 777 x'')]"
       and c = "''echo chmod 777 x''" and w = "''/tmp''" and blocked = ?blocked
       and allowed = "[''ls'']" and paths = ?paths and tok = "''echo''"
       and toks = "[''chmod'', ''777'', ''x'']" and name = "''echo''" and dir = "[]"
       and source = sample_failure and env = sample_action_env and calls = "[]",
     THEN conjunct2, THEN conjunct2, THEN conjunct1, THEN mp, THEN conjunct2, THEN conjunct1,
     THEN mp]
  have c2: "shell_execute_action sample_runtime sample_failure sample_allow_shell
        sample_action_env (sample_request ''echo chmod 777 x'') []
        = (Inr (create_error_result ''shell-command'' sample_action_env (JStr ''a1'')
                  (''Command '' @ [CHR 0x27] @ ''echo'' @ [CHR 0x27] @ '' is not in allowed list'')),
           [])"
    apply (rule al)
     apply (simp add: sample_request_parts sample_allow_shell_lists sample_splits)
    apply simp
    done
  note et = shell_validation_failure
    [where rt = sample_runtime and p = sample_shell
       and req = "sample_request_in ''ls -la'' ''/etc''" and action_id = "JStr ''a1''"
       and parameters = "JObj [(''command'', JStr ''ls -la''), (''working_dir'', JStr ''/etc'')]"
       and c = "''ls -la''" and w = "''/etc''" and blocked = ?blocked
       and allowed = "[]" and paths = ?paths and tok = "''ls''"
       and toks = "[''-la'']" and name = "''ls''" and dir = "[]"
       and source = sample_failure and env = sample_action_env and calls = "[]",
     THEN conjunct2, THEN conjunct2, THEN conjunct1, THEN mp, THEN conjunct2, THEN conjunct2,
     THEN conjunct1, THEN mp]
  have c3: "shell_execute_action sample_runtime sample_failure sample_shell sample_action_env
        (sample_request_in ''ls -la'' ''/etc'') []
        = (Inr (create_error_result ''shell-command'' sample_action_env (JStr ''a1'')
                  (''Working directory '' @ [CHR 0x27] @ ''/etc'' @ [CHR 0x27] @ '' is not allowed'')),
           [])"
    apply (rule et)
     apply (simp add: run sample_request_in_parts sample_shell_lists sample_splits)
    apply simp
    done
  note ch = shell_validation_failure
    [where rt = sample_runtime and p = sample_shell
       and req = "sample_request ''echo chmod 777 x''" and action_id = "JStr ''a1''"
       and parameters = "JObj [(''command'', JStr ''echo chmod 777 x'')]"
       and c = "''echo chmod 777 x''" and w = "''/tmp''" and blocked = ?blocked
       and allowed = "[]" and paths = ?paths and tok = "''echo''"
       and toks = "[''chmod'', ''777'', ''x'']" and name = "''echo''" and dir = "[]"
       and pre = "[''rm -rf'', '':(){ :|:& };:'']" and pat = "''chmod 777''"
       and post = "[''chown root'']" and a = "''echo ''" and b = "'' x''"
       and source = sample_failure and env = sample_action_env and calls = "[]",
     THEN conjunct2, THEN conjunct2, THEN conjunct1, THEN mp, THEN conjunct2, THEN conjunct2,
     THEN conjunct2, THEN conjunct1, THEN mp]
  have c4: "shell_execute_action sample_runtime sample_failure sample_shell sample_action_env
        (sample_request ''echo chmod 777 x'') []
        = (Inr (create_error_result ''shell-command'' sample_action_env (JStr ''a1'')
                  (''Command contains dangerous pattern: '' @ ''chmod 777'')),
           [])"
    apply (rule ch)
     apply (simp add: run sample_request_parts sample_shell_lists sample_splits)
    apply (intro conjI)
         apply simp
        apply simp
       apply simp
      apply simp
     apply (rule sample_lowers(2))
    apply (rule sample_lowers(1))
    done
  note ls = shell_validation_failure
    [where rt = sample_runtime and p = sample_shell
       and req = "sample_request ''ls -la''" and action_id = "JStr ''a1''"
       and parameters = "JObj [(''command'', JStr ''ls -la'')]"
       and c = "''ls -la''" and w = "''/tmp''" and blocked = ?blocked
       and allowed = "[]" and paths = ?paths and tok = "''ls''"
       and toks = "[''-la'']" and name = "''ls''" and dir = "[]"
       and source = sample_failure and env = sample_action_env and calls = "[]",
     THEN conjunct2, THEN conjunct2, THEN conjunct1, THEN mp, THEN conjunct2, THEN conjunct2,
     THEN conjunct2, THEN conjunct2, THEN mp]
  have c56: "shell_validate_command sample_runtime sample_shell (JStr ''ls -la'') (JStr ''/tmp'')
        = None
      \<and> length (snd (shell_execute_action sample_runtime sample_failure sample_shell
                     sample_action_env (sample_request ''ls -la'') [])) = Suc (length ([] :: shell_call list))"
    apply (rule ls)
     apply (simp add: run sample_request_parts sample_shell_lists sample_splits)
    apply (intro conjI)
       apply simp
      apply simp
     apply simp
    apply (rule sample_lowers(3))
    done
  note sy = shell_validation_failure
    [where rt = sample_runtime and p = sample_shell and c = "''echo \"''"
       and msg = "''No closing quotation''" and wd = "JStr ''/tmp''",
     THEN conjunct2, THEN conjunct2, THEN conjunct2, THEN conjunct1, THEN mp]
  have c7: "shell_validate_command sample_runtime sample_shell (JStr ''echo \"'') (JStr ''/tmp'')
        = Some (''Invalid command syntax: '' @ ''No closing quotation'')"
    by (rule sy) (rule sample_splits(5))
  show ?thesis
    by (intro conjI)
      (rule run id tr sample_validate_rm ex sample_splits(1) d v sample_splits(3) c1 c2 c3 c4
         c56 [THEN conjunct1] c56 [THEN conjunct2] c7)+
qed

lemma sample_digits_other:
  "length s \<noteq> 5000 \<Longrightarrow> (s = sample_digits) = False"
  "length s \<noteq> 100000 \<Longrightarrow> (s = sample_nested) = False"
  by (auto simp: sample_digits_def sample_nested_def)

text \<open>
  C10. When the action request is a mapping without the key \<open>id\<close>, \<open>execute_action\<close>
  of either action plugin raises a KeyError for \<open>id\<close>, running or not, and returns no
  result; the Action Source is not invoked. The dispatcher answers the command with the
  single key \<open>error\<close> holding \<open>Plugin error: 'id'\<close> and leaves the plugin as it was.
\<close>

theorem missing_id_raises:
  "(map_of kvs ''id'' = None \<longrightarrow>
      shell_execute_action rt source p env (JObj kvs) calls = (Inl (KeyError ''id''), calls)
      \<and> email_execute_action rt esource ep env (JObj kvs) ecalls = (Inl (KeyError ''id''), ecalls))
   \<and> (json_loads rt line = Loaded (JObj command)
      \<and> map_of command ''action'' = Some (JStr ''execute_action'')
      \<and> or_default (dict_get (JObj command) ''action_request'' (JObj [])) = JObj kvs
      \<and> map_of kvs ''id'' = None \<longrightarrow>
      shell_handle_line rt source (p, calls) env line
        = (error_response (''Plugin error: '' @ quoted ''id''), p, calls)
      \<and> email_handle_line rt esource (ep, ecalls) env line
        = (error_response (''Plugin error: '' @ quoted ''id''), ep, ecalls))"
proof (intro conjI impI)
  assume "map_of kvs ''id'' = None"
  then show "shell_execute_action rt source p env (JObj kvs) calls = (Inl (KeyError ''id''), calls)"
    and "email_execute_action rt esource ep env (JObj kvs) ecalls = (Inl (KeyError ''id''), ecalls)"
    by (simp_all add: shell_execute_action_def email_execute_action_def)
next
  assume h: "json_loads rt line = Loaded (JObj command)
      \<and> map_of command ''action'' = Some (JStr ''execute_action'')
      \<and> or_default (dict_get (JObj command) ''action_request'' (JObj [])) = JObj kvs
      \<and> map_of kvs ''id'' = None"
  then have s: "shell_execute_action rt source p env (JObj kvs) calls = (Inl (KeyError ''id''), calls)"
    and e: "email_execute_action rt esource ep env (JObj kvs) ecalls = (Inl (KeyError ''id''), ecalls)"
    by (simp_all add: shell_execute_action_def email_execute_action_def)
  from h s have "shell_dispatch rt source (p, calls) env (JObj command)
      = (Inl (KeyError ''id''), p, calls)"
    by (simp add: shell_dispatch_def Let_def)
  with h show "shell_handle_line rt source (p, calls) env line
        = (error_response (''Plugin error: '' @ quoted ''id''), p, calls)"
    by (simp add: shell_handle_line_def str_exn_def quoted_def)
  from h e have "email_dispatch rt esource (ep, ecalls) env (JObj command)
      = (Inl (KeyError ''id''), ep, ecalls)"
    by (simp add: email_dispatch_def Let_def)
  with h show "email_handle_line rt esource (ep, ecalls) env line
        = (error_response (''Plugin error: '' @ quoted ''id''), ep, ecalls)"
    by (simp add: email_handle_line_def str_exn_def quoted_def)
qed

theorem missing_id_raises_witness:
  "map_of [(''parameters'', JObj [])] ''id'' = None
   \<and> shell_execute_action sample_runtime sample_failure sample_shell sample_action_env
        (JObj [(''parameters'', JObj [])]) [] = (Inl (KeyError ''id''), [])
   \<and> shell_execute_action sample_runtime sample_failure (shell_new True) sample_action_env
        (JObj [(''parameters'', JObj [])]) [] = (Inl (KeyError ''id''), [])
   \<and> email_execute_action sample_runtime sample_sent sample_email sample_action_env
        (JObj [(''parameters'', JObj [])]) [] = (Inl (KeyError ''id''), [])
   \<and> json_loads sample_runtime sample_line
        = Loaded (JObj [(''action'', JStr ''execute_action''),
                        (''action_request'', JObj [(''parameters'', JObj [])])])
   \<and> shell_handle_line sample_runtime sample_failure (sample_shell, []) sample_action_env
        sample_line
        = (error_response (''Plugin error: '' @ quoted ''id''), sample_shell, [])
   \<and> email_handle_line sample_runtime sample_sent (sample_email, []) sample_action_env
        sample_line
        = (error_response (''Plugin error: '' @ quoted ''id''), sample_email, [])"
proof -
  let ?req = "[(''parameters'', JObj [])]"
  let ?cmd = "[(''action'', JStr ''execute_action''), (''action_request'', JObj ?req)]"
  have none: "map_of ?req ''id'' = None" by simp
  have loads: "json_loads sample_runtime sample_line = Loaded (JObj ?cmd)"
    by (simp add: sample_runtime_def sample_loads_def sample_line_def sample_digits_other)
  have act: "map_of ?cmd ''action'' = Some (JStr ''execute_action'')" by simp
  have ar: "or_default (dict_get (JObj ?cmd) ''action_request'' (JObj [])) = JObj ?req"
    by (simp add: or_default_def)
  note a = missing_id_raises
    [where rt = sample_runtime and kvs = ?req and source = sample_failure and p = sample_shell
       and env = sample_action_env and calls = "[]" and esource = sample_sent
       and ep = sample_email and ecalls = "[]" and line = sample_line and command = ?cmd]
  note b = missing_id_raises
    [where rt = sample_runtime and kvs = ?req and source = sample_failure
       and p = "shell_new True" and env = sample_action_env and calls = "[]"
       and esource = sample_sent and ep = sample_email and ecalls = "[]",
     THEN conjunct1]
  from a [THEN conjunct1] a [THEN conjunct2] b none loads act ar show ?thesis by blast
qed

section \<open>The dispatcher loop\<close>

lemma disk_loop_step:
  assumes "strip raw \<noteq> []"
    and "disk_handle_line rt p env info (strip raw) = (response, p')"
  shows "disk_main_loop rt p ((raw, env, info) # rest)
       = (response # fst (disk_main_loop rt p' rest), snd (disk_main_loop rt p' rest))"
  using assms by (simp split: prod.splits)

lemma shell_loop_step:
  assumes "strip raw \<noteq> []"
    and "shell_handle_line rt source st env (strip raw) = (response, st')"
  shows "shell_main_loop rt source st ((raw, env) # rest)
       = (response # fst (shell_main_loop rt source st' rest),
          snd (shell_main_loop rt source st' rest))"
  using assms by (simp split: prod.splits)

lemma disk_unknown:
  assumes "dict_get (JObj command) ''action'' JNull = Inr action"
    and "action \<notin> JStr ` set trigger_actions"
  shows "disk_dispatch rt p env info (JObj command) = (Inr (unknown_action rt action), p)"
  using assms by (auto simp: disk_dispatch_def trigger_actions_def Let_def)

lemma shell_unknown:
  assumes "dict_get (JObj command) ''action'' JNull = Inr action"
    and "action \<notin> JStr ` set action_actions"
  shows "shell_dispatch rt source (p, calls) env (JObj command)
       = (Inr (unknown_action rt action), p, calls)"
  using assms by (auto simp: shell_dispatch_def action_actions_def Let_def)

lemma disk_loop_length:
  "length (fst (disk_main_loop rt p inputs))
     = length (takeWhile (\<lambda>x. strip (fst x) \<noteq> []) inputs)"
proof (induction inputs arbitrary: p)
  case Nil
  then show ?case by simp
next
  case (Cons x inputs)
  obtain raw env info where x: "x = (raw, env, info)" by (cases x)
  show ?case
  proof (cases "strip raw = []")
    case True
    with x show ?thesis by simp
  next
    case False
    obtain response p' where h: "disk_handle_line rt p env info (strip raw) = (response, p')"
      by (cases "disk_handle_line rt p env info (strip raw)")
    from disk_loop_step [OF False h] Cons.IH [of p'] x False show ?thesis by simp
  qed
qed

lemma shell_loop_length:
  "length (fst (shell_main_loop rt source st inputs))
     = length (takeWhile (\<lambda>x. strip (fst x) \<noteq> []) inputs)"
proof (induction inputs arbitrary: st)
  case Nil
  then show ?case by simp
next
  case (Cons x inputs)
  obtain raw env where x: "x = (raw, env)" by (cases x)
  show ?case
  proof (cases "strip raw = []")
    case True
    with x show ?thesis by simp
  next
    case False
    obtain response st' where h: "shell_handle_line rt source st env (strip raw) = (response, st')"
      by (cases "shell_handle_line rt source st env (strip raw)")
    from shell_loop_step [OF False h] Cons.IH [of st'] x False show ?thesis by simp
  qed
qed

text \<open>
  C8, as the code has it. A line that is blank after stripping ends the loop: no response
  is printed for it and no later line is read. For every other line exactly one response
  is printed and the loop goes on with the next line: the response
  \<open>{"error": "Invalid JSON command"}\<close> with the state unchanged when \<open>json.loads\<close>
  raises \<open>JSONDecodeError\<close> on the line; the response with the action, \<open>success\<close> false
  and \<open>Unknown action: <name>\<close> with the state unchanged when the line is an object whose
  action is not recognised; the response \<open>{"error": "Plugin error: <message>"}\<close> when
  processing raises, and also, with the state unchanged, when \<open>json.loads\<close> raises an
  exception other than \<open>JSONDecodeError\<close>: a line that is not valid JSON is then answered
  with \<open>Plugin error\<close>, not with \<open>Invalid JSON command\<close>. The dispatchers of the disk
  monitor and of the shell plugin.
\<close>

theorem dispatcher_responses:
  "(strip raw = [] \<longrightarrow>
      disk_main_loop rt p ((raw, env, info) # rest) = ([], p)
      \<and> shell_main_loop rt source st ((raw, aenv) # arest) = ([], st))
   \<and> (strip raw \<noteq> [] \<and> json_loads rt (strip raw) = JSONDecodeError \<longrightarrow>
      disk_main_loop rt p ((raw, env, info) # rest)
        = (error_response ''Invalid JSON command'' # fst (disk_main_loop rt p rest),
           snd (disk_main_loop rt p rest))
      \<and> shell_main_loop rt source st ((raw, aenv) # arest)
        = (error_response ''Invalid JSON command'' # fst (shell_main_loop rt source st arest),
           snd (shell_main_loop rt source st arest)))
   \<and> (strip raw \<noteq> [] \<and> json_loads rt (strip raw) = Loaded (JObj command)
      \<and> dict_get (JObj command) ''action'' JNull = Inr action
      \<and> action \<notin> JStr ` set trigger_actions \<longrightarrow>
      disk_main_loop rt p ((raw, env, info) # rest)
        = (\<lparr> r_action = Some action, r_success = Some False, r_data = None,
              r_error = Some (''Unknown action: '' @ fmt rt action) \<rparr>
             # fst (disk_main_loop rt p rest),
           snd (disk_main_loop rt p rest)))
   \<and> (strip raw \<noteq> [] \<and> json_loads rt (strip raw) = Loaded (JObj command)
      \<and> dict_get (JObj command) ''action'' JNull = Inr action
      \<and> action \<notin> JStr ` set action_actions \<longrightarrow>
      shell_main_loop rt source (sp, calls) ((raw, aenv) # arest)
        = (\<lparr> r_action = Some action, r_success = Some False, r_data = None,
              r_error = Some (''Unknown action: '' @ fmt rt action) \<rparr>
             # fst (shell_main_loop rt source (sp, calls) arest),
           snd (shell_main_loop rt source (sp, calls) arest)))
   \<and> (strip raw \<noteq> [] \<and> json_loads rt (strip raw) = Loaded cmd
      \<and> disk_dispatch rt p env info cmd = (Inl e, p') \<longrightarrow>
      disk_main_loop rt p ((raw, env, info) # rest)
        = (error_response (''Plugin error: '' @ str_exn e) # fst (disk_main_loop rt p' rest),
           snd (disk_main_loop rt p' rest)))
   \<and> (strip raw \<noteq> [] \<and> json_loads rt (strip raw) = Loaded cmd
      \<and> shell_dispatch rt source st aenv cmd = (Inl e, st') \<longrightarrow>
      shell_main_loop rt source st ((raw, aenv) # arest)
        = (error_response (''Plugin error: '' @ str_exn e)
             # fst (shell_main_loop rt source st' arest),
           snd (shell_main_loop rt source st' arest)))
   \<and> (strip raw \<noteq> [] \<and> json_loads rt (strip raw) = LoadsRaised e \<longrightarrow>
      disk_main_loop rt p ((raw, env, info) # rest)
        = (error_response (''Plugin error: '' @ str_exn e) # fst (disk_main_loop rt p rest),
           snd (disk_main_loop rt p rest))
      \<and> shell_main_loop rt source st ((raw, aenv) # arest)
        = (error_response (''Plugin error: '' @ str_exn e)
             # fst (shell_main_loop rt source st arest),
           snd (shell_main_loop rt source st arest)))
   \<and> length (fst (disk_main_loop rt p inputs))
        = length (takeWhile (\<lambda>x. strip (fst x) \<noteq> []) inputs)
   \<and> length (fst (shell_main_loop rt source st ainputs))
        = length (takeWhile (\<lambda>x. strip (fst x) \<noteq> []) ainputs)"
proof (intro conjI impI)
  assume "strip raw = []"
  then show "disk_main_loop rt p ((raw, env, info) # rest) = ([], p)"
    and "shell_main_loop rt source st ((raw, aenv) # arest) = ([], st)"
    by simp_all
next
  assume h: "strip raw \<noteq> [] \<and> json_loads rt (strip raw) = JSONDecodeError"
  then have "disk_handle_line rt p env info (strip raw)
      = (error_response ''Invalid JSON command'', p)"
    by (simp add: disk_handle_line_def)
  with h show "disk_main_loop rt p ((raw, env, info) # rest)
        = (error_response ''Invalid JSON command'' # fst (disk_main_loop rt p rest),
           snd (disk_main_loop rt p rest))"
    by (simp add: disk_loop_step del: disk_main_loop.simps)
  from h have "shell_handle_line rt source st aenv (strip raw)
      = (error_response ''Invalid JSON command'', st)"
    by (simp add: shell_handle_line_def)
  with h show "shell_main_loop rt source st ((raw, aenv) # arest)
        = (error_response ''Invalid JSON command'' # fst (shell_main_loop rt source st arest),
           snd (shell_main_loop rt source st arest))"
    by (simp add: shell_loop_step del: shell_main_loop.simps)
next
  assume h: "strip raw \<noteq> [] \<and> json_loads rt (strip raw) = Loaded (JObj command)
      \<and> dict_get (JObj command) ''action'' JNull = Inr action
      \<and> action \<notin> JStr ` set trigger_actions"
  then have "disk_dispatch rt p env info (JObj command) = (Inr (unknown_action rt action), p)"
    by (simp add: disk_unknown)
  with h have "disk_handle_line rt p env info (strip raw) = (unknown_action rt action, p)"
    by (simp add: disk_handle_line_def)
  with h show "disk_main_loop rt p ((raw, env, info) # rest)
        = (\<lparr> r_action = Some action, r_success = Some False, r_data = None,
              r_error = Some (''Unknown action: '' @ fmt rt action) \<rparr>
             # fst (disk_main_loop rt p rest),
           snd (disk_main_loop rt p rest))"
    by (simp add: disk_loop_step unknown_action_def new_response_def del: disk_main_loop.simps)
next
  assume h: "strip raw \<noteq> [] \<and> json_loads rt (strip raw) = Loaded (JObj command)
      \<and> dict_get (JObj command) ''action'' JNull = Inr action
      \<and> action \<notin> JStr ` set action_actions"
  then have "shell_dispatch rt source (sp, calls) aenv (JObj command)
      = (Inr (unknown_action rt action), sp, calls)"
    by (simp add: shell_unknown)
  with h have "shell_handle_line rt source (sp, calls) aenv (strip raw)
      = (unknown_action rt action, sp, calls)"
    by (simp add: shell_handle_line_def)
  with h show "shell_main_loop rt source (sp, calls) ((raw, aenv) # arest)
        = (\<lparr> r_action = Some action, r_success = Some False, r_data = None,
              r_error = Some (''Unknown action: '' @ fmt rt action) \<rparr>
             # fst (shell_main_loop rt source (sp, calls) arest),
           snd (shell_main_loop rt source (sp, calls) arest))"
    by (simp add: shell_loop_step unknown_action_def new_response_def del: shell_main_loop.simps)
next
  assume h: "strip raw \<noteq> [] \<and> json_loads rt (strip raw) = Loaded cmd
      \<and> disk_dispatch rt p env info cmd = (Inl e, p')"
  then have "disk_handle_line rt p env info (strip raw)
      = (error_response (''Plugin error: '' @ str_exn e), p')"
    by (simp add: disk_handle_line_def)
  with h show "disk_main_loop rt p ((raw, env, info) # rest)
        = (error_response (''Plugin error: '' @ str_exn e) # fst (disk_main_loop rt p' rest),
           snd (disk_main_loop rt p' rest))"
    by (simp add: disk_loop_step del: disk_main_loop.simps)
next
  assume h: "strip raw \<noteq> [] \<and> json_loads rt (strip raw) = Loaded cmd
      \<and> shell_dispatch rt source st aenv cmd = (Inl e, st')"
  then have "shell_handle_line rt source st aenv (strip raw)
      = (error_response (''Plugin error: '' @ str_exn e), st')"
    by (simp add: shell_handle_line_def)
  with h show "shell_main_loop rt source st ((raw, aenv) # arest)
        = (error_response (''Plugin error: '' @ str_exn e)
             # fst (shell_main_loop rt source st' arest),
           snd (shell_main_loop rt source st' arest))"
    by (simp add: shell_loop_step del: shell_main_loop.simps)
next
  assume h: "strip raw \<noteq> [] \<and> json_loads rt (strip raw) = LoadsRaised e"
  then have "disk_handle_line rt p env info (strip raw)
      = (error_response (''Plugin error: '' @ str_exn e), p)"
    by (simp add: disk_handle_line_def)
  with h show "disk_main_loop rt p ((raw, env, info) # rest)
        = (error_response (''Plugin error: '' @ str_exn e) # fst (disk_main_loop rt p rest),
           snd (disk_main_loop rt p rest))"
    by (simp add: disk_loop_step del: disk_main_loop.simps)
  from h have "shell_handle_line rt source st aenv (strip raw)
      = (error_response (''Plugin error: '' @ str_exn e), st)"
    by (simp add: shell_handle_line_def)
  with h show "shell_main_loop rt source st ((raw, aenv) # arest)
        = (error_response (''Plugin error: '' @ str_exn e)
             # fst (shell_main_loop rt source st arest),
           snd (shell_main_loop rt source st arest))"
    by (simp add: shell_loop_step del: shell_main_loop.simps)
next
  show "length (fst (disk_main_loop rt p inputs))
        = length (takeWhile (\<lambda>x. strip (fst x) \<noteq> []) inputs)"
    by (rule disk_loop_length)
  show "length (fst (shell_main_loop rt source st ainputs))
        = length (takeWhile (\<lambda>x. strip (fst x) \<noteq> []) ainputs)"
    by (rule shell_loop_length)
qed

lemma sample_strips:
  "strip ''   '' = []"
  "strip ''not json'' = ''not json''"
  "strip ''7'' = ''7''"
  "strip sample_start_line = sample_start_line"
  "strip sample_unknown_line = sample_unknown_line"
  "strip sample_line = sample_line"
  by (simp_all add: strip_def is_space_def Let_def sample_start_line_def sample_unknown_line_def
      sample_line_def)

lemma sample_lines_nonempty:
  "sample_start_line \<noteq> []" "sample_unknown_line \<noteq> []" "sample_line \<noteq> []"
  by (simp_all add: sample_start_line_def sample_unknown_line_def sample_line_def)

lemma sample_parses:
  "json_loads sample_runtime ''not json'' = JSONDecodeError"
  "json_loads sample_runtime ''7'' = Loaded (JInt 7)"
  "json_loads sample_runtime sample_start_line = Loaded (JObj [(''action'', JStr ''start'')])"
  "json_loads sample_runtime sample_unknown_line = Loaded (JObj [(''action'', JStr ''reboot'')])"
  by (simp_all add: sample_runtime_def sample_loads_def sample_start_line_def
      sample_unknown_line_def sample_digits_other)

lemma sample_digits_strip:
  "strip sample_digits = sample_digits" "sample_digits \<noteq> []"
  "strip sample_nested = sample_nested" "sample_nested \<noteq> []"
  by (simp_all add: strip_def is_space_def sample_digits_def sample_nested_def
      dropWhile_replicate)

lemma sample_digits_raises:
  "json_loads sample_runtime sample_digits
     = LoadsRaised (ValueError (''Exceeds the limit (4300 digits) for integer string ''
         @ ''conversion: value has 5000 digits; use sys.set_int_max_str_digits() ''
         @ ''to increase the limit''))"
  by (simp add: sample_runtime_def sample_loads_def)

lemma sample_nested_raises:
  "json_loads sample_runtime sample_nested
     = LoadsRaised (RecursionError (''maximum recursion depth exceeded while decoding ''
         @ ''a JSON array from a unicode string''))"
  by (simp add: sample_runtime_def sample_loads_def sample_digits_def sample_nested_def)

lemma sample_start_response:
  "disk_main_loop sample_runtime disk_new [(sample_start_line, sample_env 1, [])]
     = ([\<lparr> r_action = Some (JStr ''start''), r_success = Some True, r_data = None,
            r_error = None \<rparr>],
        disk_new\<lparr>d_running := True, d_status := ''running'', d_start_time := Some 1\<rparr>)"
  by (simp add: sample_strips sample_lines_nonempty sample_parses disk_handle_line_def
      disk_dispatch_def Let_def new_response_def disk_start_def disk_new_def sample_env_def)

theorem dispatcher_blank_line_counterexample:
  "json_loads sample_runtime ''   '' = JSONDecodeError
   \<and> disk_main_loop sample_runtime disk_new
        [(''   '', sample_env 0, []), (sample_start_line, sample_env 1, [])]
        = ([], disk_new)
   \<and> disk_main_loop sample_runtime disk_new [(sample_start_line, sample_env 1, [])]
        = ([\<lparr> r_action = Some (JStr ''start''), r_success = Some True, r_data = None,
               r_error = None \<rparr>],
           disk_new\<lparr>d_running := True, d_status := ''running'', d_start_time := Some 1\<rparr>)"
proof -
  have "json_loads sample_runtime ''   '' = JSONDecodeError"
    by (simp add: sample_runtime_def sample_loads_def sample_digits_other)
  moreover have "disk_main_loop sample_runtime disk_new
        [(''   '', sample_env 0, []), (sample_start_line, sample_env 1, [])] = ([], disk_new)"
    by (simp add: sample_strips)
  ultimately show ?thesis using sample_start_response by simp
qed

theorem dispatcher_responses_witness:
  "strip ''   '' = []
   \<and> disk_main_loop sample_runtime disk_new [(''   '', sample_env 0, [])] = ([], disk_new)
   \<and> strip ''not json'' \<noteq> []
   \<and> json_loads sample_runtime (strip ''not json'') = JSONDecodeError
   \<and> disk_main_loop sample_runtime disk_new [(''not json'', sample_env 0, [])]
        = ([error_response ''Invalid JSON command''], disk_new)
   \<and> shell_main_loop sample_runtime sample_failure (sample_shell, [])
        [(''not json'', sample_action_env)]
        = ([error_response ''Invalid JSON command''], sample_shell, [])
   \<and> disk_main_loop sample_runtime disk_new [(sample_unknown_line, sample_env 0, [])]
        = ([\<lparr> r_action = Some (JStr ''reboot''), r_success = Some False, r_data = None,
               r_error = Some ''Unknown action: reboot'' \<rparr>], disk_new)
   \<and> shell_main_loop sample_runtime sample_failure (sample_shell, [])
        [(sample_unknown_line, sample_action_env)]
        = ([\<lparr> r_action = Some (JStr ''reboot''), r_success = Some False, r_data = None,
               r_error = Some ''Unknown action: reboot'' \<rparr>], sample_shell, [])
   \<and> disk_main_loop sample_runtime disk_new [(''7'', sample_env 0, [])]
        = ([error_response (''Plugin error: '' @ str_exn (no_attribute (JInt 7) ''get''))],
           disk_new)
   \<and> shell_main_loop sample_runtime sample_failure (sample_shell, [])
        [(sample_line, sample_action_env)]
        = ([error_response (''Plugin error: '' @ str_exn (KeyError ''id''))], sample_shell, [])
   \<and> strip sample_digits \<noteq> []
   \<and> json_loads sample_runtime (strip sample_digits)
        = LoadsRaised (ValueError (''Exceeds the limit (4300 digits) for integer string ''
            @ ''conversion: value has 5000 digits; use sys.set_int_max_str_digits() ''
            @ ''to increase the limit''))
   \<and> disk_main_loop sample_runtime disk_new [(sample_digits, sample_env 0, [])]
        = ([error_response (''Plugin error: Exceeds the limit (4300 digits) for integer string ''
              @ ''conversion: value has 5000 digits; use sys.set_int_max_str_digits() ''
              @ ''to increase the limit'')], disk_new)
   \<and> shell_main_loop sample_runtime sample_failure (sample_shell, [])
        [(sample_digits, sample_action_env)]
        = ([error_response (''Plugin error: Exceeds the limit (4300 digits) for integer string ''
              @ ''conversion: value has 5000 digits; use sys.set_int_max_str_digits() ''
              @ ''to increase the limit'')], sample_shell, [])
   \<and> strip sample_nested \<noteq> []
   \<and> json_loads sample_runtime (strip sample_nested)
        = LoadsRaised (RecursionError (''maximum recursion depth exceeded while decoding ''
            @ ''a JSON array from a unicode string''))
   \<and> disk_main_loop sample_runtime disk_new [(sample_nested, sample_env 0, [])]
        = ([error_response (''Plugin error: maximum recursion depth exceeded while decoding ''
              @ ''a JSON array from a unicode string'')], disk_new)
   \<and> shell_main_loop sample_runtime sample_failure (sample_shell, [])
        [(sample_nested, sample_action_env)]
        = ([error_response (''Plugin error: maximum recursion depth exceeded while decoding ''
              @ ''a JSON array from a unicode string'')], sample_shell, [])"
proof -
  let ?rt = sample_runtime
  let ?st = "(sample_shell, [] :: shell_call list)"
  have blank: "strip ''   '' = []" by (simp add: sample_strips)
  note b = dispatcher_responses
    [where raw = "''   ''" and rt = ?rt and p = disk_new and env = "sample_env 0"
       and info = "[]" and rest = "[]", THEN conjunct1]
  from b blank
  have c1: "disk_main_loop ?rt disk_new [(''   '', sample_env 0, [])] = ([], disk_new)"
    by blast
  have ne: "strip ''not json'' \<noteq> []" by (simp add: sample_strips)
  have np: "json_loads ?rt (strip ''not json'') = JSONDecodeError"
    by (simp add: sample_strips sample_parses)
  note i = dispatcher_responses
    [where raw = "''not json''" and rt = ?rt and p = disk_new and env = "sample_env 0"
       and info = "[]" and rest = "[]" and source = sample_failure and st = ?st
       and aenv = sample_action_env and arest = "[]", THEN conjunct2, THEN conjunct1]
  from i ne np
  have "disk_main_loop ?rt disk_new [(''not json'', sample_env 0, [])]
        = (error_response ''Invalid JSON command'' # fst (disk_main_loop ?rt disk_new []),
           snd (disk_main_loop ?rt disk_new []))"
    and "shell_main_loop ?rt sample_failure ?st [(''not json'', sample_action_env)]
        = (error_response ''Invalid JSON command''
             # fst (shell_main_loop ?rt sample_failure ?st []),
           snd (shell_main_loop ?rt sample_failure ?st []))"
    by blast+
  then have c2: "disk_main_loop ?rt disk_new [(''not json'', sample_env 0, [])]
        = ([error_response ''Invalid JSON command''], disk_new)"
    and c3: "shell_main_loop ?rt sample_failure ?st [(''not json'', sample_action_env)]
        = ([error_response ''Invalid JSON command''], sample_shell, [])"
    by simp_all
  have une: "strip sample_unknown_line \<noteq> []"
    by (simp add: sample_strips sample_lines_nonempty)
  have up: "json_loads ?rt (strip sample_unknown_line) = Loaded (JObj [(''action'', JStr ''reboot'')])"
    by (simp add: sample_strips sample_parses)
  have ua: "dict_get (JObj [(''action'', JStr ''reboot'')]) ''action'' JNull = Inr (JStr ''reboot'')"
    by simp
  have ut: "JStr ''reboot'' \<notin> JStr ` set trigger_actions"
    by (simp add: trigger_actions_def)
  have uc: "JStr ''reboot'' \<notin> JStr ` set action_actions"
    by (simp add: action_actions_def)
  note u = dispatcher_responses
    [where raw = sample_unknown_line and rt = ?rt and p = disk_new and env = "sample_env 0"
       and info = "[]" and rest = "[]" and command = "[(''action'', JStr ''reboot'')]"
       and action = "JStr ''reboot''" and source = sample_failure and sp = sample_shell
       and calls = "[]" and aenv = sample_action_env and arest = "[]"]
  from u [THEN conjunct2, THEN conjunct2, THEN conjunct1] une up ua ut
  have "disk_main_loop ?rt disk_new [(sample_unknown_line, sample_env 0, [])]
        = (\<lparr> r_action = Some (JStr ''reboot''), r_success = Some False, r_data = None,
              r_error = Some (''Unknown action: '' @ fmt ?rt (JStr ''reboot'')) \<rparr>
             # fst (disk_main_loop ?rt disk_new []),
           snd (disk_main_loop ?rt disk_new []))"
    by blast
  then have c4: "disk_main_loop ?rt disk_new [(sample_unknown_line, sample_env 0, [])]
        = ([\<lparr> r_action = Some (JStr ''reboot''), r_success = Some False, r_data = None,
               r_error = Some ''Unknown action: reboot'' \<rparr>], disk_new)"
    by (simp add: fmt_def)
  from u [THEN conjunct2, THEN conjunct2, THEN conjunct2, THEN conjunct1] une up ua uc
  have "shell_main_loop ?rt sample_failure ?st [(sample_unknown_line, sample_action_env)]
        = (\<lparr> r_action = Some (JStr ''reboot''), r_success = Some False, r_data = None,
              r_error = Some (''Unknown action: '' @ fmt ?rt (JStr ''reboot'')) \<rparr>
             # fst (shell_main_loop ?rt sample_failure ?st []),
           snd (shell_main_loop ?rt sample_failure ?st []))"
    by blast
  then have c5: "shell_main_loop ?rt sample_failure ?st [(sample_unknown_line, sample_action_env)]
        = ([\<lparr> r_action = Some (JStr ''reboot''), r_success = Some False, r_data = None,
               r_error = Some ''Unknown action: reboot'' \<rparr>], sample_shell, [])"
    by (simp add: fmt_def)
  have sne: "strip ''7'' \<noteq> []" by (simp add: sample_strips)
  have sp: "json_loads ?rt (strip ''7'') = Loaded (JInt 7)"
    by (simp add: sample_strips sample_parses)
  have sd: "disk_dispatch ?rt disk_new (sample_env 0) [] (JInt 7)
      = (Inl (no_attribute (JInt 7) ''get''), disk_new)"
    by (simp add: disk_dispatch_def)
  note x = dispatcher_responses
    [where raw = "''7''" and rt = ?rt and p = disk_new and env = "sample_env 0"
       and info = "[]" and rest = "[]" and cmd = "JInt 7"
       and e = "no_attribute (JInt 7) ''get''" and p' = disk_new,
     THEN conjunct2, THEN conjunct2, THEN conjunct2, THEN conjunct2, THEN conjunct1]
  from x sne sp sd
  have "disk_main_loop ?rt disk_new [(''7'', sample_env 0, [])]
        = (error_response (''Plugin error: '' @ str_exn (no_attribute (JInt 7) ''get''))
             # fst (disk_main_loop ?rt disk_new []),
           snd (disk_main_loop ?rt disk_new []))"
    by blast
  then have c6: "disk_main_loop ?rt disk_new [(''7'', sample_env 0, [])]
        = ([error_response (''Plugin error: '' @ str_exn (no_attribute (JInt 7) ''get''))],
           disk_new)"
    by simp
  have lne: "strip sample_line \<noteq> []"
    by (simp add: sample_strips sample_lines_nonempty)
  have lp: "json_loads ?rt (strip sample_line)
      = Loaded (JObj [(''action'', JStr ''execute_action''),
                      (''action_request'', JObj [(''parameters'', JObj [])])])"
    by (simp only: sample_strips)
      (simp add: sample_runtime_def sample_loads_def sample_line_def sample_digits_other)
  have ld: "shell_dispatch ?rt sample_failure ?st sample_action_env
        (JObj [(''action'', JStr ''execute_action''),
               (''action_request'', JObj [(''parameters'', JObj [])])])
      = (Inl (KeyError ''id''), ?st)"
    by (simp add: shell_dispatch_def Let_def new_response_def or_default_def
        shell_execute_action_def)
  note y = dispatcher_responses
    [where raw = sample_line and rt = ?rt and source = sample_failure and st = ?st
       and aenv = sample_action_env and arest = "[]"
       and cmd = "JObj [(''action'', JStr ''execute_action''),
                        (''action_request'', JObj [(''parameters'', JObj [])])]"
       and e = "KeyError ''id''" and st' = ?st,
     THEN conjunct2, THEN conjunct2, THEN conjunct2, THEN conjunct2, THEN conjunct2,
     THEN conjunct1]
  from y lne lp ld
  have "shell_main_loop ?rt sample_failure ?st [(sample_line, sample_action_env)]
        = (error_response (''Plugin error: '' @ str_exn (KeyError ''id''))
             # fst (shell_main_loop ?rt sample_failure ?st []),
           snd (shell_main_loop ?rt sample_failure ?st []))"
    by blast
  then have c7: "shell_main_loop ?rt sample_failure ?st [(sample_line, sample_action_env)]
        = ([error_response (''Plugin error: '' @ str_exn (KeyError ''id''))], sample_shell, [])"
    by simp
  let ?msg = "''Exceeds the limit (4300 digits) for integer string ''
      @ ''conversion: value has 5000 digits; use sys.set_int_max_str_digits() ''
      @ ''to increase the limit''"
  have dne: "strip sample_digits \<noteq> []"
    by (simp add: sample_digits_strip)
  have dp: "json_loads ?rt (strip sample_digits) = LoadsRaised (ValueError ?msg)"
    by (simp only: sample_digits_strip sample_digits_raises)
  note z = dispatcher_responses
    [where raw = sample_digits and rt = ?rt and p = disk_new and env = "sample_env 0"
       and info = "[]" and rest = "[]" and source = sample_failure and st = ?st
       and aenv = sample_action_env and arest = "[]" and e = "ValueError ?msg",
     THEN conjunct2, THEN conjunct2, THEN conjunct2, THEN conjunct2, THEN conjunct2,
     THEN conjunct2, THEN conjunct1]
  from z dne dp
  have "disk_main_loop ?rt disk_new [(sample_digits, sample_env 0, [])]
        = (error_response (''Plugin error: '' @ str_exn (ValueError ?msg))
             # fst (disk_main_loop ?rt disk_new []),
           snd (disk_main_loop ?rt disk_new []))"
    and "shell_main_loop ?rt sample_failure ?st [(sample_digits, sample_action_env)]
        = (error_response (''Plugin error: '' @ str_exn (ValueError ?msg))
             # fst (shell_main_loop ?rt sample_failure ?st []),
           snd (shell_main_loop ?rt sample_failure ?st []))"
    by blast+
  then have c8: "disk_main_loop ?rt disk_new [(sample_digits, sample_env 0, [])]
        = ([error_response (''Plugin error: '' @ ?msg)], disk_new)"
    and c9: "shell_main_loop ?rt sample_failure ?st [(sample_digits, sample_action_env)]
        = ([error_response (''Plugin error: '' @ ?msg)], sample_shell, [])"
    by (simp_all add: str_exn_def)
  from c8 c9
  have c8': "disk_main_loop ?rt disk_new [(sample_digits, sample_env 0, [])]
        = ([error_response (''Plugin error: Exceeds the limit (4300 digits) for integer string ''
              @ ''conversion: value has 5000 digits; use sys.set_int_max_str_digits() ''
              @ ''to increase the limit'')], disk_new)"
    and c9': "shell_main_loop ?rt sample_failure ?st [(sample_digits, sample_action_env)]
        = ([error_response (''Plugin error: Exceeds the limit (4300 digits) for integer string ''
              @ ''conversion: value has 5000 digits; use sys.set_int_max_str_digits() ''
              @ ''to increase the limit'')], sample_shell, [])"
    by simp_all
  let ?rmsg = "''maximum recursion depth exceeded while decoding ''
      @ ''a JSON array from a unicode string''"
  have nne: "strip sample_nested \<noteq> []"
    by (simp add: sample_digits_strip)
  have nps: "json_loads ?rt (strip sample_nested) = LoadsRaised (RecursionError ?rmsg)"
    by (simp only: sample_digits_strip sample_nested_raises)
  note w = dispatcher_responses
    [where raw = sample_nested and rt = ?rt and p = disk_new and env = "sample_env 0"
       and info = "[]" and rest = "[]" and source = sample_failure and st = ?st
       and aenv = sample_action_env and arest = "[]" and e = "RecursionError ?rmsg",
     THEN conjunct2, THEN conjunct2, THEN conjunct2, THEN conjunct2, THEN conjunct2,
     THEN conjunct2, THEN conjunct1]
  from w nne nps
  have "disk_main_loop ?rt disk_new [(sample_nested, sample_env 0, [])]
        = (error_response (''Plugin error: '' @ str_exn (RecursionError ?rmsg))
             # fst (disk_main_loop ?rt disk_new []),
           snd (disk_main_loop ?rt disk_new []))"
    and "shell_main_loop ?rt sample_failure ?st [(sample_nested, sample_action_env)]
        = (error_response (''Plugin error: '' @ str_exn (RecursionError ?rmsg))
             # fst (shell_main_loop ?rt sample_failure ?st []),
           snd (shell_main_loop ?rt sample_failure ?st []))"
    by blast+
  then have c10: "disk_main_loop ?rt disk_new [(sample_nested, sample_env 0, [])]
        = ([error_response (''Plugin error: maximum recursion depth exceeded while decoding ''
              @ ''a JSON array from a unicode string'')], disk_new)"
    and c11: "shell_main_loop ?rt sample_failure ?st [(sample_nested, sample_action_env)]
        = ([error_response (''Plugin error: maximum recursion depth exceeded while decoding ''
              @ ''a JSON array from a unicode string'')], sample_shell, [])"
    by (simp_all add: str_exn_def)
  from blank c1 ne np c2 c3 c4 c5 c6 c7 dne dp c8' c9' nne nps c10 c11 show ?thesis by blast
qed

section \<open>Health\<close>

lemma disk_apply_inv:
  assumes "d_status p = ''running'' \<longrightarrow> d_running p"
  shows "d_status (disk_apply rt p x) = ''running'' \<longrightarrow> d_running (disk_apply rt p x)"
proof (cases x)
  case (DiskInitialize config)
  then show ?thesis by (simp add: disk_initialize_frame)
next
  case (DiskStart now)
  with assms show ?thesis by (simp add: disk_start_def)
next
  case DiskStop
  then show ?thesis by (simp add: disk_stop_def)
next
  case (DiskDetect env info)
  obtain r p' where res: "disk_detect_triggers rt p env info = (r, p')"
    by (cases "disk_detect_triggers rt p env info")
  from disk_detect_result [OF res] have "d_status p' = d_status p \<and> d_running p' = d_running p"
    by (cases r) auto
  with assms DiskDetect res show ?thesis by simp
qed

lemma disk_run_inv:
  assumes "d_status p = ''running'' \<longrightarrow> d_running p"
  shows "d_status (disk_run rt p ops) = ''running'' \<longrightarrow> d_running (disk_run rt p ops)"
  using assms
proof (induction ops arbitrary: p)
  case Nil
  then show ?case by (simp add: disk_run_def)
next
  case (Cons x ops)
  from Cons.IH [OF disk_apply_inv [OF Cons.prems, of rt x]] show ?case
    by (simp add: disk_run_def)
qed

lemma shell_apply_inv:
  assumes "s_status p = ''running'' \<longrightarrow> s_running p"
  shows "s_status (shell_apply rt p x) = ''running'' \<longrightarrow> s_running (shell_apply rt p x)"
proof (cases x)
  case (ShellInitialize config)
  then show ?thesis by (simp add: shell_initialize_status)
next
  case (ShellStart now)
  with assms show ?thesis by (simp add: shell_start_def)
next
  case ShellStop
  then show ?thesis by (simp add: shell_stop_def)
qed

lemma shell_run_inv:
  assumes "s_status p = ''running'' \<longrightarrow> s_running p"
  shows "s_status (shell_run rt p ops) = ''running'' \<longrightarrow> s_running (shell_run rt p ops)"
  using assms
proof (induction ops arbitrary: p)
  case Nil
  then show ?case by (simp add: shell_run_def)
next
  case (Cons x ops)
  from Cons.IH [OF shell_apply_inv [OF Cons.prems, of rt x]] show ?case
    by (simp add: shell_run_def)
qed

text \<open>
  C9, as the code has it. In every state that a run of operations reaches from a new
  plugin, \<open>get_health\<close> reports \<open>healthy\<close> exactly when the running flag is set and
  \<open>unhealthy\<close> otherwise, and the dispatcher leaves the plugin as it was. A state whose
  status is \<open>running\<close> has the flag set, so it is reported healthy; the flag stays set
  when \<open>initialize\<close> is called on a running plugin, so a status \<open>initialized\<close> or
  \<open>error\<close> can be reported healthy as well. The disk monitor and the shell plugin,
  whose \<open>get_health\<close> can raise when a list option holds a value without a length.
\<close>

theorem health_follows_running_flag:
  "(p = disk_run rt disk_new ops \<longrightarrow>
      dh_status (disk_get_health p info t1 t2) = (if d_running p then ''healthy'' else ''unhealthy'')
      \<and> (d_status p = ''running'' \<longrightarrow> dh_status (disk_get_health p info t1 t2) = ''healthy'')
      \<and> (map_of command ''action'' = Some (JStr ''get_health'') \<longrightarrow>
           disk_dispatch rt p env info (JObj command)
             = (Inr (with_data (new_response (JStr ''get_health''))
                       (DiskHealth (disk_get_health p info (de_now env) (de_stamp env)))), p)))
   \<and> (sp = shell_run rt (shell_new demo) sops \<longrightarrow>
      (shell_get_health rt sp aenv = Inr h \<longrightarrow>
           sh_status h = (if s_running sp then ''healthy'' else ''unhealthy'')
           \<and> (s_status sp = ''running'' \<longrightarrow> sh_status h = ''healthy''))
      \<and> (map_of command ''action'' = Some (JStr ''get_health'') \<longrightarrow>
           snd (shell_dispatch rt source (sp, calls) aenv (JObj command)) = (sp, calls)))"
proof (intro conjI impI)
  assume p: "p = disk_run rt disk_new ops"
  show "dh_status (disk_get_health p info t1 t2) = (if d_running p then ''healthy'' else ''unhealthy'')"
    by (simp add: disk_get_health_def)
  { assume "d_status p = ''running''"
    with disk_run_inv [of disk_new rt ops] p have "d_running p"
      by (simp add: disk_new_def)
    then show "dh_status (disk_get_health p info t1 t2) = ''healthy''"
      by (simp add: disk_get_health_def) }
  { assume "map_of command ''action'' = Some (JStr ''get_health'')"
    then show "disk_dispatch rt p env info (JObj command)
             = (Inr (with_data (new_response (JStr ''get_health''))
                       (DiskHealth (disk_get_health p info (de_now env) (de_stamp env)))), p)"
      by (simp add: disk_dispatch_def Let_def) }
next
  assume sp: "sp = shell_run rt (shell_new demo) sops"
  { assume h: "shell_get_health rt sp aenv = Inr h"
    then show "sh_status h = (if s_running sp then ''healthy'' else ''unhealthy'')"
      by (auto simp: shell_get_health_def split: sum.splits)
    { assume "s_status sp = ''running''"
      with shell_run_inv [of "shell_new demo" rt sops] sp have "s_running sp"
        by (simp add: shell_new_def)
      with h show "sh_status h = ''healthy''"
        by (auto simp: shell_get_health_def split: sum.splits) } }
  { assume "map_of command ''action'' = Some (JStr ''get_health'')"
    then show "snd (shell_dispatch rt source (sp, calls) aenv (JObj command)) = (sp, calls)"
      by (simp add: shell_dispatch_def Let_def split: sum.splits) }
qed

lemma sample_restarted_eq:
  "sample_restarted
     = disk_new\<lparr>d_config := sample_accepted, d_threshold := Fin 80,
         d_critical_threshold := Fin 90, d_running := True, d_status := ''initialized'',
         d_start_time := Some 0\<rparr>"
  by (simp add: sample_restarted_def disk_run_def disk_start_def sample_eval)

theorem health_counterexample:
  "sample_restarted = disk_run sample_runtime disk_new [DiskStart 0, DiskInitialize sample_accepted]
   \<and> d_status sample_restarted = ''initialized''
   \<and> dh_status (disk_get_health sample_restarted [] 1 2) = ''healthy''"
proof -
  have "d_status sample_restarted = ''initialized''"
    and "dh_status (disk_get_health sample_restarted [] 1 2) = ''healthy''"
    by (simp_all add: sample_restarted_eq disk_get_health_def)
  then show ?thesis by (simp add: sample_restarted_def)
qed

theorem health_follows_running_flag_witness:
  "sample_restarted = disk_run sample_runtime disk_new [DiskStart 0, DiskInitialize sample_accepted]
   \<and> d_running sample_restarted
   \<and> dh_status (disk_get_health sample_restarted [] 1 2) = ''healthy''
   \<and> map_of [(''action'', JStr ''get_health'')] ''action'' = Some (JStr ''get_health'')
   \<and> disk_dispatch sample_runtime sample_restarted (sample_env 1) []
        (JObj [(''action'', JStr ''get_health'')])
        = (Inr (with_data (new_response (JStr ''get_health''))
                  (DiskHealth (disk_get_health sample_restarted []
                     (de_now (sample_env 1)) (de_stamp (sample_env 1))))), sample_restarted)
   \<and> sample_shell = shell_run sample_runtime (shell_new True) [ShellStart 0]
   \<and> s_status sample_shell = ''running''
   \<and> shell_get_health sample_runtime sample_shell sample_action_env
        = Inr (projr (shell_get_health sample_runtime sample_shell sample_action_env))
   \<and> sh_status (projr (shell_get_health sample_runtime sample_shell sample_action_env))
        = ''healthy''
   \<and> snd (shell_dispatch sample_runtime sample_failure (sample_shell, []) sample_action_env
             (JObj [(''action'', JStr ''get_health'')])) = (sample_shell, [])"
proof -
  let ?h = "projr (shell_get_health sample_runtime sample_shell sample_action_env)"
  note t = health_follows_running_flag
    [where p = sample_restarted and rt = sample_runtime
       and ops = "[DiskStart 0, DiskInitialize sample_accepted]" and info = "[]"
       and ?t1.0 = 1 and ?t2.0 = 2 and command = "[(''action'', JStr ''get_health'')]"
       and env = "sample_env 1" and sp = sample_shell and demo = True
       and sops = "[ShellStart 0]" and aenv = sample_action_env and h = ?h
       and source = sample_failure and calls = "[]"]
  have r: "sample_restarted
      = disk_run sample_runtime disk_new [DiskStart 0, DiskInitialize sample_accepted]"
    by (simp add: sample_restarted_def)
  have run: "d_running sample_restarted"
    by (simp add: sample_restarted_eq)
  have act: "map_of [(''action'', JStr ''get_health'')] ''action'' = Some (JStr ''get_health'')"
    by simp
  have s: "sample_shell = shell_run sample_runtime (shell_new True) [ShellStart 0]"
    by (simp add: sample_shell_def shell_run_def)
  have st: "s_status sample_shell = ''running''"
    by (simp add: sample_shell_eq)
  have gh: "shell_get_health sample_runtime sample_shell sample_action_env = Inr ?h"
    by (simp add: shell_get_health_def sample_shell_eq shell_new_def)
  from t [THEN conjunct1] r run
  have d1: "dh_status (disk_get_health sample_restarted [] 1 2) = ''healthy''"
    by simp
  from t [THEN conjunct1] r act
  have d2: "disk_dispatch sample_runtime sample_restarted (sample_env 1) []
        (JObj [(''action'', JStr ''get_health'')])
        = (Inr (with_data (new_response (JStr ''get_health''))
                  (DiskHealth (disk_get_health sample_restarted []
                     (de_now (sample_env 1)) (de_stamp (sample_env 1))))), sample_restarted)"
    by blast
  from t [THEN conjunct2] s gh st
  have s1: "sh_status ?h = ''healthy''"
    by blast
  from t [THEN conjunct2] s act
  have s2: "snd (shell_dispatch sample_runtime sample_failure (sample_shell, []) sample_action_env
             (JObj [(''action'', JStr ''get_health'')])) = (sample_shell, [])"
    by blast
  from r run d1 act d2 s st gh s1 s2 show ?thesis by blast
qed

end
